theory Spec2Isabelle
  imports Complex_Main "HOL-Library.Sublist"
begin

section \<open>Numbers, optional values and run-time errors\<close>

text \<open>
  A JavaScript number is an IEEE 754 double. A finite double is a real number, so numbers
  are kept in \<^typ>\<open>real\<close>; what an arithmetic operation of the source computes is not
  the exact result but the double nearest to it. That rounding is the argument \<open>rnd\<close>
  of every function below that computes: \<^verbatim>\<open>a + b\<close> is \<open>fadd rnd a b\<close>, that is
  \<open>rnd (a + b)\<close>, and likewise for the other three operations; a decimal literal such as
  \<^verbatim>\<open>0.35\<close> is the double \<open>rnd 0.35\<close>, while a literal that is a whole number is
  that number. Comparisons, \<^verbatim>\<open>Math.max\<close>, \<^verbatim>\<open>Math.min\<close>, \<^verbatim>\<open>Math.abs\<close> and the
  unary minus are exact on doubles. The statements proved below hold for every \<open>rnd\<close>;
  the examples are evaluated with \<open>binary64\<close>, the rounding to the nearest number with
  53 significant bits, ties to the even one. The range of the exponent is not bounded
  there: overflow and the subnormal numbers are outside the model, and so are
  \<^verbatim>\<open>NaN\<close>, the infinities and the sign of zero.

  A field that the TypeScript interface marks optional, or that the code itself compares
  with \<^verbatim>\<open>undefined\<close>, is an \<^typ>\<open>'a option\<close> with \<^term>\<open>None\<close> for the absent
  value.

  The only way the forecasting code could fail is the \<^verbatim>\<open>TypeError\<close> that
  JavaScript throws when a property is read from \<^verbatim>\<open>undefined\<close>. Such a read is
  written \<open>deref\<close>, and a computation that can throw returns \<open>error + 'a\<close>.
\<close>

type_synonym rounding = "real \<Rightarrow> real"

definition fadd :: "rounding \<Rightarrow> real \<Rightarrow> real \<Rightarrow> real" where
  "fadd rnd a b = rnd (a + b)"

definition fsub :: "rounding \<Rightarrow> real \<Rightarrow> real \<Rightarrow> real" where
  "fsub rnd a b = rnd (a - b)"

definition fmul :: "rounding \<Rightarrow> real \<Rightarrow> real \<Rightarrow> real" where
  "fmul rnd a b = rnd (a * b)"

definition fdiv :: "rounding \<Rightarrow> real \<Rightarrow> real \<Rightarrow> real" where
  "fdiv rnd a b = rnd (a / b)"

text \<open>
  Rounding to the nearest integer, a tie going to the even one: the rounding of a
  significand.
\<close>

definition round_half_even :: "real \<Rightarrow> int" where
  "round_half_even x =
     (let f = \<lfloor>x\<rfloor>; d = x - of_int f
      in if d < 1 / 2 then f else if 1 / 2 < d then f + 1 else if even f then f else f + 1)"

text \<open>
  \<open>nearest n x\<close>, for a positive \<open>x\<close>: \<open>x\<close> is scaled by powers of two into
  \<open>[2^52, 2^53)\<close>, rounded to an integer there and scaled back. The first argument
  bounds the number of scaling steps; no double needs more than 1126 of them.
\<close>

fun nearest :: "nat \<Rightarrow> real \<Rightarrow> real" where
  "nearest 0 x = x"
| "nearest (Suc n) x =
     (if x < 4503599627370496 then nearest n (2 * x) / 2
      else if 9007199254740992 \<le> x then 2 * nearest n (x / 2)
      else of_int (round_half_even x))"

definition binary64 :: rounding where
  "binary64 x =
     (if x = 0 then 0 else if x < 0 then - nearest 2200 (- x) else nearest 2200 x)"

datatype error = TypeError | SyntaxError | SdkError | StorageError

definition deref :: "'a option \<Rightarrow> error + 'a" where
  "deref x = (case x of None \<Rightarrow> Inl TypeError | Some v \<Rightarrow> Inr v)"

definition bindE :: "error + 'a \<Rightarrow> ('a \<Rightarrow> error + 'b) \<Rightarrow> error + 'b" where
  "bindE m f = (case m of Inl e \<Rightarrow> Inl e | Inr v \<Rightarrow> f v)"

text \<open>Truthiness of an optional object reference and of an optional number.\<close>

definition truthy_obj :: "'a option \<Rightarrow> bool" where
  "truthy_obj x = (case x of None \<Rightarrow> False | Some _ \<Rightarrow> True)"

definition truthy_num :: "real option \<Rightarrow> bool" where
  "truthy_num x = (case x of None \<Rightarrow> False | Some v \<Rightarrow> v \<noteq> 0)"

text \<open>\<^verbatim>\<open>x || d\<close> on an optional number.\<close>

definition num_or :: "real option \<Rightarrow> real \<Rightarrow> real" where
  "num_or x d = (case x of None \<Rightarrow> d | Some v \<Rightarrow> if v \<noteq> 0 then v else d)"

text \<open>
  \<^verbatim>\<open>Math.round\<close> rounds to the nearest integer, halves upwards; it is exact on a
  double.
\<close>

definition Math_round :: "real \<Rightarrow> int" where
  "Math_round x = \<lfloor>x + 1 / 2\<rfloor>"

text \<open>\<^verbatim>\<open>Math.max(lo, Math.min(hi, x))\<close>.\<close>

definition clamp :: "real \<Rightarrow> real \<Rightarrow> real \<Rightarrow> real" where
  "clamp lo hi x = max lo (min hi x)"

section \<open>The data model (types/Asset.ts)\<close>

datatype asset_type = Stock | Crypto

datatype news_sentiment = Positive | Negative | Neutral

record NewsArticle =
  title :: string
  description :: "string option"
  url :: string
  source :: string
  publishedAt :: string
  sentiment :: news_sentiment

record TechnicalIndicators =
  rsi :: "real option"
  macd :: "real option"
  sma20 :: "real option"
  sma50 :: "real option"

record SocialMetrics =
  twitterMentions :: "real option"
  redditPosts :: "real option"
  socialSentiment :: "real option"

record Asset =
  asset_id :: "string option"
  symbol :: string
  name :: string
  atype :: asset_type
  currentPrice :: real
  priceChange24h :: real
  volume24h :: "real option"
  marketCap :: "real option"
  sentimentScore :: real
  predictionGrowthProb :: real
  confidenceLevel :: real
  newsArticles :: "NewsArticle list option"
  technicalIndicators :: "TechnicalIndicators option"
  socialMetrics :: "SocialMetrics option"
  lastAnalyzed :: "string option"
  updatedAt :: "string option"

section \<open>The forecasting engine (ForecastingEngine)\<close>

record ForecastingConfig =
  sentimentWeight :: real
  technicalWeight :: real
  volumeWeight :: real
  socialWeight :: real
  timeHorizon :: real

definition default_config :: "rounding \<Rightarrow> ForecastingConfig" where
  "default_config rnd =
     \<lparr>sentimentWeight = rnd 0.35, technicalWeight = rnd 0.30, volumeWeight = rnd 0.20,
      socialWeight = rnd 0.15, timeHorizon = 7\<rparr>"

datatype direction = Bullish | Bearish | NeutralDirection

datatype risk_level = Low | Medium | High

text \<open>
  The reasoning lines are template strings; each is kept as a constructor that carries
  the number the template prints.
\<close>

datatype reasoning_line =
    StrongPositiveSentiment int
  | NegativeSentiment int
  | RsiOversold real
  | RsiOverbought real
  | HighTradingVolume
  | SignificantPriceMovement real
  | DefaultReasoning

record Prediction =
  price :: real
  direction :: direction
  confidence :: int
  timeframe_days :: real

record Factors =
  f_sentiment :: int
  f_technical :: int
  f_volume :: int
  f_social :: int

record Scores =
  s_sentiment :: real
  s_technical :: real
  s_volume :: real
  s_social :: real

record ForecastResult =
  prediction :: Prediction
  factors :: Factors
  riskLevel :: risk_level
  reasoning :: "reasoning_line list"

definition sentimentValue :: "rounding \<Rightarrow> NewsArticle \<Rightarrow> real" where
  "sentimentValue rnd article =
     (if sentiment article = Positive then rnd 0.3
      else if sentiment article = Negative then - rnd 0.3 else 0)"

definition calculateSentimentImpact :: "rounding \<Rightarrow> Asset \<Rightarrow> error + real" where
  "calculateSentimentImpact rnd asset =
     (let impact = num_or (Some (sentimentScore asset)) 0 in
      bindE
        (if truthy_obj (newsArticles asset) then
           bindE (deref (newsArticles asset)) (\<lambda>articles.
             if length articles > 0 then
               (let newsImpact =
                      fdiv rnd
                        (foldl (\<lambda>acc article. fadd rnd acc (sentimentValue rnd article)) 0 articles)
                        (real (length articles))
                in Inr (fdiv rnd (fadd rnd impact newsImpact) 2))
             else Inr impact)
         else Inr impact)
        (\<lambda>impact'. Inr (clamp (- 1) 1 impact')))"

text \<open>
  The three blocks of \<open>calculateTechnicalScore\<close>, each a step on the pair of the
  running \<open>score\<close> and the count \<open>factors\<close>.
\<close>

definition rsi_step :: "rounding \<Rightarrow> TechnicalIndicators \<Rightarrow> real \<times> nat \<Rightarrow> real \<times> nat" where
  "rsi_step rnd indicators acc =
     (case rsi indicators of
        None \<Rightarrow> acc
      | Some r \<Rightarrow>
          (if r < 30 then fadd rnd (fst acc) (rnd 0.5)
           else if r > 70 then fsub rnd (fst acc) (rnd 0.5)
           else fadd rnd (fst acc) (fdiv rnd (fsub rnd 50 r) 100),
           snd acc + 1))"

definition macd_step :: "rounding \<Rightarrow> TechnicalIndicators \<Rightarrow> real \<times> nat \<Rightarrow> real \<times> nat" where
  "macd_step rnd indicators acc =
     (case macd indicators of
        None \<Rightarrow> acc
      | Some m \<Rightarrow> (fadd rnd (fst acc) (if m > 0 then rnd 0.3 else - rnd 0.3), snd acc + 1))"

definition sma_step :: "rounding \<Rightarrow> real \<Rightarrow> TechnicalIndicators \<Rightarrow> real \<times> nat \<Rightarrow> real \<times> nat" where
  "sma_step rnd cp indicators acc =
     (if truthy_num (sma20 indicators) \<and> truthy_num (sma50 indicators) then
        (case (sma20 indicators, sma50 indicators) of
           (Some s20, Some s50) \<Rightarrow>
             (if cp > s20 \<and> s20 > s50 then fadd rnd (fst acc) (rnd 0.4)
              else if cp < s20 \<and> s20 < s50 then fsub rnd (fst acc) (rnd 0.4)
              else fst acc,
              snd acc + 1)
         | _ \<Rightarrow> acc)
      else acc)"

definition calculateTechnicalScore :: "rounding \<Rightarrow> Asset \<Rightarrow> error + real" where
  "calculateTechnicalScore rnd asset =
     (let indicators = technicalIndicators asset in
      if \<not> truthy_obj indicators then Inr 0
      else bindE (deref indicators) (\<lambda>ind.
        let acc = sma_step rnd (currentPrice asset) ind
                    (macd_step rnd ind (rsi_step rnd ind (0, 0)));
            score = fst acc;
            factors = snd acc
        in Inr (if factors > 0 then fdiv rnd score (real factors) else 0)))"

definition calculateVolumeScore :: "rounding \<Rightarrow> Asset \<Rightarrow> error + real" where
  "calculateVolumeScore rnd asset =
     (if \<not> truthy_num (volume24h asset) then Inr 0
      else
        (let volumeThreshold = 1000000;
             highVolume = (case volume24h asset of None \<Rightarrow> False
                           | Some v \<Rightarrow> v > volumeThreshold)
         in if highVolume \<and> priceChange24h asset > 2 then Inr (rnd 0.4)
            else if highVolume \<and> priceChange24h asset < - 2 then Inr (- rnd 0.4)
            else if \<not> highVolume \<and> \<bar>priceChange24h asset\<bar> > 5 then Inr (- rnd 0.2)
            else Inr (rnd 0.1)))"

definition calculateSocialScore :: "rounding \<Rightarrow> Asset \<Rightarrow> error + real" where
  "calculateSocialScore rnd asset =
     (let social = socialMetrics asset in
      if \<not> truthy_obj social then Inr 0
      else bindE (deref social) (\<lambda>soc.
        let score0 = (case socialSentiment soc of
                        None \<Rightarrow> 0
                      | Some ss \<Rightarrow> fadd rnd 0 (fmul rnd (fsub rnd ss (rnd 0.5)) (rnd 0.6)));
            totalMentions = fadd rnd (num_or (twitterMentions soc) 0) (num_or (redditPosts soc) 0);
            score = (if totalMentions > 1000 then fadd rnd score0 (rnd 0.2)
                     else if totalMentions > 100 then fadd rnd score0 (rnd 0.1) else score0)
        in Inr (clamp (- 1) 1 score)))"

text \<open>\<^verbatim>\<open>Math.random()\<close> is the argument \<open>random\<close>.\<close>

definition predictPrice :: "rounding \<Rightarrow> Asset \<Rightarrow> real \<Rightarrow> real \<Rightarrow> real" where
  "predictPrice rnd asset compositeScore random =
     (let volatility = (if atype asset = Crypto then rnd 0.15 else rnd 0.08);
          baseChange = fmul rnd compositeScore volatility;
          randomFactor = fmul rnd (fsub rnd random (rnd 0.5)) (rnd 0.05);
          momentum = fmul rnd (fdiv rnd (priceChange24h asset) 100) (rnd 0.3);
          totalChange = fadd rnd (fadd rnd baseChange randomFactor) momentum
      in fmul rnd (currentPrice asset) (fadd rnd 1 totalChange))"

definition values_of :: "Scores \<Rightarrow> real list" where
  "values_of scores = [s_sentiment scores, s_technical scores, s_volume scores, s_social scores]"

definition calculateConfidence :: "rounding \<Rightarrow> Asset \<Rightarrow> Scores \<Rightarrow> error + real" where
  "calculateConfidence rnd asset scores =
     (let c0 = rnd 0.5;
          c1 = (if truthy_obj (technicalIndicators asset) then fadd rnd c0 (rnd 0.15) else c0);
          c2 = (if truthy_obj (socialMetrics asset) then fadd rnd c1 (rnd 0.15) else c1)
      in bindE
           (if truthy_obj (newsArticles asset) then
              bindE (deref (newsArticles asset)) (\<lambda>articles.
                Inr (if length articles > 0 then fadd rnd c2 (rnd 0.1) else c2))
            else Inr c2)
           (\<lambda>c3.
             let c4 = (if truthy_num (volume24h asset) then fadd rnd c3 (rnd 0.1) else c3);
                 scoreValues = filter (\<lambda>s. s \<noteq> 0) (values_of scores);
                 c5 = (if length scoreValues > 0 then
                         (let avgScore =
                                fdiv rnd (foldl (\<lambda>a b. fadd rnd a b) 0 scoreValues)
                                  (real (length scoreValues));
                              consistency =
                                fsub rnd 1
                                  (fdiv rnd
                                     (foldl (\<lambda>acc score. fadd rnd acc \<bar>fsub rnd score avgScore\<bar>)
                                        0 scoreValues)
                                     (real (length scoreValues)))
                          in fadd rnd c4 (fmul rnd consistency (rnd 0.2)))
                       else c4)
             in Inr (clamp (rnd 0.1) (rnd 0.95) c5)))"

definition assessRisk :: "rounding \<Rightarrow> Asset \<Rightarrow> real \<Rightarrow> risk_level" where
  "assessRisk rnd asset conf =
     (if conf > rnd 0.8 \<and> \<bar>priceChange24h asset\<bar> < 5 then Low
      else if conf > rnd 0.6 \<and> \<bar>priceChange24h asset\<bar> < 10 then Medium
      else High)"

definition generateReasoning :: "rounding \<Rightarrow> Asset \<Rightarrow> Scores \<Rightarrow> error + reasoning_line list" where
  "generateReasoning rnd asset scores =
     (let r1 = (if s_sentiment scores > rnd 0.3
                  then [StrongPositiveSentiment (Math_round (fmul rnd (s_sentiment scores) 100))]
                else if s_sentiment scores < - rnd 0.3
                  then [NegativeSentiment (Math_round (fmul rnd (s_sentiment scores) 100))]
                else [])
      in bindE
           (if truthy_num (case technicalIndicators asset of None \<Rightarrow> None
                           | Some ind \<Rightarrow> rsi ind) then
              bindE (deref (technicalIndicators asset)) (\<lambda>ind.
              bindE (deref (rsi ind)) (\<lambda>r.
                Inr (if r < 30 then r1 @ [RsiOversold r]
                     else if r > 70 then r1 @ [RsiOverbought r] else r1)))
            else Inr r1)
           (\<lambda>r2.
             let r3 = (if truthy_num (volume24h asset)
                          \<and> (case volume24h asset of None \<Rightarrow> False | Some v \<Rightarrow> v > 1000000)
                       then r2 @ [HighTradingVolume] else r2);
                 r4 = (if \<bar>priceChange24h asset\<bar> > 5
                       then r3 @ [SignificantPriceMovement (priceChange24h asset)] else r3)
             in Inr (if length r4 > 0 then r4 else [DefaultReasoning])))"

text \<open>The weighted sum, added from left to right as the source writes it.\<close>

definition compositeScore :: "rounding \<Rightarrow> ForecastingConfig \<Rightarrow> Scores \<Rightarrow> real" where
  "compositeScore rnd config scores =
     fadd rnd
       (fadd rnd
          (fadd rnd (fmul rnd (s_sentiment scores) (sentimentWeight config))
                    (fmul rnd (s_technical scores) (technicalWeight config)))
          (fmul rnd (s_volume scores) (volumeWeight config)))
       (fmul rnd (s_social scores) (socialWeight config))"

definition direction_of :: "rounding \<Rightarrow> real \<Rightarrow> direction" where
  "direction_of rnd composite =
     (if composite > rnd 0.1 then Bullish
      else if composite < - rnd 0.1 then Bearish else NeutralDirection)"

definition generateForecast :: "rounding \<Rightarrow> ForecastingConfig \<Rightarrow> Asset \<Rightarrow> real \<Rightarrow> error + ForecastResult" where
  "generateForecast rnd config asset random =
     bindE (calculateSentimentImpact rnd asset) (\<lambda>sentimentScore.
     bindE (calculateTechnicalScore rnd asset) (\<lambda>technicalScore.
     bindE (calculateVolumeScore rnd asset) (\<lambda>volumeScore.
     bindE (calculateSocialScore rnd asset) (\<lambda>socialScore.
       let scores = \<lparr>s_sentiment = sentimentScore, s_technical = technicalScore,
                     s_volume = volumeScore, s_social = socialScore\<rparr>;
           composite = compositeScore rnd config scores;
           pricePrediction = predictPrice rnd asset composite random
       in bindE (calculateConfidence rnd asset scores) (\<lambda>conf.
          let risk = assessRisk rnd asset conf
          in bindE (generateReasoning rnd asset scores) (\<lambda>reasons.
             Inr \<lparr>prediction =
                    \<lparr>price = pricePrediction,
                     direction = direction_of rnd composite,
                     confidence = Math_round (fmul rnd conf 100),
                     timeframe_days = timeHorizon config\<rparr>,
                  factors =
                    \<lparr>f_sentiment = Math_round (fmul rnd sentimentScore 100),
                     f_technical = Math_round (fmul rnd technicalScore 100),
                     f_volume = Math_round (fmul rnd volumeScore 100),
                     f_social = Math_round (fmul rnd socialScore 100)\<rparr>,
                  riskLevel = risk,
                  reasoning = reasons\<rparr>))))))"

section \<open>Effects of the hooks and pages\<close>

text \<open>
  A hook or page handler runs against the hosted SDK and the browser. What it does there
  is recorded in a \<open>world\<close>: the SDK calls it issued, in order, the toasts it showed and
  the errors it logged. The SDK is not part of the repository, so its answers are inputs:
  the answer to the \<open>n\<close>-th call (counting all calls of the world) is read from an
  \<open>sdk\<close> environment, and may be a rejection. A handler is a function from the state to
  either a thrown error or a value, and the new state; \<^verbatim>\<open>try\<close>/\<^verbatim>\<open>catch\<close>/\<^verbatim>\<open>finally\<close>
  are combinators on such functions.
\<close>

datatype toast = ToastError string | ToastSuccess string

record User =
  userId :: string
  email :: string
  userName :: string
  createdTime :: string

text \<open>What \<open>useAuth\<close> gave the component at the render whose handlers run.\<close>

record Auth =
  user :: "User option"
  isAuthenticated :: bool

datatype 'a sdk_result = Rejected | Resolved 'a

type_synonym timestamp = int

datatype alert_type = PriceUp | PriceDown | SentimentChange | VolumeSpike

record Alert =
  alert_id :: "string option"
  alert_userId :: string
  assetSymbol :: string
  alertType :: alert_type
  threshold :: real
  currentValue :: real
  triggered :: bool
  message :: string
  createdAt :: timestamp
  triggeredAt :: "timestamp option"

record AlertConfig =
  c_assetSymbol :: string
  c_type :: alert_type
  c_threshold :: real
  c_enabled :: bool

text \<open>The object literal that \<open>createAlert\<close> sends.\<close>

record AlertData =
  d_userId :: string
  d_assetSymbol :: string
  d_type :: alert_type
  d_threshold :: real
  d_currentValue :: real
  d_triggered :: bool
  d_message :: string
  d_createdAt :: timestamp
  d_creator :: string

text \<open>
  \<^verbatim>\<open>Partial<Alert>\<close>, with the fields that the callers of \<open>updateAlert\<close> set.
\<close>

record AlertUpdates =
  u_triggered :: "bool option"
  u_currentValue :: "real option"
  u_triggeredAt :: "timestamp option"

datatype plan = Free | Pro | Premium

datatype sub_status = Active | Cancelled | Expired

record Subscription =
  sub_id :: "string option"
  sub_userId :: string
  sub_plan :: plan
  sub_status :: sub_status
  startDate :: timestamp
  endDate :: "timestamp option"
  sub_promoCode :: "string option"

text \<open>The object literal that \<open>handlePromoCode\<close> sends.\<close>

record SubscriptionData =
  sd_userId :: "string option"
  sd_plan :: plan
  sd_status :: sub_status
  sd_startDate :: timestamp
  sd_endDate :: timestamp
  sd_promoCode :: string
  sd_creator :: "string option"
  sd_createdAt :: timestamp
  sd_updatedAt :: timestamp

datatype sdk_call =
    AssetsList
  | AssetsUpdate "string option" Asset
  | AlertsList
  | AlertsCreate AlertData
  | AlertsUpdate "string option" AlertUpdates
  | AlertsDelete "string option"
  | SubscriptionsList
  | SubscriptionsCreate SubscriptionData
  | SubscriptionsUpdate "string option" SubscriptionData

record sdk =
  assets_list :: "nat \<Rightarrow> Asset list sdk_result"
  alerts_list :: "nat \<Rightarrow> Alert list sdk_result"
  subscriptions_list :: "nat \<Rightarrow> Subscription list sdk_result"
  write_result :: "nat \<Rightarrow> unit sdk_result"
  alerts_entity :: bool

record world =
  calls :: "sdk_call list"
  toasts :: "toast list"
  console :: "string list"

type_synonym ('s, 'a) action = "'s \<Rightarrow> (error + 'a) \<times> 's"

definition returnA :: "'a \<Rightarrow> ('s, 'a) action" where
  "returnA v s = (Inr v, s)"

definition bindA :: "('s, 'a) action \<Rightarrow> ('a \<Rightarrow> ('s, 'b) action) \<Rightarrow> ('s, 'b) action" where
  "bindA m f s = (case m s of (Inl e, s') \<Rightarrow> (Inl e, s') | (Inr v, s') \<Rightarrow> f v s')"

definition thenA :: "('s, 'a) action \<Rightarrow> ('s, 'b) action \<Rightarrow> ('s, 'b) action" where
  "thenA m n = bindA m (\<lambda>_. n)"

definition modify :: "('s \<Rightarrow> 's) \<Rightarrow> ('s, unit) action" where
  "modify f s = (Inr (), f s)"

definition try_catch :: "('s, 'a) action \<Rightarrow> (error \<Rightarrow> ('s, 'a) action) \<Rightarrow> ('s, 'a) action" where
  "try_catch body handler s =
     (case body s of (Inl e, s') \<Rightarrow> handler e s' | (Inr v, s') \<Rightarrow> (Inr v, s'))"

definition try_finally :: "('s, 'a) action \<Rightarrow> ('s, unit) action \<Rightarrow> ('s, 'a) action" where
  "try_finally body fin s =
     (case body s of (r, s') \<Rightarrow>
        (case fin s' of (Inl e, s'') \<Rightarrow> (Inl e, s'') | (Inr _, s'') \<Rightarrow> (r, s'')))"

definition throwA :: "error \<Rightarrow> ('s, 'a) action" where
  "throwA e s = (Inl e, s)"

definition liftE :: "error + 'a \<Rightarrow> ('s, 'a) action" where
  "liftE r s = (r, s)"

definition toast_error :: "string \<Rightarrow> ('a world_scheme, unit) action" where
  "toast_error msg = modify (\<lambda>s. s\<lparr>toasts := toasts s @ [ToastError msg]\<rparr>)"

definition toast_success :: "string \<Rightarrow> ('a world_scheme, unit) action" where
  "toast_success msg = modify (\<lambda>s. s\<lparr>toasts := toasts s @ [ToastSuccess msg]\<rparr>)"

definition console_error :: "string \<Rightarrow> ('a world_scheme, unit) action" where
  "console_error msg = modify (\<lambda>s. s\<lparr>console := console s @ [msg]\<rparr>)"

text \<open>
  Issuing an SDK call: the call is appended to the trace and the promise settles as the
  environment says for a call at that position.
\<close>

definition sdk_request :: "sdk_call \<Rightarrow> (nat \<Rightarrow> 'r sdk_result) \<Rightarrow> ('a world_scheme, 'r) action" where
  "sdk_request c answer s =
     (case answer (length (calls s)) of
        Rejected \<Rightarrow> (Inl SdkError, s\<lparr>calls := calls s @ [c]\<rparr>)
      | Resolved r \<Rightarrow> (Inr r, s\<lparr>calls := calls s @ [c]\<rparr>))"

text \<open>A \<^verbatim>\<open>for ... of\<close> loop with \<^verbatim>\<open>await\<close> in its body: the first throw ends it.\<close>

fun for_each :: "('x \<Rightarrow> ('s, unit) action) \<Rightarrow> 'x list \<Rightarrow> ('s, unit) action" where
  "for_each body [] = returnA ()"
| "for_each body (x # xs) = thenA (body x) (for_each body xs)"


section \<open>The polling refresh (useDataRefresh)\<close>

text \<open>The five \<^verbatim>\<open>Math.random()\<close> draws made for one asset, in the order of the source.\<close>

record draws =
  r_price :: real
  r_sentiment :: real
  r_confidence :: real
  r_volume :: real
  r_change :: real

definition updatedAsset :: "rounding \<Rightarrow> Asset \<Rightarrow> draws \<Rightarrow> string \<Rightarrow> Asset" where
  "updatedAsset rnd asset d timestamp =
     (let baseVolatility = (if atype asset = Crypto then rnd 0.08 else rnd 0.03);
          priceVariation = fmul rnd (fsub rnd (r_price d) (rnd 0.5)) baseVolatility;
          sentimentVariation = fmul rnd (fsub rnd (r_sentiment d) (rnd 0.5)) (rnd 0.3);
          confidenceVariation = fmul rnd (fsub rnd (r_confidence d) (rnd 0.5)) (rnd 0.1);
          volumeVariation = fadd rnd 1 (fmul rnd (fsub rnd (r_volume d) (rnd 0.5)) (rnd 0.5))
      in asset
           \<lparr>currentPrice :=
              max (rnd 0.000001) (fmul rnd (currentPrice asset) (fadd rnd 1 priceVariation)),
            priceChange24h :=
              fadd rnd (priceChange24h asset) (fmul rnd (fsub rnd (r_change d) (rnd 0.5)) 4),
            sentimentScore :=
              clamp (- 1) 1 (fadd rnd (sentimentScore asset) sentimentVariation),
            confidenceLevel :=
              clamp 10 100 (fadd rnd (confidenceLevel asset) (fmul rnd confidenceVariation 20)),
            volume24h := (if truthy_num (volume24h asset)
                          then map_option (\<lambda>v. fmul rnd v volumeVariation) (volume24h asset)
                          else None),
            lastAnalyzed := Some timestamp,
            updatedAt := Some timestamp\<rparr>)"

record refresh_state = world +
  lastRefresh :: timestamp
  isRefreshing :: bool

text \<open>
  \<open>random i\<close> are the draws for the \<open>i\<close>-th asset of the list; \<open>timestamp\<close> and \<open>now\<close>
  are the two clock readings.
\<close>

definition refreshData :: "rounding \<Rightarrow> sdk \<Rightarrow> (nat \<Rightarrow> draws) \<Rightarrow> string \<Rightarrow> timestamp \<Rightarrow> (refresh_state, unit) action" where
  "refreshData rnd env random timestamp now =
     thenA (modify (\<lambda>s. s\<lparr>isRefreshing := True\<rparr>))
       (try_finally
          (try_catch
             (bindA (sdk_request AssetsList (assets_list env)) (\<lambda>assets.
                thenA
                  (for_each
                     (\<lambda>(i, asset).
                        thenA
                          (sdk_request (AssetsUpdate (asset_id asset)
                                          (updatedAsset rnd asset (random i) timestamp))
                             (write_result env))
                          (returnA ()))
                     (enumerate 0 assets))
                  (modify (\<lambda>s. s\<lparr>lastRefresh := now\<rparr>))))
             (\<lambda>e. thenA (console_error ''Failed to refresh data:'')
                         (toast_error ''Failed to refresh live data'')))
          (modify (\<lambda>s. s\<lparr>isRefreshing := False\<rparr>)))"

section \<open>The alerts hook (useAlerts)\<close>

record alerts_state = world +
  alerts :: "Alert list"
  loading :: bool
  notifications :: "string list"

text \<open>
  \<^verbatim>\<open>lumi.entities.alerts?.m(...)\<close>: nothing is called when the SDK has no \<open>alerts\<close>
  entity, and the awaited value is then \<^verbatim>\<open>undefined\<close>.
\<close>

definition alerts_request :: "sdk \<Rightarrow> sdk_call \<Rightarrow> (nat \<Rightarrow> 'r sdk_result) \<Rightarrow> ('a world_scheme, 'r option) action" where
  "alerts_request env c answer =
     (if alerts_entity env then bindA (sdk_request c answer) (\<lambda>r. returnA (Some r))
      else returnA None)"

definition fetchAlerts :: "sdk \<Rightarrow> Auth \<Rightarrow> (alerts_state, unit) action" where
  "fetchAlerts env auth =
     (if \<not> isAuthenticated auth \<or> \<not> truthy_obj (user auth) then returnA ()
      else
        try_finally
          (try_catch
             (thenA (modify (\<lambda>s. s\<lparr>loading := True\<rparr>))
                (bindA (alerts_request env AlertsList (alerts_list env)) (\<lambda>response.
                   let list = (case response of None \<Rightarrow> [] | Some l \<Rightarrow> l) in
                   bindA (liftE (deref (user auth))) (\<lambda>u.
                     let userAlerts = filter (\<lambda>alert. alert_userId alert = userId u) list
                     in modify (\<lambda>s. s\<lparr>alerts := userAlerts\<rparr>)))))
             (\<lambda>e. console_error ''Failed to fetch alerts:''))
          (modify (\<lambda>s. s\<lparr>loading := False\<rparr>)))"

text \<open>
  \<^verbatim>\<open>toLocaleString\<close> and the default number-to-string conversion are the browser's;
  they are arguments.
\<close>

record number_format =
  toLocaleString :: "real \<Rightarrow> string"
  toString :: "real \<Rightarrow> string"

definition generateAlertMessage :: "number_format \<Rightarrow> AlertConfig \<Rightarrow> string" where
  "generateAlertMessage fmt config =
     (case c_type config of
        PriceUp \<Rightarrow> ''Price reached $'' @ toLocaleString fmt (c_threshold config)
      | PriceDown \<Rightarrow> ''Price dropped to $'' @ toLocaleString fmt (c_threshold config)
      | SentimentChange \<Rightarrow>
          ''Sentiment changed significantly ('' @ toString fmt (c_threshold config) @ ''%)''
      | VolumeSpike \<Rightarrow>
          ''Volume spike detected ('' @ toLocaleString fmt (c_threshold config) @ '')'')"

definition createAlert :: "sdk \<Rightarrow> Auth \<Rightarrow> number_format \<Rightarrow> timestamp \<Rightarrow> AlertConfig \<Rightarrow> (alerts_state, bool) action" where
  "createAlert env auth fmt now config =
     (if \<not> isAuthenticated auth \<or> \<not> truthy_obj (user auth) then
        thenA (toast_error ''Please sign in to create alerts'') (returnA False)
      else
        try_catch
          (bindA (liftE (deref (user auth))) (\<lambda>u.
             let alertData =
                   \<lparr>d_userId = userId u,
                    d_assetSymbol = c_assetSymbol config,
                    d_type = c_type config,
                    d_threshold = c_threshold config,
                    d_currentValue = 0,
                    d_triggered = False,
                    d_message = generateAlertMessage fmt config,
                    d_createdAt = now,
                    d_creator = userId u\<rparr>
             in thenA (alerts_request env (AlertsCreate alertData) (write_result env))
                  (thenA (fetchAlerts env auth)
                     (thenA (toast_success (''Alert created for '' @ c_assetSymbol config))
                        (returnA True)))))
          (\<lambda>e. thenA (console_error ''Failed to create alert:'')
                   (thenA (toast_error ''Failed to create alert'') (returnA False))))"

definition updateAlert :: "sdk \<Rightarrow> Auth \<Rightarrow> string option \<Rightarrow> AlertUpdates \<Rightarrow> (alerts_state, unit) action" where
  "updateAlert env auth alertId updates =
     try_catch
       (thenA (alerts_request env (AlertsUpdate alertId updates) (write_result env))
          (thenA (fetchAlerts env auth) (toast_success ''Alert updated'')))
       (\<lambda>e. thenA (console_error ''Failed to update alert:'')
                (toast_error ''Failed to update alert''))"

definition deleteAlert :: "sdk \<Rightarrow> Auth \<Rightarrow> string option \<Rightarrow> (alerts_state, unit) action" where
  "deleteAlert env auth alertId =
     try_catch
       (thenA (alerts_request env (AlertsDelete alertId) (write_result env))
          (thenA (fetchAlerts env auth) (toast_success ''Alert deleted'')))
       (\<lambda>e. thenA (console_error ''Failed to delete alert:'')
                (toast_error ''Failed to delete alert''))"





section \<open>Translations (LanguageContext)\<close>

datatype language = En | Sk

record Translation =
  en :: string
  sk :: string

text \<open>
  The table of the source, entry for entry. A character outside ASCII is written as
  the bytes of its UTF-8 encoding.
\<close>

definition translations_table :: "(string \<times> Translation) list" where
  "translations_table =
     [(''nav.dashboard'', \<lparr>en = ''Dashboard'', sk = ''Preh'' @ [CHR 0xC4, CHR 0xBE] @ ''ad''\<rparr>),
      (''nav.analysis'', \<lparr>en = ''Analysis'', sk = ''Anal'' @ [CHR 0xC3, CHR 0xBD] @ ''za''\<rparr>),
      (''nav.alerts'', \<lparr>en = ''Alerts'', sk = ''Upozornenia''\<rparr>),
      (''nav.subscription'', \<lparr>en = ''Subscription'', sk = ''Predplatn'' @ [CHR 0xC3, CHR 0xA9]\<rparr>),
      (''nav.settings'', \<lparr>en = ''Settings'', sk = ''Nastavenia''\<rparr>),
      (''nav.signIn'', \<lparr>en = ''Sign In'', sk = ''Prihl'' @ [CHR 0xC3, CHR 0xA1] @ ''si'' @ [CHR 0xC5, CHR 0xA5] @ '' sa''\<rparr>),
      (''nav.signOut'', \<lparr>en = ''Sign Out'', sk = ''Odhl'' @ [CHR 0xC3, CHR 0xA1] @ ''si'' @ [CHR 0xC5, CHR 0xA5] @ '' sa''\<rparr>),
      (''dashboard.title'', \<lparr>en = ''Market Sentiment Dashboard'', sk = ''Preh'' @ [CHR 0xC4, CHR 0xBE] @ ''ad n'' @ [CHR 0xC3, CHR 0xA1] @ ''lady trhu''\<rparr>),
      (''dashboard.subtitle'', \<lparr>en = ''Track real-time sentiment and predictions for your favorite assets'', sk = ''Sledujte n'' @ [CHR 0xC3, CHR 0xA1] @ ''ladu a predpovede va'' @ [CHR 0xC5, CHR 0xA1] @ ''ich ob'' @ [CHR 0xC4, CHR 0xBE, CHR 0xC3, CHR 0xBA] @ ''ben'' @ [CHR 0xC3, CHR 0xBD] @ ''ch akt'' @ [CHR 0xC3, CHR 0xAD] @ ''v v re'' @ [CHR 0xC3, CHR 0xA1] @ ''lnom '' @ [CHR 0xC4, CHR 0x8D] @ ''ase''\<rparr>),
      (''dashboard.addAsset'', \<lparr>en = ''Add Asset'', sk = ''Prida'' @ [CHR 0xC5, CHR 0xA5] @ '' akt'' @ [CHR 0xC3, CHR 0xAD] @ ''vum''\<rparr>),
      (''dashboard.searchPlaceholder'', \<lparr>en = ''Search stocks or crypto...'', sk = ''H'' @ [CHR 0xC4, CHR 0xBE] @ ''ada'' @ [CHR 0xC5, CHR 0xA5] @ '' akcie alebo krypto...''\<rparr>),
      (''dashboard.noAssets'', \<lparr>en = ''No tracked assets yet'', sk = ''Zatia'' @ [CHR 0xC4, CHR 0xBE] @ '' '' @ [CHR 0xC5, CHR 0xBE] @ ''iadne sledovan'' @ [CHR 0xC3, CHR 0xA9] @ '' akt'' @ [CHR 0xC3, CHR 0xAD] @ ''va''\<rparr>),
      (''dashboard.startTracking'', \<lparr>en = ''Start tracking your first asset to see sentiment analysis and predictions.'', sk = ''Za'' @ [CHR 0xC4, CHR 0x8D] @ ''nite sledova'' @ [CHR 0xC5, CHR 0xA5] @ '' svoje prv'' @ [CHR 0xC3, CHR 0xA9] @ '' akt'' @ [CHR 0xC3, CHR 0xAD] @ ''vum a uvid'' @ [CHR 0xC3, CHR 0xAD] @ ''te anal'' @ [CHR 0xC3, CHR 0xBD] @ ''zu n'' @ [CHR 0xC3, CHR 0xA1] @ ''lady a predpovede.''\<rparr>),
      (''dashboard.totalAssets'', \<lparr>en = ''Total Assets'', sk = ''Celkov'' @ [CHR 0xC3, CHR 0xA9] @ '' akt'' @ [CHR 0xC3, CHR 0xAD] @ ''va''\<rparr>),
      (''dashboard.positiveSignals'', \<lparr>en = ''Positive Signals'', sk = ''Pozit'' @ [CHR 0xC3, CHR 0xAD] @ ''vne sign'' @ [CHR 0xC3, CHR 0xA1] @ ''ly''\<rparr>),
      (''dashboard.averageConfidence'', \<lparr>en = ''Average Confidence'', sk = ''Priemern'' @ [CHR 0xC3, CHR 0xA1] @ '' spo'' @ [CHR 0xC4, CHR 0xBE] @ ''ahlivos'' @ [CHR 0xC5, CHR 0xA5]\<rparr>),
      (''dashboard.recentAlerts'', \<lparr>en = ''Recent Alerts'', sk = ''Najnov'' @ [CHR 0xC5, CHR 0xA1] @ ''ie upozornenia''\<rparr>),
      (''dashboard.marketOverview'', \<lparr>en = ''Market Overview'', sk = ''Preh'' @ [CHR 0xC4, CHR 0xBE] @ ''ad trhu''\<rparr>),
      (''dashboard.topMovers'', \<lparr>en = ''Top Movers'', sk = ''Najv'' @ [CHR 0xC3, CHR 0xA4, CHR 0xC4, CHR 0x8D, CHR 0xC5, CHR 0xA1] @ ''ie pohyby''\<rparr>),
      (''dashboard.sentimentTrends'', \<lparr>en = ''Sentiment Trends'', sk = ''Trendy n'' @ [CHR 0xC3, CHR 0xA1] @ ''lady''\<rparr>),
      (''settings.title'', \<lparr>en = ''Settings'', sk = ''Nastavenia''\<rparr>),
      (''settings.subtitle'', \<lparr>en = ''Manage your account preferences and application settings'', sk = ''Spravujte nastavenia '' @ [CHR 0xC3, CHR 0xBA, CHR 0xC4, CHR 0x8D] @ ''tu a aplik'' @ [CHR 0xC3, CHR 0xA1] @ ''cie''\<rparr>),
      (''settings.appearance'', \<lparr>en = ''Appearance'', sk = ''Vzh'' @ [CHR 0xC4, CHR 0xBE] @ ''ad''\<rparr>),
      (''settings.language'', \<lparr>en = ''Language'', sk = ''Jazyk''\<rparr>),
      (''settings.languageDesc'', \<lparr>en = ''Choose your preferred language'', sk = ''Vyberte si preferovan'' @ [CHR 0xC3, CHR 0xBD] @ '' jazyk''\<rparr>),
      (''settings.english'', \<lparr>en = ''English'', sk = ''Angli'' @ [CHR 0xC4, CHR 0x8D] @ ''tina''\<rparr>),
      (''settings.slovak'', \<lparr>en = ''Slovak'', sk = ''Sloven'' @ [CHR 0xC4, CHR 0x8D] @ ''ina''\<rparr>),
      (''settings.notifications'', \<lparr>en = ''Notifications'', sk = ''Upozornenia''\<rparr>),
      (''settings.notificationsDesc'', \<lparr>en = ''Configure your notification preferences'', sk = ''Nakonfigurujte nastavenia upozornen'' @ [CHR 0xC3, CHR 0xAD]\<rparr>),
      (''settings.emailNotifications'', \<lparr>en = ''Email Notifications'', sk = ''E-mailov'' @ [CHR 0xC3, CHR 0xA9] @ '' upozornenia''\<rparr>),
      (''settings.pushNotifications'', \<lparr>en = ''Push Notifications'', sk = ''Push upozornenia''\<rparr>),
      (''settings.account'', \<lparr>en = ''Account'', sk = [CHR 0xC3, CHR 0x9A, CHR 0xC4, CHR 0x8D] @ ''et''\<rparr>),
      (''settings.accountDesc'', \<lparr>en = ''Manage your account information'', sk = ''Spravujte inform'' @ [CHR 0xC3, CHR 0xA1] @ ''cie o '' @ [CHR 0xC3, CHR 0xBA, CHR 0xC4, CHR 0x8D] @ ''te''\<rparr>),
      (''settings.privacy'', \<lparr>en = ''Privacy'', sk = ''S'' @ [CHR 0xC3, CHR 0xBA] @ ''kromie''\<rparr>),
      (''settings.privacyDesc'', \<lparr>en = ''Your data privacy and security settings'', sk = ''Nastavenia s'' @ [CHR 0xC3, CHR 0xBA] @ ''kromia a bezpe'' @ [CHR 0xC4, CHR 0x8D] @ ''nosti d'' @ [CHR 0xC3, CHR 0xA1] @ ''t''\<rparr>),
      (''settings.support'', \<lparr>en = ''Support'', sk = ''Podpora''\<rparr>),
      (''settings.supportDesc'', \<lparr>en = ''Get help and contact our support team'', sk = ''Z'' @ [CHR 0xC3, CHR 0xAD] @ ''skajte pomoc a kontaktujte n'' @ [CHR 0xC3, CHR 0xA1, CHR 0xC5, CHR 0xA1] @ '' t'' @ [CHR 0xC3, CHR 0xAD] @ ''m podpory''\<rparr>),
      (''settings.viewPrivacyPolicy'', \<lparr>en = ''View Privacy Policy '' @ [CHR 0xE2, CHR 0x86, CHR 0x92], sk = ''Zobrazi'' @ [CHR 0xC5, CHR 0xA5] @ '' z'' @ [CHR 0xC3, CHR 0xA1] @ ''sady s'' @ [CHR 0xC3, CHR 0xBA] @ ''kromia '' @ [CHR 0xE2, CHR 0x86, CHR 0x92]\<rparr>),
      (''settings.contactSupport'', \<lparr>en = ''Contact Support '' @ [CHR 0xE2, CHR 0x86, CHR 0x92], sk = ''Kontaktova'' @ [CHR 0xC5, CHR 0xA5] @ '' podporu '' @ [CHR 0xE2, CHR 0x86, CHR 0x92]\<rparr>),
      (''settings.theme'', \<lparr>en = ''Theme'', sk = ''T'' @ [CHR 0xC3, CHR 0xA9] @ ''ma''\<rparr>),
      (''settings.themeDesc'', \<lparr>en = ''Choose your preferred theme'', sk = ''Vyberte si preferovan'' @ [CHR 0xC3, CHR 0xBA] @ '' t'' @ [CHR 0xC3, CHR 0xA9] @ ''mu''\<rparr>),
      (''settings.lightMode'', \<lparr>en = ''Light Mode'', sk = ''Svetl'' @ [CHR 0xC3, CHR 0xBD] @ '' re'' @ [CHR 0xC5, CHR 0xBE] @ ''im''\<rparr>),
      (''settings.darkMode'', \<lparr>en = ''Dark Mode'', sk = ''Tmav'' @ [CHR 0xC3, CHR 0xBD] @ '' re'' @ [CHR 0xC5, CHR 0xBE] @ ''im''\<rparr>),
      (''asset.track'', \<lparr>en = ''Track'', sk = ''Sledova'' @ [CHR 0xC5, CHR 0xA5]\<rparr>),
      (''asset.untrack'', \<lparr>en = ''Untrack'', sk = ''Presta'' @ [CHR 0xC5, CHR 0xA5] @ '' sledova'' @ [CHR 0xC5, CHR 0xA5]\<rparr>),
      (''asset.viewAnalysis'', \<lparr>en = ''View Analysis'', sk = ''Zobrazi'' @ [CHR 0xC5, CHR 0xA5] @ '' anal'' @ [CHR 0xC3, CHR 0xBD] @ ''zu''\<rparr>),
      (''asset.sentiment'', \<lparr>en = ''Sentiment'', sk = ''N'' @ [CHR 0xC3, CHR 0xA1] @ ''lada''\<rparr>),
      (''asset.prediction'', \<lparr>en = ''Prediction'', sk = ''Predpove'' @ [CHR 0xC4, CHR 0x8F]\<rparr>),
      (''asset.confidence'', \<lparr>en = ''Confidence'', sk = ''Spo'' @ [CHR 0xC4, CHR 0xBE] @ ''ahlivos'' @ [CHR 0xC5, CHR 0xA5]\<rparr>),
      (''asset.growth'', \<lparr>en = ''Growth'', sk = ''Rast''\<rparr>),
      (''asset.drop'', \<lparr>en = ''Drop'', sk = ''Pokles''\<rparr>),
      (''asset.price'', \<lparr>en = ''Price'', sk = ''Cena''\<rparr>),
      (''asset.currentPrice'', \<lparr>en = ''Current Price'', sk = ''Aktu'' @ [CHR 0xC3, CHR 0xA1] @ ''lna cena''\<rparr>),
      (''asset.change'', \<lparr>en = ''Change'', sk = ''Zmena''\<rparr>),
      (''asset.volume'', \<lparr>en = ''Volume'', sk = ''Objem''\<rparr>),
      (''asset.volume24h'', \<lparr>en = ''24h Volume'', sk = ''24h objem''\<rparr>),
      (''asset.marketCap'', \<lparr>en = ''Market Cap'', sk = ''Trhov'' @ [CHR 0xC3, CHR 0xA1] @ '' kapitaliz'' @ [CHR 0xC3, CHR 0xA1] @ ''cia''\<rparr>),
      (''asset.lastUpdate'', \<lparr>en = ''Last Update'', sk = ''Posledn'' @ [CHR 0xC3, CHR 0xA1] @ '' aktualiz'' @ [CHR 0xC3, CHR 0xA1] @ ''cia''\<rparr>),
      (''asset.lastAnalyzed'', \<lparr>en = ''Last Analyzed'', sk = ''Naposledy analyzovan'' @ [CHR 0xC3, CHR 0xA9]\<rparr>),
      (''asset.24h'', \<lparr>en = ''24h'', sk = ''24h''\<rparr>),
      (''asset.tradingVolume'', \<lparr>en = ''Trading Volume'', sk = ''Objem obchodovania''\<rparr>),
      (''asset.totalValue'', \<lparr>en = ''Total Value'', sk = ''Celkov'' @ [CHR 0xC3, CHR 0xA1] @ '' hodnota''\<rparr>),
      (''analysis.title'', \<lparr>en = ''Sentiment Analysis'', sk = ''Anal'' @ [CHR 0xC3, CHR 0xBD] @ ''za n'' @ [CHR 0xC3, CHR 0xA1] @ ''lady''\<rparr>),
      (''analysis.subtitle'', \<lparr>en = ''Deep dive into market sentiment and AI predictions'', sk = ''Hlbok'' @ [CHR 0xC3, CHR 0xA1] @ '' anal'' @ [CHR 0xC3, CHR 0xBD] @ ''za n'' @ [CHR 0xC3, CHR 0xA1] @ ''lady trhu a AI predpoved'' @ [CHR 0xC3, CHR 0xAD]\<rparr>),
      (''analysis.overview'', \<lparr>en = ''Overview'', sk = ''Preh'' @ [CHR 0xC4, CHR 0xBE] @ ''ad''\<rparr>),
      (''analysis.sources'', \<lparr>en = ''Data Sources'', sk = ''Zdroje d'' @ [CHR 0xC3, CHR 0xA1] @ ''t''\<rparr>),
      (''analysis.timeline'', \<lparr>en = ''Timeline'', sk = [CHR 0xC4, CHR 0x8C] @ ''asov'' @ [CHR 0xC3, CHR 0xA1] @ '' os''\<rparr>),
      (''analysis.predictions'', \<lparr>en = ''Predictions'', sk = ''Predpovede''\<rparr>),
      (''analysis.socialMedia'', \<lparr>en = ''Social Media'', sk = ''Soci'' @ [CHR 0xC3, CHR 0xA1] @ ''lne siete''\<rparr>),
      (''analysis.news'', \<lparr>en = ''News'', sk = ''Spr'' @ [CHR 0xC3, CHR 0xA1] @ ''vy''\<rparr>),
      (''analysis.technicalIndicators'', \<lparr>en = ''Technical Indicators'', sk = ''Technick'' @ [CHR 0xC3, CHR 0xA9] @ '' indik'' @ [CHR 0xC3, CHR 0xA1] @ ''tory''\<rparr>),
      (''analysis.technicalAnalysis'', \<lparr>en = ''Technical Analysis'', sk = ''Technick'' @ [CHR 0xC3, CHR 0xA1] @ '' anal'' @ [CHR 0xC3, CHR 0xBD] @ ''za''\<rparr>),
      (''analysis.sentiment24h'', \<lparr>en = ''24h Sentiment'', sk = ''24h n'' @ [CHR 0xC3, CHR 0xA1] @ ''lada''\<rparr>),
      (''analysis.sentiment7d'', \<lparr>en = ''7d Sentiment'', sk = ''7d n'' @ [CHR 0xC3, CHR 0xA1] @ ''lada''\<rparr>),
      (''analysis.sentiment30d'', \<lparr>en = ''30d Sentiment'', sk = ''30d n'' @ [CHR 0xC3, CHR 0xA1] @ ''lada''\<rparr>),
      (''analysis.bullish'', \<lparr>en = ''Bullish'', sk = ''B'' @ [CHR 0xC3, CHR 0xBD, CHR 0xC4, CHR 0x8D, CHR 0xC3, CHR 0xAD]\<rparr>),
      (''analysis.bearish'', \<lparr>en = ''Bearish'', sk = ''Medved'' @ [CHR 0xC3, CHR 0xAD]\<rparr>),
      (''analysis.neutral'', \<lparr>en = ''Neutral'', sk = ''Neutr'' @ [CHR 0xC3, CHR 0xA1] @ ''lny''\<rparr>),
      (''analysis.veryPositive'', \<lparr>en = ''Very Positive'', sk = ''Ve'' @ [CHR 0xC4, CHR 0xBE] @ ''mi pozit'' @ [CHR 0xC3, CHR 0xAD] @ ''vny''\<rparr>),
      (''analysis.positive'', \<lparr>en = ''Positive'', sk = ''Pozit'' @ [CHR 0xC3, CHR 0xAD] @ ''vny''\<rparr>),
      (''analysis.negative'', \<lparr>en = ''Negative'', sk = ''Negat'' @ [CHR 0xC3, CHR 0xAD] @ ''vny''\<rparr>),
      (''analysis.veryNegative'', \<lparr>en = ''Very Negative'', sk = ''Ve'' @ [CHR 0xC4, CHR 0xBE] @ ''mi negat'' @ [CHR 0xC3, CHR 0xAD] @ ''vny''\<rparr>),
      (''analysis.overbought'', \<lparr>en = ''Overbought'', sk = ''Prek'' @ [CHR 0xC3, CHR 0xBA] @ ''pen'' @ [CHR 0xC3, CHR 0xBD]\<rparr>),
      (''analysis.oversold'', \<lparr>en = ''Oversold'', sk = ''Prepredan'' @ [CHR 0xC3, CHR 0xBD]\<rparr>),
      (''analysis.shortTerm'', \<lparr>en = ''Short Term'', sk = ''Kr'' @ [CHR 0xC3, CHR 0xA1] @ ''tkodob'' @ [CHR 0xC3, CHR 0xBD]\<rparr>),
      (''analysis.longTerm'', \<lparr>en = ''Long Term'', sk = ''Dlhodob'' @ [CHR 0xC3, CHR 0xBD]\<rparr>),
      (''analysis.aiReasoning'', \<lparr>en = ''AI Analysis Reasoning'', sk = ''Od'' @ [CHR 0xC3, CHR 0xB4] @ ''vodnenie AI anal'' @ [CHR 0xC3, CHR 0xBD] @ ''zy''\<rparr>),
      (''analysis.bullishFactors'', \<lparr>en = ''Bullish Factors'', sk = ''B'' @ [CHR 0xC3, CHR 0xBD, CHR 0xC4, CHR 0x8D] @ ''ie faktory''\<rparr>),
      (''analysis.bearishFactors'', \<lparr>en = ''Bearish Factors'', sk = ''Medvedie faktory''\<rparr>),
      (''analysis.priceMovement'', \<lparr>en = ''Price Movement'', sk = ''Pohyb ceny''\<rparr>),
      (''analysis.marketSentiment'', \<lparr>en = ''Market Sentiment'', sk = ''N'' @ [CHR 0xC3, CHR 0xA1] @ ''lada trhu''\<rparr>),
      (''analysis.tradingVolume'', \<lparr>en = ''Trading Volume'', sk = ''Objem obchodovania''\<rparr>),
      (''analysis.socialSentiment'', \<lparr>en = ''Social Sentiment'', sk = ''Soci'' @ [CHR 0xC3, CHR 0xA1] @ ''lna n'' @ [CHR 0xC3, CHR 0xA1] @ ''lada''\<rparr>),
      (''analysis.strongUpwardMomentum'', \<lparr>en = ''Strong upward momentum with significant price gains'', sk = ''Siln'' @ [CHR 0xC3, CHR 0xBD] @ '' vzostupn'' @ [CHR 0xC3, CHR 0xBD] @ '' momentum so zna'' @ [CHR 0xC4, CHR 0x8D] @ ''n'' @ [CHR 0xC3, CHR 0xBD] @ ''mi cenov'' @ [CHR 0xC3, CHR 0xBD] @ ''mi ziskami''\<rparr>),
      (''analysis.significantDecline'', \<lparr>en = ''Significant price decline indicating bearish pressure'', sk = ''V'' @ [CHR 0xC3, CHR 0xBD] @ ''znamn'' @ [CHR 0xC3, CHR 0xBD] @ '' pokles ceny nazna'' @ [CHR 0xC4, CHR 0x8D] @ ''uj'' @ [CHR 0xC3, CHR 0xBA] @ ''ci medved'' @ [CHR 0xC3, CHR 0xAD] @ '' tlak''\<rparr>),
      (''analysis.overwhelminglyPositive'', \<lparr>en = ''Overwhelmingly positive market sentiment from multiple sources'', sk = ''Preva'' @ [CHR 0xC5, CHR 0xBE] @ ''ne pozit'' @ [CHR 0xC3, CHR 0xAD] @ ''vna n'' @ [CHR 0xC3, CHR 0xA1] @ ''lada trhu z viacer'' @ [CHR 0xC3, CHR 0xBD] @ ''ch zdrojov''\<rparr>),
      (''analysis.negativeMarketSentiment'', \<lparr>en = ''Negative market sentiment indicating investor concern'', sk = ''Negat'' @ [CHR 0xC3, CHR 0xAD] @ ''vna n'' @ [CHR 0xC3, CHR 0xA1] @ ''lada trhu nazna'' @ [CHR 0xC4, CHR 0x8D] @ ''uj'' @ [CHR 0xC3, CHR 0xBA] @ ''ca obavy investorov''\<rparr>),
      (''analysis.overboughtCondition'', \<lparr>en = ''Overbought condition suggests potential price correction'', sk = ''Prek'' @ [CHR 0xC3, CHR 0xBA] @ ''pen'' @ [CHR 0xC3, CHR 0xBD] @ '' stav nazna'' @ [CHR 0xC4, CHR 0x8D] @ ''uje mo'' @ [CHR 0xC5, CHR 0xBE] @ ''n'' @ [CHR 0xC3, CHR 0xBA] @ '' korekciu ceny''\<rparr>),
      (''analysis.oversoldCondition'', \<lparr>en = ''Oversold condition indicates potential buying opportunity'', sk = ''Prepredan'' @ [CHR 0xC3, CHR 0xBD] @ '' stav nazna'' @ [CHR 0xC4, CHR 0x8D] @ ''uje mo'' @ [CHR 0xC5, CHR 0xBE] @ ''n'' @ [CHR 0xC3, CHR 0xBA] @ '' pr'' @ [CHR 0xC3, CHR 0xAD] @ ''le'' @ [CHR 0xC5, CHR 0xBE] @ ''itos'' @ [CHR 0xC5, CHR 0xA5] @ '' na n'' @ [CHR 0xC3, CHR 0xA1] @ ''kup''\<rparr>),
      (''analysis.highTradingActivity'', \<lparr>en = ''High trading activity shows strong market interest'', sk = ''Vysok'' @ [CHR 0xC3, CHR 0xA1] @ '' obchodn'' @ [CHR 0xC3, CHR 0xA1] @ '' aktivita ukazuje siln'' @ [CHR 0xC3, CHR 0xBD] @ '' z'' @ [CHR 0xC3, CHR 0xA1] @ ''ujem trhu''\<rparr>),
      (''analysis.positiveSocialBuzz'', \<lparr>en = ''Positive social media buzz and community sentiment'', sk = ''Pozit'' @ [CHR 0xC3, CHR 0xAD] @ ''vny rozruch na soci'' @ [CHR 0xC3, CHR 0xA1] @ ''lnych sie'' @ [CHR 0xC5, CHR 0xA5] @ ''ach a n'' @ [CHR 0xC3, CHR 0xA1] @ ''lada komunity''\<rparr>),
      (''analysis.highImpact'', \<lparr>en = ''High Impact'', sk = ''Vysok'' @ [CHR 0xC3, CHR 0xBD] @ '' dopad''\<rparr>),
      (''analysis.mediumImpact'', \<lparr>en = ''Medium Impact'', sk = ''Stredn'' @ [CHR 0xC3, CHR 0xBD] @ '' dopad''\<rparr>),
      (''analysis.lowImpact'', \<lparr>en = ''Low Impact'', sk = ''N'' @ [CHR 0xC3, CHR 0xAD] @ ''zky dopad''\<rparr>),
      (''analysis.noBullishFactors'', \<lparr>en = ''No significant bullish factors detected'', sk = ''Nezistili sa '' @ [CHR 0xC5, CHR 0xBE] @ ''iadne v'' @ [CHR 0xC3, CHR 0xBD] @ ''znamn'' @ [CHR 0xC3, CHR 0xA9] @ '' b'' @ [CHR 0xC3, CHR 0xBD, CHR 0xC4, CHR 0x8D] @ ''ie faktory''\<rparr>),
      (''analysis.noBearishFactors'', \<lparr>en = ''No significant bearish factors detected'', sk = ''Nezistili sa '' @ [CHR 0xC5, CHR 0xBE] @ ''iadne v'' @ [CHR 0xC3, CHR 0xBD] @ ''znamn'' @ [CHR 0xC3, CHR 0xA9] @ '' medvedie faktory''\<rparr>),
      (''analysis.overallAssessment'', \<lparr>en = ''Overall Assessment'', sk = ''Celkov'' @ [CHR 0xC3, CHR 0xA9] @ '' hodnotenie''\<rparr>),
      (''analysis.positiveOutlook'', \<lparr>en = ''Based on current analysis, the outlook appears positive with favorable market conditions.'', sk = ''Na z'' @ [CHR 0xC3, CHR 0xA1] @ ''klade aktu'' @ [CHR 0xC3, CHR 0xA1] @ ''lnej anal'' @ [CHR 0xC3, CHR 0xBD] @ ''zy sa v'' @ [CHR 0xC3, CHR 0xBD] @ ''h'' @ [CHR 0xC4, CHR 0xBE] @ ''ad jav'' @ [CHR 0xC3, CHR 0xAD] @ '' pozit'' @ [CHR 0xC3, CHR 0xAD] @ ''vne s priazniv'' @ [CHR 0xC3, CHR 0xBD] @ ''mi trhov'' @ [CHR 0xC3, CHR 0xBD] @ ''mi podmienkami.''\<rparr>),
      (''analysis.negativeOutlook'', \<lparr>en = ''Current analysis suggests a negative outlook with challenging market conditions.'', sk = ''Aktu'' @ [CHR 0xC3, CHR 0xA1] @ ''lna anal'' @ [CHR 0xC3, CHR 0xBD] @ ''za nazna'' @ [CHR 0xC4, CHR 0x8D] @ ''uje negat'' @ [CHR 0xC3, CHR 0xAD] @ ''vny v'' @ [CHR 0xC3, CHR 0xBD] @ ''h'' @ [CHR 0xC4, CHR 0xBE] @ ''ad s n'' @ [CHR 0xC3, CHR 0xA1] @ ''ro'' @ [CHR 0xC4, CHR 0x8D] @ ''n'' @ [CHR 0xC3, CHR 0xBD] @ ''mi trhov'' @ [CHR 0xC3, CHR 0xBD] @ ''mi podmienkami.''\<rparr>),
      (''analysis.neutralOutlook'', \<lparr>en = ''The analysis indicates a neutral outlook with mixed market signals.'', sk = ''Anal'' @ [CHR 0xC3, CHR 0xBD] @ ''za nazna'' @ [CHR 0xC4, CHR 0x8D] @ ''uje neutr'' @ [CHR 0xC3, CHR 0xA1] @ ''lny v'' @ [CHR 0xC3, CHR 0xBD] @ ''h'' @ [CHR 0xC4, CHR 0xBE] @ ''ad so zmie'' @ [CHR 0xC5, CHR 0xA1] @ ''an'' @ [CHR 0xC3, CHR 0xBD] @ ''mi trhov'' @ [CHR 0xC3, CHR 0xBD] @ ''mi sign'' @ [CHR 0xC3, CHR 0xA1] @ ''lmi.''\<rparr>),
      (''analysis.confidenceLevel'', \<lparr>en = ''Confidence Level'', sk = [CHR 0xC3, CHR 0x9A] @ ''rove'' @ [CHR 0xC5, CHR 0x88] @ '' spo'' @ [CHR 0xC4, CHR 0xBE] @ ''ahlivosti''\<rparr>),
      (''analysis.predictionAnalysis'', \<lparr>en = ''AI Prediction Analysis'', sk = ''AI predik'' @ [CHR 0xC4, CHR 0x8D] @ ''n'' @ [CHR 0xC3, CHR 0xA1] @ '' anal'' @ [CHR 0xC3, CHR 0xBD] @ ''za''\<rparr>),
      (''analysis.growthProbability'', \<lparr>en = ''Growth Probability'', sk = ''Pravdepodobnos'' @ [CHR 0xC5, CHR 0xA5] @ '' rastu''\<rparr>),
      (''analysis.nextWeek'', \<lparr>en = ''Next 7 days'', sk = ''Nasleduj'' @ [CHR 0xC3, CHR 0xBA] @ ''cich 7 dn'' @ [CHR 0xC3, CHR 0xAD]\<rparr>),
      (''analysis.modelAccuracy'', \<lparr>en = ''Model accuracy'', sk = ''Presnos'' @ [CHR 0xC5, CHR 0xA5] @ '' modelu''\<rparr>),
      (''analysis.riskLevel'', \<lparr>en = ''Risk Level'', sk = [CHR 0xC3, CHR 0x9A] @ ''rove'' @ [CHR 0xC5, CHR 0x88] @ '' rizika''\<rparr>),
      (''analysis.investmentRisk'', \<lparr>en = ''Investment risk'', sk = ''Investi'' @ [CHR 0xC4, CHR 0x8D] @ ''n'' @ [CHR 0xC3, CHR 0xA9] @ '' riziko''\<rparr>),
      (''analysis.risk'', \<lparr>en = ''Risk'', sk = ''Riziko''\<rparr>),
      (''analysis.high'', \<lparr>en = ''High'', sk = ''Vysok'' @ [CHR 0xC3, CHR 0xA9]\<rparr>),
      (''analysis.medium'', \<lparr>en = ''Medium'', sk = ''Stredn'' @ [CHR 0xC3, CHR 0xA9]\<rparr>),
      (''analysis.low'', \<lparr>en = ''Low'', sk = ''N'' @ [CHR 0xC3, CHR 0xAD] @ ''zke''\<rparr>),
      (''analysis.latestNews'', \<lparr>en = ''Latest News'', sk = ''Najnov'' @ [CHR 0xC5, CHR 0xA1] @ ''ie spr'' @ [CHR 0xC3, CHR 0xA1] @ ''vy''\<rparr>),
      (''analysis.twitterMentions'', \<lparr>en = ''Twitter Mentions'', sk = ''Zmienky na Twitteri''\<rparr>),
      (''analysis.redditPosts'', \<lparr>en = ''Reddit Posts'', sk = ''Pr'' @ [CHR 0xC3, CHR 0xAD] @ ''spevky na Reddit''\<rparr>),
      (''analysis.socialScore'', \<lparr>en = ''Social Score'', sk = ''Soci'' @ [CHR 0xC3, CHR 0xA1] @ ''lne sk'' @ [CHR 0xC3, CHR 0xB3] @ ''re''\<rparr>),
      (''subscription.title'', \<lparr>en = ''Choose Your Plan'', sk = ''Vyberte si svoj pl'' @ [CHR 0xC3, CHR 0xA1] @ ''n''\<rparr>),
      (''subscription.subtitle'', \<lparr>en = ''Unlock the full power of AI-driven market sentiment analysis'', sk = ''Odomknite pln'' @ [CHR 0xC3, CHR 0xBA] @ '' silu anal'' @ [CHR 0xC3, CHR 0xBD] @ ''zy n'' @ [CHR 0xC3, CHR 0xA1] @ ''lady trhu pomocou AI''\<rparr>),
      (''subscription.currentPlan'', \<lparr>en = ''Current Plan'', sk = ''Aktu'' @ [CHR 0xC3, CHR 0xA1] @ ''lny pl'' @ [CHR 0xC3, CHR 0xA1] @ ''n''\<rparr>),
      (''subscription.free'', \<lparr>en = ''Free'', sk = ''Zadarmo''\<rparr>),
      (''subscription.pro'', \<lparr>en = ''Pro'', sk = ''Pro''\<rparr>),
      (''subscription.enterprise'', \<lparr>en = ''Enterprise'', sk = ''Enterprise''\<rparr>),
      (''subscription.upgradeNow'', \<lparr>en = ''Upgrade Now'', sk = ''Upgradova'' @ [CHR 0xC5, CHR 0xA5] @ '' teraz''\<rparr>),
      (''subscription.currentPlanButton'', \<lparr>en = ''Current Plan'', sk = ''Aktu'' @ [CHR 0xC3, CHR 0xA1] @ ''lny pl'' @ [CHR 0xC3, CHR 0xA1] @ ''n''\<rparr>),
      (''subscription.getStarted'', \<lparr>en = ''Get Started'', sk = ''Za'' @ [CHR 0xC4, CHR 0x8D] @ ''a'' @ [CHR 0xC5, CHR 0xA5]\<rparr>),
      (''subscription.promoCode'', \<lparr>en = ''Have a promo code?'', sk = ''M'' @ [CHR 0xC3, CHR 0xA1] @ ''te promo k'' @ [CHR 0xC3, CHR 0xB3] @ ''d?''\<rparr>),
      (''subscription.enterCode'', \<lparr>en = ''Enter Code'', sk = ''Zada'' @ [CHR 0xC5, CHR 0xA5] @ '' k'' @ [CHR 0xC3, CHR 0xB3] @ ''d''\<rparr>),
      (''subscription.codePlaceholder'', \<lparr>en = ''Enter promo code...'', sk = ''Zadajte promo k'' @ [CHR 0xC3, CHR 0xB3] @ ''d...''\<rparr>),
      (''subscription.applyCode'', \<lparr>en = ''Apply Code'', sk = ''Pou'' @ [CHR 0xC5, CHR 0xBE] @ ''i'' @ [CHR 0xC5, CHR 0xA5] @ '' k'' @ [CHR 0xC3, CHR 0xB3] @ ''d''\<rparr>),
      (''subscription.codeSuccess'', \<lparr>en = ''Promo code applied! You now have Pro access.'', sk = ''Promo k'' @ [CHR 0xC3, CHR 0xB3] @ ''d bol pou'' @ [CHR 0xC5, CHR 0xBE] @ ''it'' @ [CHR 0xC3, CHR 0xBD] @ ''! Teraz m'' @ [CHR 0xC3, CHR 0xA1] @ ''te Pro pr'' @ [CHR 0xC3, CHR 0xAD] @ ''stup.''\<rparr>),
      (''subscription.codeError'', \<lparr>en = ''Invalid promo code. Please try again.'', sk = ''Neplatn'' @ [CHR 0xC3, CHR 0xBD] @ '' promo k'' @ [CHR 0xC3, CHR 0xB3] @ ''d. Sk'' @ [CHR 0xC3, CHR 0xBA] @ ''ste to znova.''\<rparr>),
      (''subscription.feature.trackAssets'', \<lparr>en = ''Track unlimited assets'', sk = ''Sledova'' @ [CHR 0xC5, CHR 0xA5] @ '' neobmedzen'' @ [CHR 0xC3, CHR 0xA9] @ '' mno'' @ [CHR 0xC5, CHR 0xBE] @ ''stvo akt'' @ [CHR 0xC3, CHR 0xAD] @ ''v''\<rparr>),
      (''subscription.feature.realTimeAlerts'', \<lparr>en = ''Real-time alerts'', sk = ''Upozornenia v re'' @ [CHR 0xC3, CHR 0xA1] @ ''lnom '' @ [CHR 0xC4, CHR 0x8D] @ ''ase''\<rparr>),
      (''subscription.feature.advancedAnalysis'', \<lparr>en = ''Advanced AI analysis'', sk = ''Pokro'' @ [CHR 0xC4, CHR 0x8D] @ ''il'' @ [CHR 0xC3, CHR 0xA1] @ '' AI anal'' @ [CHR 0xC3, CHR 0xBD] @ ''za''\<rparr>),
      (''subscription.feature.telegramNotifications'', \<lparr>en = ''Telegram notifications'', sk = ''Telegram upozornenia''\<rparr>),
      (''subscription.feature.prioritySupport'', \<lparr>en = ''Priority support'', sk = ''Prioritn'' @ [CHR 0xC3, CHR 0xA1] @ '' podpora''\<rparr>),
      (''subscription.feature.customAlerts'', \<lparr>en = ''Custom alert rules'', sk = ''Vlastn'' @ [CHR 0xC3, CHR 0xA9] @ '' pravidl'' @ [CHR 0xC3, CHR 0xA1] @ '' upozornen'' @ [CHR 0xC3, CHR 0xAD]\<rparr>),
      (''subscription.feature.historicalData'', \<lparr>en = ''Historical data access'', sk = ''Pr'' @ [CHR 0xC3, CHR 0xAD] @ ''stup k historick'' @ [CHR 0xC3, CHR 0xBD] @ ''m d'' @ [CHR 0xC3, CHR 0xA1] @ ''tam''\<rparr>),
      (''subscription.feature.apiAccess'', \<lparr>en = ''API access'', sk = ''Pr'' @ [CHR 0xC3, CHR 0xAD] @ ''stup k API''\<rparr>),
      (''subscription.feature.whiteLabel'', \<lparr>en = ''White-label options'', sk = ''White-label mo'' @ [CHR 0xC5, CHR 0xBE] @ ''nosti''\<rparr>),
      (''subscription.feature.customIntegrations'', \<lparr>en = ''Custom integrations'', sk = ''Vlastn'' @ [CHR 0xC3, CHR 0xA9] @ '' integr'' @ [CHR 0xC3, CHR 0xA1] @ ''cie''\<rparr>),
      (''subscription.feature.dedicatedSupport'', \<lparr>en = ''Dedicated support'', sk = ''Dedikovan'' @ [CHR 0xC3, CHR 0xA1] @ '' podpora''\<rparr>),
      (''subscription.feature.advancedAnalytics'', \<lparr>en = ''Advanced analytics'', sk = ''Pokro'' @ [CHR 0xC4, CHR 0x8D] @ ''il'' @ [CHR 0xC3, CHR 0xA9] @ '' analytiky''\<rparr>),
      (''subscription.feature.teamManagement'', \<lparr>en = ''Team management'', sk = ''Spr'' @ [CHR 0xC3, CHR 0xA1] @ ''va t'' @ [CHR 0xC3, CHR 0xAD] @ ''mu''\<rparr>),
      (''search.title'', \<lparr>en = ''Search Assets'', sk = ''H'' @ [CHR 0xC4, CHR 0xBE] @ ''ada'' @ [CHR 0xC5, CHR 0xA5] @ '' akt'' @ [CHR 0xC3, CHR 0xAD] @ ''va''\<rparr>),
      (''search.placeholder'', \<lparr>en = ''Search for stocks, crypto, or indices...'', sk = ''H'' @ [CHR 0xC4, CHR 0xBE] @ ''ada'' @ [CHR 0xC5, CHR 0xA5] @ '' akcie, krypto alebo indexy...''\<rparr>),
      (''search.popular'', \<lparr>en = ''Popular Assets'', sk = ''Popul'' @ [CHR 0xC3, CHR 0xA1] @ ''rne akt'' @ [CHR 0xC3, CHR 0xAD] @ ''va''\<rparr>),
      (''search.recent'', \<lparr>en = ''Recently Added'', sk = ''Ned'' @ [CHR 0xC3, CHR 0xA1] @ ''vno pridan'' @ [CHR 0xC3, CHR 0xA9]\<rparr>),
      (''search.noResults'', \<lparr>en = ''No results found'', sk = ''Nena'' @ [CHR 0xC5, CHR 0xA1] @ ''li sa '' @ [CHR 0xC5, CHR 0xBE] @ ''iadne v'' @ [CHR 0xC3, CHR 0xBD] @ ''sledky''\<rparr>),
      (''search.tryDifferent'', \<lparr>en = ''Try searching for a different asset'', sk = ''Sk'' @ [CHR 0xC3, CHR 0xBA] @ ''ste h'' @ [CHR 0xC4, CHR 0xBE] @ ''ada'' @ [CHR 0xC5, CHR 0xA5] @ '' in'' @ [CHR 0xC3, CHR 0xA9] @ '' akt'' @ [CHR 0xC3, CHR 0xAD] @ ''vum''\<rparr>),
      (''common.loading'', \<lparr>en = ''Loading...'', sk = ''Na'' @ [CHR 0xC4, CHR 0x8D, CHR 0xC3, CHR 0xAD] @ ''tava...''\<rparr>),
      (''common.error'', \<lparr>en = ''Error'', sk = ''Chyba''\<rparr>),
      (''common.success'', \<lparr>en = ''Success'', sk = [CHR 0xC3, CHR 0x9A] @ ''spech''\<rparr>),
      (''common.cancel'', \<lparr>en = ''Cancel'', sk = ''Zru'' @ [CHR 0xC5, CHR 0xA1] @ ''i'' @ [CHR 0xC5, CHR 0xA5]\<rparr>),
      (''common.save'', \<lparr>en = ''Save'', sk = ''Ulo'' @ [CHR 0xC5, CHR 0xBE] @ ''i'' @ [CHR 0xC5, CHR 0xA5]\<rparr>),
      (''common.close'', \<lparr>en = ''Close'', sk = ''Zavrie'' @ [CHR 0xC5, CHR 0xA5]\<rparr>),
      (''common.edit'', \<lparr>en = ''Edit'', sk = ''Upravi'' @ [CHR 0xC5, CHR 0xA5]\<rparr>),
      (''common.delete'', \<lparr>en = ''Delete'', sk = ''Zmaza'' @ [CHR 0xC5, CHR 0xA5]\<rparr>),
      (''common.confirm'', \<lparr>en = ''Confirm'', sk = ''Potvrdi'' @ [CHR 0xC5, CHR 0xA5]\<rparr>),
      (''common.back'', \<lparr>en = ''Back'', sk = ''Sp'' @ [CHR 0xC3, CHR 0xA4, CHR 0xC5, CHR 0xA5]\<rparr>),
      (''common.next'', \<lparr>en = ''Next'', sk = [CHR 0xC4, CHR 0x8E] @ ''alej''\<rparr>),
      (''common.previous'', \<lparr>en = ''Previous'', sk = ''Predch'' @ [CHR 0xC3, CHR 0xA1] @ ''dzaj'' @ [CHR 0xC3, CHR 0xBA] @ ''ce''\<rparr>),
      (''common.search'', \<lparr>en = ''Search'', sk = ''H'' @ [CHR 0xC4, CHR 0xBE] @ ''ada'' @ [CHR 0xC5, CHR 0xA5]\<rparr>),
      (''common.filter'', \<lparr>en = ''Filter'', sk = ''Filter''\<rparr>),
      (''common.sort'', \<lparr>en = ''Sort'', sk = ''Zoradi'' @ [CHR 0xC5, CHR 0xA5]\<rparr>),
      (''common.view'', \<lparr>en = ''View'', sk = ''Zobrazi'' @ [CHR 0xC5, CHR 0xA5]\<rparr>),
      (''common.download'', \<lparr>en = ''Download'', sk = ''Stiahnu'' @ [CHR 0xC5, CHR 0xA5]\<rparr>),
      (''common.export'', \<lparr>en = ''Export'', sk = ''Exportova'' @ [CHR 0xC5, CHR 0xA5]\<rparr>),
      (''common.import'', \<lparr>en = ''Import'', sk = ''Importova'' @ [CHR 0xC5, CHR 0xA5]\<rparr>),
      (''common.refresh'', \<lparr>en = ''Refresh'', sk = ''Obnovi'' @ [CHR 0xC5, CHR 0xA5]\<rparr>),
      (''common.reset'', \<lparr>en = ''Reset'', sk = ''Resetova'' @ [CHR 0xC5, CHR 0xA5]\<rparr>),
      (''common.apply'', \<lparr>en = ''Apply'', sk = ''Pou'' @ [CHR 0xC5, CHR 0xBE] @ ''i'' @ [CHR 0xC5, CHR 0xA5]\<rparr>),
      (''common.clear'', \<lparr>en = ''Clear'', sk = ''Vymaza'' @ [CHR 0xC5, CHR 0xA5]\<rparr>),
      (''common.select'', \<lparr>en = ''Select'', sk = ''Vybra'' @ [CHR 0xC5, CHR 0xA5]\<rparr>),
      (''common.upload'', \<lparr>en = ''Upload'', sk = ''Nahra'' @ [CHR 0xC5, CHR 0xA5]\<rparr>),
      (''common.copy'', \<lparr>en = ''Copy'', sk = ''Kop'' @ [CHR 0xC3, CHR 0xAD] @ ''rova'' @ [CHR 0xC5, CHR 0xA5]\<rparr>),
      (''common.paste'', \<lparr>en = ''Paste'', sk = ''Vlo'' @ [CHR 0xC5, CHR 0xBE] @ ''i'' @ [CHR 0xC5, CHR 0xA5]\<rparr>),
      (''common.cut'', \<lparr>en = ''Cut'', sk = ''Vystrihn'' @ [CHR 0xC3, CHR 0xBA, CHR 0xC5, CHR 0xA5]\<rparr>),
      (''common.undo'', \<lparr>en = ''Undo'', sk = ''Sp'' @ [CHR 0xC3, CHR 0xA4, CHR 0xC5, CHR 0xA5]\<rparr>),
      (''common.redo'', \<lparr>en = ''Redo'', sk = ''Znovu''\<rparr>),
      (''common.yes'', \<lparr>en = ''Yes'', sk = [CHR 0xC3, CHR 0x81] @ ''no''\<rparr>),
      (''common.no'', \<lparr>en = ''No'', sk = ''Nie''\<rparr>),
      (''common.ok'', \<lparr>en = ''OK'', sk = ''OK''\<rparr>),
      (''common.all'', \<lparr>en = ''All'', sk = ''V'' @ [CHR 0xC5, CHR 0xA1] @ ''etko''\<rparr>),
      (''common.none'', \<lparr>en = ''None'', sk = [CHR 0xC5, CHR 0xBD] @ ''iadne''\<rparr>),
      (''common.other'', \<lparr>en = ''Other'', sk = ''In'' @ [CHR 0xC3, CHR 0xA9]\<rparr>),
      (''common.unknown'', \<lparr>en = ''Unknown'', sk = ''Nezn'' @ [CHR 0xC3, CHR 0xA1] @ ''me''\<rparr>),
      (''common.notAvailable'', \<lparr>en = ''Not Available'', sk = ''Nie je k dispoz'' @ [CHR 0xC3, CHR 0xAD] @ ''cii''\<rparr>),
      (''common.comingSoon'', \<lparr>en = ''Coming Soon'', sk = ''U'' @ [CHR 0xC5, CHR 0xBE] @ '' '' @ [CHR 0xC4, CHR 0x8D] @ ''oskoro''\<rparr>),
      (''common.beta'', \<lparr>en = ''Beta'', sk = ''Beta''\<rparr>),
      (''common.new'', \<lparr>en = ''New'', sk = ''Nov'' @ [CHR 0xC3, CHR 0xA9]\<rparr>),
      (''common.updated'', \<lparr>en = ''Updated'', sk = ''Aktualizovan'' @ [CHR 0xC3, CHR 0xA9]\<rparr>),
      (''common.premium'', \<lparr>en = ''Premium'', sk = ''Premium''\<rparr>),
      (''common.free'', \<lparr>en = ''Free'', sk = ''Zadarmo''\<rparr>),
      (''common.pro'', \<lparr>en = ''Pro'', sk = ''Pro''\<rparr>),
      (''common.basic'', \<lparr>en = ''Basic'', sk = ''Z'' @ [CHR 0xC3, CHR 0xA1] @ ''kladn'' @ [CHR 0xC3, CHR 0xBD]\<rparr>),
      (''common.advanced'', \<lparr>en = ''Advanced'', sk = ''Pokro'' @ [CHR 0xC4, CHR 0x8D] @ ''il'' @ [CHR 0xC3, CHR 0xBD]\<rparr>),
      (''common.expert'', \<lparr>en = ''Expert'', sk = ''Expert''\<rparr>),
      (''common.beginner'', \<lparr>en = ''Beginner'', sk = ''Za'' @ [CHR 0xC4, CHR 0x8D] @ ''iato'' @ [CHR 0xC4, CHR 0x8D] @ ''n'' @ [CHR 0xC3, CHR 0xAD] @ ''k''\<rparr>),
      (''common.intermediate'', \<lparr>en = ''Intermediate'', sk = ''Stredne pokro'' @ [CHR 0xC4, CHR 0x8D] @ ''il'' @ [CHR 0xC3, CHR 0xBD]\<rparr>),
      (''common.high'', \<lparr>en = ''High'', sk = ''Vysok'' @ [CHR 0xC3, CHR 0xBD]\<rparr>),
      (''common.medium'', \<lparr>en = ''Medium'', sk = ''Stredn'' @ [CHR 0xC3, CHR 0xBD]\<rparr>),
      (''common.low'', \<lparr>en = ''Low'', sk = ''N'' @ [CHR 0xC3, CHR 0xAD] @ ''zky''\<rparr>),
      (''common.enabled'', \<lparr>en = ''Enabled'', sk = ''Povolen'' @ [CHR 0xC3, CHR 0xA9]\<rparr>),
      (''common.disabled'', \<lparr>en = ''Disabled'', sk = ''Zak'' @ [CHR 0xC3, CHR 0xA1] @ ''zan'' @ [CHR 0xC3, CHR 0xA9]\<rparr>),
      (''common.online'', \<lparr>en = ''Online'', sk = ''Online''\<rparr>),
      (''common.offline'', \<lparr>en = ''Offline'', sk = ''Offline''\<rparr>),
      (''common.connected'', \<lparr>en = ''Connected'', sk = ''Pripojen'' @ [CHR 0xC3, CHR 0xA9]\<rparr>),
      (''common.disconnected'', \<lparr>en = ''Disconnected'', sk = ''Odpojen'' @ [CHR 0xC3, CHR 0xA9]\<rparr>),
      (''common.synced'', \<lparr>en = ''Synced'', sk = ''Synchronizovan'' @ [CHR 0xC3, CHR 0xA9]\<rparr>),
      (''common.syncing'', \<lparr>en = ''Syncing'', sk = ''Synchronizuje sa''\<rparr>),
      (''common.failed'', \<lparr>en = ''Failed'', sk = ''Ne'' @ [CHR 0xC3, CHR 0xBA] @ ''spe'' @ [CHR 0xC5, CHR 0xA1] @ ''n'' @ [CHR 0xC3, CHR 0xA9]\<rparr>),
      (''common.completed'', \<lparr>en = ''Completed'', sk = ''Dokon'' @ [CHR 0xC4, CHR 0x8D] @ ''en'' @ [CHR 0xC3, CHR 0xA9]\<rparr>),
      (''common.pending'', \<lparr>en = ''Pending'', sk = [CHR 0xC4, CHR 0x8C] @ ''ak'' @ [CHR 0xC3, CHR 0xA1] @ '' sa''\<rparr>),
      (''common.processing'', \<lparr>en = ''Processing'', sk = ''Spracov'' @ [CHR 0xC3, CHR 0xA1] @ ''va sa''\<rparr>),
      (''common.active'', \<lparr>en = ''Active'', sk = ''Akt'' @ [CHR 0xC3, CHR 0xAD] @ ''vne''\<rparr>),
      (''common.inactive'', \<lparr>en = ''Inactive'', sk = ''Neakt'' @ [CHR 0xC3, CHR 0xAD] @ ''vne''\<rparr>),
      (''common.archived'', \<lparr>en = ''Archived'', sk = ''Archivovan'' @ [CHR 0xC3, CHR 0xA9]\<rparr>),
      (''common.draft'', \<lparr>en = ''Draft'', sk = ''Koncept''\<rparr>),
      (''common.published'', \<lparr>en = ''Published'', sk = ''Publikovan'' @ [CHR 0xC3, CHR 0xA9]\<rparr>),
      (''common.private'', \<lparr>en = ''Private'', sk = ''S'' @ [CHR 0xC3, CHR 0xBA] @ ''kromn'' @ [CHR 0xC3, CHR 0xA9]\<rparr>),
      (''common.public'', \<lparr>en = ''Public'', sk = ''Verejn'' @ [CHR 0xC3, CHR 0xA9]\<rparr>),
      (''common.shared'', \<lparr>en = ''Shared'', sk = ''Zdie'' @ [CHR 0xC4, CHR 0xBE] @ ''an'' @ [CHR 0xC3, CHR 0xA9]\<rparr>),
      (''common.favorite'', \<lparr>en = ''Favorite'', sk = ''Ob'' @ [CHR 0xC4, CHR 0xBE, CHR 0xC3, CHR 0xBA] @ ''ben'' @ [CHR 0xC3, CHR 0xA9]\<rparr>),
      (''common.bookmark'', \<lparr>en = ''Bookmark'', sk = ''Z'' @ [CHR 0xC3, CHR 0xA1] @ ''lo'' @ [CHR 0xC5, CHR 0xBE] @ ''ka''\<rparr>),
      (''common.like'', \<lparr>en = ''Like'', sk = ''P'' @ [CHR 0xC3, CHR 0xA1, CHR 0xC4, CHR 0x8D] @ ''i sa mi''\<rparr>),
      (''common.dislike'', \<lparr>en = ''Dislike'', sk = ''Nep'' @ [CHR 0xC3, CHR 0xA1, CHR 0xC4, CHR 0x8D] @ ''i sa mi''\<rparr>),
      (''common.follow'', \<lparr>en = ''Follow'', sk = ''Sledova'' @ [CHR 0xC5, CHR 0xA5]\<rparr>),
      (''common.unfollow'', \<lparr>en = ''Unfollow'', sk = ''Presta'' @ [CHR 0xC5, CHR 0xA5] @ '' sledova'' @ [CHR 0xC5, CHR 0xA5]\<rparr>),
      (''common.subscribe'', \<lparr>en = ''Subscribe'', sk = ''Odobera'' @ [CHR 0xC5, CHR 0xA5]\<rparr>),
      (''common.unsubscribe'', \<lparr>en = ''Unsubscribe'', sk = ''Presta'' @ [CHR 0xC5, CHR 0xA5] @ '' odobera'' @ [CHR 0xC5, CHR 0xA5]\<rparr>),
      (''common.notify'', \<lparr>en = ''Notify'', sk = ''Upozorni'' @ [CHR 0xC5, CHR 0xA5]\<rparr>),
      (''common.mute'', \<lparr>en = ''Mute'', sk = ''Stlmi'' @ [CHR 0xC5, CHR 0xA5]\<rparr>),
      (''common.unmute'', \<lparr>en = ''Unmute'', sk = ''Zru'' @ [CHR 0xC5, CHR 0xA1] @ ''i'' @ [CHR 0xC5, CHR 0xA5] @ '' stlmenie''\<rparr>),
      (''common.block'', \<lparr>en = ''Block'', sk = ''Zablokova'' @ [CHR 0xC5, CHR 0xA5]\<rparr>),
      (''common.unblock'', \<lparr>en = ''Unblock'', sk = ''Odblokova'' @ [CHR 0xC5, CHR 0xA5]\<rparr>),
      (''common.report'', \<lparr>en = ''Report'', sk = ''Nahl'' @ [CHR 0xC3, CHR 0xA1] @ ''si'' @ [CHR 0xC5, CHR 0xA5]\<rparr>),
      (''common.share'', \<lparr>en = ''Share'', sk = ''Zdie'' @ [CHR 0xC4, CHR 0xBE] @ ''a'' @ [CHR 0xC5, CHR 0xA5]\<rparr>),
      (''common.embed'', \<lparr>en = ''Embed'', sk = ''Vlo'' @ [CHR 0xC5, CHR 0xBE] @ ''i'' @ [CHR 0xC5, CHR 0xA5]\<rparr>),
      (''common.link'', \<lparr>en = ''Link'', sk = ''Odkaz''\<rparr>),
      (''common.url'', \<lparr>en = ''URL'', sk = ''URL''\<rparr>),
      (''common.email'', \<lparr>en = ''Email'', sk = ''E-mail''\<rparr>),
      (''common.phone'', \<lparr>en = ''Phone'', sk = ''Telef'' @ [CHR 0xC3, CHR 0xB3] @ ''n''\<rparr>),
      (''common.address'', \<lparr>en = ''Address'', sk = ''Adresa''\<rparr>),
      (''common.name'', \<lparr>en = ''Name'', sk = ''Meno''\<rparr>),
      (''common.title'', \<lparr>en = ''Title'', sk = ''N'' @ [CHR 0xC3, CHR 0xA1] @ ''zov''\<rparr>),
      (''common.description'', \<lparr>en = ''Description'', sk = ''Popis''\<rparr>),
      (''common.category'', \<lparr>en = ''Category'', sk = ''Kateg'' @ [CHR 0xC3, CHR 0xB3] @ ''ria''\<rparr>),
      (''common.tag'', \<lparr>en = ''Tag'', sk = ''Zna'' @ [CHR 0xC4, CHR 0x8D] @ ''ka''\<rparr>),
      (''common.type'', \<lparr>en = ''Type'', sk = ''Typ''\<rparr>),
      (''common.status'', \<lparr>en = ''Status'', sk = ''Stav''\<rparr>),
      (''common.priority'', \<lparr>en = ''Priority'', sk = ''Priorita''\<rparr>),
      (''common.date'', \<lparr>en = ''Date'', sk = ''D'' @ [CHR 0xC3, CHR 0xA1] @ ''tum''\<rparr>),
      (''common.time'', \<lparr>en = ''Time'', sk = [CHR 0xC4, CHR 0x8C] @ ''as''\<rparr>),
      (''common.duration'', \<lparr>en = ''Duration'', sk = ''Trvanie''\<rparr>),
      (''common.size'', \<lparr>en = ''Size'', sk = ''Ve'' @ [CHR 0xC4, CHR 0xBE] @ ''kos'' @ [CHR 0xC5, CHR 0xA5]\<rparr>),
      (''common.quantity'', \<lparr>en = ''Quantity'', sk = ''Mno'' @ [CHR 0xC5, CHR 0xBE] @ ''stvo''\<rparr>),
      (''common.amount'', \<lparr>en = ''Amount'', sk = ''Suma''\<rparr>),
      (''common.total'', \<lparr>en = ''Total'', sk = ''Celkom''\<rparr>),
      (''common.subtotal'', \<lparr>en = ''Subtotal'', sk = ''Medzis'' @ [CHR 0xC3, CHR 0xBA, CHR 0xC4, CHR 0x8D] @ ''et''\<rparr>),
      (''common.tax'', \<lparr>en = ''Tax'', sk = ''Da'' @ [CHR 0xC5, CHR 0x88]\<rparr>),
      (''common.discount'', \<lparr>en = ''Discount'', sk = ''Z'' @ [CHR 0xC4, CHR 0xBE] @ ''ava''\<rparr>),
      (''common.shipping'', \<lparr>en = ''Shipping'', sk = ''Doprava''\<rparr>),
      (''common.currency'', \<lparr>en = ''Currency'', sk = ''Mena''\<rparr>),
      (''common.language'', \<lparr>en = ''Language'', sk = ''Jazyk''\<rparr>),
      (''common.country'', \<lparr>en = ''Country'', sk = ''Krajina''\<rparr>),
      (''common.city'', \<lparr>en = ''City'', sk = ''Mesto''\<rparr>),
      (''common.region'', \<lparr>en = ''Region'', sk = ''Regi'' @ [CHR 0xC3, CHR 0xB3] @ ''n''\<rparr>),
      (''common.timezone'', \<lparr>en = ''Timezone'', sk = [CHR 0xC4, CHR 0x8C] @ ''asov'' @ [CHR 0xC3, CHR 0xA9] @ '' p'' @ [CHR 0xC3, CHR 0xA1] @ ''smo''\<rparr>),
      (''common.results'', \<lparr>en = ''Results'', sk = ''V'' @ [CHR 0xC3, CHR 0xBD] @ ''sledky''\<rparr>),
      (''time.now'', \<lparr>en = ''Now'', sk = ''Teraz''\<rparr>),
      (''time.justNow'', \<lparr>en = ''Just now'', sk = ''Pr'' @ [CHR 0xC3, CHR 0xA1] @ ''ve teraz''\<rparr>),
      (''time.minuteAgo'', \<lparr>en = ''A minute ago'', sk = ''Pred min'' @ [CHR 0xC3, CHR 0xBA] @ ''tou''\<rparr>),
      (''time.minutesAgo'', \<lparr>en = ''minutes ago'', sk = ''pred min'' @ [CHR 0xC3, CHR 0xBA] @ ''tami''\<rparr>),
      (''time.hourAgo'', \<lparr>en = ''An hour ago'', sk = ''Pred hodinou''\<rparr>),
      (''time.hoursAgo'', \<lparr>en = ''hours ago'', sk = ''pred hodinami''\<rparr>),
      (''time.dayAgo'', \<lparr>en = ''A day ago'', sk = ''Pred d'' @ [CHR 0xC5, CHR 0x88] @ ''om''\<rparr>),
      (''time.daysAgo'', \<lparr>en = ''days ago'', sk = ''pred d'' @ [CHR 0xC5, CHR 0x88] @ ''ami''\<rparr>),
      (''time.weekAgo'', \<lparr>en = ''A week ago'', sk = ''Pred t'' @ [CHR 0xC3, CHR 0xBD, CHR 0xC5, CHR 0xBE] @ ''d'' @ [CHR 0xC5, CHR 0x88] @ ''om''\<rparr>),
      (''time.weeksAgo'', \<lparr>en = ''weeks ago'', sk = ''pred t'' @ [CHR 0xC3, CHR 0xBD, CHR 0xC5, CHR 0xBE] @ ''d'' @ [CHR 0xC5, CHR 0x88] @ ''ami''\<rparr>),
      (''time.monthAgo'', \<lparr>en = ''A month ago'', sk = ''Pred mesiacom''\<rparr>),
      (''time.monthsAgo'', \<lparr>en = ''months ago'', sk = ''pred mesiacmi''\<rparr>),
      (''time.yearAgo'', \<lparr>en = ''A year ago'', sk = ''Pred rokom''\<rparr>),
      (''time.yearsAgo'', \<lparr>en = ''years ago'', sk = ''pred rokmi''\<rparr>),
      (''auth.signInRequired'', \<lparr>en = ''Sign in to access this feature'', sk = ''Prihl'' @ [CHR 0xC3, CHR 0xA1] @ ''ste sa pre pr'' @ [CHR 0xC3, CHR 0xAD] @ ''stup k tejto funkcii''\<rparr>),
      (''auth.signInToView'', \<lparr>en = ''Sign in to view'', sk = ''Prihl'' @ [CHR 0xC3, CHR 0xA1] @ ''ste sa pre zobrazenie''\<rparr>),
      (''auth.signInToContinue'', \<lparr>en = ''Sign in to continue'', sk = ''Prihl'' @ [CHR 0xC3, CHR 0xA1] @ ''ste sa pre pokra'' @ [CHR 0xC4, CHR 0x8D] @ ''ovanie''\<rparr>),
      (''auth.welcomeBack'', \<lparr>en = ''Welcome back!'', sk = ''Vitajte sp'' @ [CHR 0xC3, CHR 0xA4, CHR 0xC5, CHR 0xA5] @ ''!''\<rparr>),
      (''auth.signInSuccess'', \<lparr>en = ''Successfully signed in'', sk = [CHR 0xC3, CHR 0x9A] @ ''spe'' @ [CHR 0xC5, CHR 0xA1] @ ''ne prihl'' @ [CHR 0xC3, CHR 0xA1] @ ''sen'' @ [CHR 0xC3, CHR 0xBD]\<rparr>),
      (''auth.signOutSuccess'', \<lparr>en = ''Successfully signed out'', sk = [CHR 0xC3, CHR 0x9A] @ ''spe'' @ [CHR 0xC5, CHR 0xA1] @ ''ne odhl'' @ [CHR 0xC3, CHR 0xA1] @ ''sen'' @ [CHR 0xC3, CHR 0xBD]\<rparr>),
      (''auth.signInError'', \<lparr>en = ''Sign in failed. Please try again.'', sk = ''Prihl'' @ [CHR 0xC3, CHR 0xA1] @ ''senie zlyhalo. Sk'' @ [CHR 0xC3, CHR 0xBA] @ ''ste to znova.''\<rparr>),
      (''success.saved'', \<lparr>en = ''Successfully saved'', sk = [CHR 0xC3, CHR 0x9A] @ ''spe'' @ [CHR 0xC5, CHR 0xA1] @ ''ne ulo'' @ [CHR 0xC5, CHR 0xBE] @ ''en'' @ [CHR 0xC3, CHR 0xA9]\<rparr>),
      (''success.updated'', \<lparr>en = ''Successfully updated'', sk = [CHR 0xC3, CHR 0x9A] @ ''spe'' @ [CHR 0xC5, CHR 0xA1] @ ''ne aktualizovan'' @ [CHR 0xC3, CHR 0xA9]\<rparr>),
      (''success.deleted'', \<lparr>en = ''Successfully deleted'', sk = [CHR 0xC3, CHR 0x9A] @ ''spe'' @ [CHR 0xC5, CHR 0xA1] @ ''ne zmazan'' @ [CHR 0xC3, CHR 0xA9]\<rparr>),
      (''success.created'', \<lparr>en = ''Successfully created'', sk = [CHR 0xC3, CHR 0x9A] @ ''spe'' @ [CHR 0xC5, CHR 0xA1] @ ''ne vytvoren'' @ [CHR 0xC3, CHR 0xA9]\<rparr>),
      (''success.sent'', \<lparr>en = ''Successfully sent'', sk = [CHR 0xC3, CHR 0x9A] @ ''spe'' @ [CHR 0xC5, CHR 0xA1] @ ''ne odoslan'' @ [CHR 0xC3, CHR 0xA9]\<rparr>),
      (''success.uploaded'', \<lparr>en = ''Successfully uploaded'', sk = [CHR 0xC3, CHR 0x9A] @ ''spe'' @ [CHR 0xC5, CHR 0xA1] @ ''ne nahran'' @ [CHR 0xC3, CHR 0xA9]\<rparr>),
      (''success.downloaded'', \<lparr>en = ''Successfully downloaded'', sk = [CHR 0xC3, CHR 0x9A] @ ''spe'' @ [CHR 0xC5, CHR 0xA1] @ ''ne stiahnut'' @ [CHR 0xC3, CHR 0xA9]\<rparr>),
      (''success.copied'', \<lparr>en = ''Copied to clipboard'', sk = ''Skop'' @ [CHR 0xC3, CHR 0xAD] @ ''rovan'' @ [CHR 0xC3, CHR 0xA9] @ '' do schr'' @ [CHR 0xC3, CHR 0xA1] @ ''nky''\<rparr>),
      (''success.subscribed'', \<lparr>en = ''Successfully subscribed'', sk = [CHR 0xC3, CHR 0x9A] @ ''spe'' @ [CHR 0xC5, CHR 0xA1] @ ''ne odoberan'' @ [CHR 0xC3, CHR 0xA9]\<rparr>),
      (''success.unsubscribed'', \<lparr>en = ''Successfully unsubscribed'', sk = [CHR 0xC3, CHR 0x9A] @ ''spe'' @ [CHR 0xC5, CHR 0xA1] @ ''ne zru'' @ [CHR 0xC5, CHR 0xA1] @ ''en'' @ [CHR 0xC3, CHR 0xA9] @ '' odberanie''\<rparr>)]"

text \<open>
  \<^verbatim>\<open>translations[key]\<close>: the entry of an own key of the object literal, which
  repeats no key. (A key inherited from \<^verbatim>\<open>Object.prototype\<close> yields a value
  without \<^verbatim>\<open>en\<close> and \<^verbatim>\<open>sk\<close> properties, so \<open>t\<close> treats it as it treats a
  missing key.)
\<close>

fun lookup :: "(string \<times> 'v) list \<Rightarrow> string \<Rightarrow> 'v option" where
  "lookup [] key = None"
| "lookup ((k, v) # kvs) key = (if key = k then Some v else lookup kvs key)"

definition pick :: "language \<Rightarrow> Translation \<Rightarrow> string" where
  "pick language e = (case language of En \<Rightarrow> en e | Sk \<Rightarrow> sk e)"

text \<open>\<^verbatim>\<open>translations[key]?.[language] || key\<close>: an empty string is falsy.\<close>

definition t :: "language \<Rightarrow> string \<Rightarrow> string" where
  "t language key =
     (case lookup translations_table key of
        None \<Rightarrow> key
      | Some e \<Rightarrow> if pick language e \<noteq> [] then pick language e else key)"

section \<open>The subscription page (Subscription.tsx)\<close>

text \<open>
  \<^verbatim>\<open>toLowerCase\<close> on the bytes of a string: the ASCII capitals change. (No
  character outside ASCII has a lower case among the letters and digits of the promo
  code, so the comparison with that code sees nothing else.)
\<close>

definition lower_char :: "char \<Rightarrow> char" where
  "lower_char c =
     (let n = (of_char c :: nat) in if 65 \<le> n \<and> n \<le> 90 then char_of (n + 32) else c)"

definition toLowerCase :: "string \<Rightarrow> string" where
  "toLowerCase str = map lower_char str"

text \<open>Equality of two strings up to the case of their letters.\<close>

definition equal_ignoring_case :: "string \<Rightarrow> string \<Rightarrow> bool" where
  "equal_ignoring_case a b = list_all2 (\<lambda>c d. lower_char c = lower_char d) a b"

record subscription_state = world +
  currentSubscription :: "Subscription option"
  page_loading :: bool
  promoCode :: string
  showPromoInput :: bool

definition fetchSubscription :: "sdk \<Rightarrow> Auth \<Rightarrow> (subscription_state, unit) action" where
  "fetchSubscription env auth =
     try_finally
       (try_catch
          (bindA (sdk_request SubscriptionsList (subscriptions_list env)) (\<lambda>list.
             let userSub = find (\<lambda>sub. Some (sub_userId sub) = map_option userId (user auth)) list
             in modify (\<lambda>s. s\<lparr>currentSubscription := userSub\<rparr>)))
          (\<lambda>e. console_error ''Failed to fetch subscription:''))
       (modify (\<lambda>s. s\<lparr>page_loading := False\<rparr>))"

definition year_ms :: int where
  "year_ms = 365 * 24 * 60 * 60 * 1000"

text \<open>\<open>now\<close> is the clock reading; dates are kept as milliseconds, not as ISO strings.\<close>

definition handlePromoCode :: "sdk \<Rightarrow> Auth \<Rightarrow> language \<Rightarrow> timestamp \<Rightarrow> (subscription_state, unit) action" where
  "handlePromoCode env auth language now s =
     (if \<not> isAuthenticated auth then toast_error (t language ''auth.signInRequired'') s
      else if toLowerCase (promoCode s) = ''fasb99rfa9'' then
        try_catch
          (let subscriptionData =
                 \<lparr>sd_userId = map_option userId (user auth),
                  sd_plan = Premium,
                  sd_status = Active,
                  sd_startDate = now,
                  sd_endDate = now + year_ms,
                  sd_promoCode = promoCode s,
                  sd_creator = map_option userId (user auth),
                  sd_createdAt = now,
                  sd_updatedAt = now\<rparr>
           in thenA
                (case currentSubscription s of
                   Some current \<Rightarrow>
                     sdk_request (SubscriptionsUpdate (sub_id current) subscriptionData)
                       (write_result env)
                 | None \<Rightarrow>
                     sdk_request (SubscriptionsCreate subscriptionData) (write_result env))
                (thenA (fetchSubscription env auth)
                   (thenA (modify (\<lambda>s. s\<lparr>promoCode := [], showPromoInput := False\<rparr>))
                      (toast_success ''Promo code applied! You now have Premium access.''))))
          (\<lambda>e. thenA (console_error ''Failed to apply promo code:'')
                   (toast_error (t language ''common.error'')))
          s
      else toast_error ''Invalid promo code. Please try again.'' s)"


section \<open>The search modal (SearchModal)\<close>

text \<open>
  The modal declares its own \<^verbatim>\<open>Asset\<close> interface, a part of the fields of the one
  above; the objects are those of the same \<open>assets\<close> entity, so the same record is used.
\<close>

datatype type_filter = AllTypes | OnlyType asset_type

datatype sort_by = Popularity | ByPrice | ByChange | BySentiment

record filters =
  trackedSymbols :: "string list"
  selectedType :: type_filter
  minPrice :: string
  maxPrice :: string
  searchTerm :: string
  sortBy :: sort_by

record search_state = world +
  assets :: "Asset list"
  filteredAssets :: "Asset list"
  modal_loading :: bool

text \<open>\<^verbatim>\<open>Array.prototype.findIndex\<close>: the first index whose element passes, or \<open>-1\<close>.\<close>

fun findIndex :: "('a \<Rightarrow> bool) \<Rightarrow> 'a list \<Rightarrow> int" where
  "findIndex P [] = - 1"
| "findIndex P (x # xs) =
     (if P x then 0 else (let i = findIndex P xs in if i < 0 then - 1 else i + 1))"

text \<open>
  \<^verbatim>\<open>self.filter((asset, index, self) => index === self.findIndex(a => a.symbol === asset.symbol))\<close>
\<close>

definition uniqueBySymbol :: "Asset list \<Rightarrow> Asset list" where
  "uniqueBySymbol self =
     map snd
       (filter (\<lambda>(index, asset). int index = findIndex (\<lambda>a. symbol a = symbol asset) self)
          (enumerate 0 self))"

text \<open>\<^verbatim>\<open>[...new Set(xs)]\<close>: the elements in the order of their first occurrence.\<close>

definition new_Set :: "'a list \<Rightarrow> 'a list" where
  "new_Set xs = foldl (\<lambda>acc x. if x \<in> set acc then acc else acc @ [x]) [] xs"

text \<open>
  \<^verbatim>\<open>String.prototype.includes\<close>: the second string occurs in the first.
  A string is kept as the bytes of its UTF-8 encoding, where JavaScript has UTF-16 code
  units; both encodings are self-synchronising, so on well-formed text one string occurs
  in another in the one exactly when it does in the other.
\<close>

fun str_includes :: "'a list \<Rightarrow> 'a list \<Rightarrow> bool" where
  "str_includes [] sub = (sub = [])"
| "str_includes (x # xs) sub = (prefix sub (x # xs) \<or> str_includes xs sub)"

text \<open>
  \<^verbatim>\<open>Array.prototype.sort\<close> with a comparator is stable: an element goes before
  the first one it does not compare greater than.
\<close>

fun insert_by :: "('a \<Rightarrow> 'a \<Rightarrow> real) \<Rightarrow> 'a \<Rightarrow> 'a list \<Rightarrow> 'a list" where
  "insert_by cmp x [] = [x]"
| "insert_by cmp x (y # ys) = (if cmp x y \<le> 0 then x # y # ys else y # insert_by cmp x ys)"

definition sort_with :: "('a \<Rightarrow> 'a \<Rightarrow> real) \<Rightarrow> 'a list \<Rightarrow> 'a list" where
  "sort_with cmp xs = foldr (insert_by cmp) xs []"

definition compareAssets :: "rounding \<Rightarrow> sort_by \<Rightarrow> Asset \<Rightarrow> Asset \<Rightarrow> real" where
  "compareAssets rnd by a b =
     (case by of
        ByPrice \<Rightarrow> fsub rnd (currentPrice b) (currentPrice a)
      | ByChange \<Rightarrow> fsub rnd (priceChange24h b) (priceChange24h a)
      | BySentiment \<Rightarrow> fsub rnd (sentimentScore b) (sentimentScore a)
      | Popularity \<Rightarrow>
          (let scoreA = fmul rnd (fadd rnd (sentimentScore a) 1) (confidenceLevel a);
               scoreB = fmul rnd (fadd rnd (sentimentScore b) 1) (confidenceLevel b)
           in fsub rnd scoreB scoreA))"

definition fetchAssets :: "sdk \<Rightarrow> (search_state, unit) action" where
  "fetchAssets env =
     try_finally
       (try_catch
          (bindA (sdk_request AssetsList (assets_list env)) (\<lambda>list.
             let uniqueAssets = uniqueBySymbol list
             in modify (\<lambda>s. s\<lparr>assets := uniqueAssets\<rparr>)))
          (\<lambda>e. console_error ''Failed to fetch assets:''))
       (modify (\<lambda>s. s\<lparr>modal_loading := False\<rparr>))"

text \<open>
  What the modal takes from the JavaScript engine. \<^verbatim>\<open>parseFloat\<close> is an argument;
  \<^term>\<open>None\<close> is its \<^verbatim>\<open>NaN\<close>, with which every comparison is false, and a bound
  that parses to an infinity is outside the model. \<^verbatim>\<open>String.prototype.toLowerCase\<close>
  follows the case mapping of Unicode, on every letter of every script; that mapping is
  the engine's, so the function is the argument \<open>lowerCase\<close> here. (The subscription
  page above compares a lowered string with one ASCII word, for which the bytewise
  \<open>toLowerCase\<close> is exact; the modal searches in names of any script.)
\<close>

definition filterAssets :: "rounding \<Rightarrow> (string \<Rightarrow> real option) \<Rightarrow> (string \<Rightarrow> string) \<Rightarrow> filters \<Rightarrow> Asset list \<Rightarrow> Asset list" where
  "filterAssets rnd parseFloat lowerCase f fetched =
     (let uniqueTrackedSymbols = new_Set (trackedSymbols f);
          filtered1 = filter (\<lambda>asset. symbol asset \<notin> set uniqueTrackedSymbols) fetched;
          filtered2 = (if selectedType f \<noteq> AllTypes
                       then filter (\<lambda>asset. OnlyType (atype asset) = selectedType f) filtered1
                       else filtered1);
          filtered3 = (if minPrice f \<noteq> []
                       then filter (\<lambda>asset. case parseFloat (minPrice f) of
                                               None \<Rightarrow> False
                                             | Some lo \<Rightarrow> currentPrice asset \<ge> lo) filtered2
                       else filtered2);
          filtered4 = (if maxPrice f \<noteq> []
                       then filter (\<lambda>asset. case parseFloat (maxPrice f) of
                                               None \<Rightarrow> False
                                             | Some hi \<Rightarrow> currentPrice asset \<le> hi) filtered3
                       else filtered3);
          filtered5 = (if searchTerm f \<noteq> []
                       then filter (\<lambda>asset.
                              str_includes (lowerCase (symbol asset)) (lowerCase (searchTerm f))
                              \<or> str_includes (lowerCase (name asset)) (lowerCase (searchTerm f)))
                              filtered4
                       else filtered4);
          sorted = sort_with (compareAssets rnd (sortBy f)) filtered5;
          uniqueFiltered = uniqueBySymbol sorted
      in uniqueFiltered)"

section \<open>The Google Drive mock (GoogleDriveService)\<close>

text \<open>
  Three fields of the stored record are typed \<^verbatim>\<open>any\<close>. Their values are of a type
  \<open>'v\<close> that is left open: every statement below holds whatever the values are. What the
  code does with such a value is done by the JavaScript engine, which is the record
  \<open>engine\<close>: whether a value is truthy, the values \<^verbatim>\<open>{}\<close> and \<^verbatim>\<open>null\<close>,
  \<^verbatim>\<open>JSON.stringify\<close> on the stored record, which returns the text or throws (on a
  cyclic value or a \<^verbatim>\<open>BigInt\<close>), and \<^verbatim>\<open>JSON.parse\<close>, which returns the parsed
  value or throws (on a text that is not JSON). The parsed value is an object, read field
  by field as a \<^verbatim>\<open>Partial<UserData>\<close>, or \<^verbatim>\<open>null\<close>, which is \<^term>\<open>None\<close>.
  Nothing is assumed of the two functions: \<^verbatim>\<open>JSON.parse\<close> need not undo
  \<^verbatim>\<open>JSON.stringify\<close>, and for a value with an \<^verbatim>\<open>undefined\<close> member, a
  \<^verbatim>\<open>NaN\<close> or a \<^verbatim>\<open>Date\<close> it does not.
\<close>

record 'v UserData =
  ud_userId :: string
  trackedAssets :: "string list"
  preferences :: 'v
  subscription :: 'v
  ud_alerts :: "'v list"
  ud_timestamp :: string

text \<open>\<^verbatim>\<open>Partial<UserData>\<close>: each field may be absent.\<close>

record 'v PartialUserData =
  p_userId :: "string option"
  p_trackedAssets :: "string list option"
  p_preferences :: "'v option"
  p_subscription :: "'v option"
  p_alerts :: "'v list option"
  p_timestamp :: "string option"

record 'v engine =
  js_truthy :: "'v \<Rightarrow> bool"
  js_empty_object :: 'v
  js_null :: 'v
  JSON_stringify :: "'v UserData \<Rightarrow> error + string"
  JSON_parse :: "string \<Rightarrow> error + 'v PartialUserData option"

text \<open>
  \<^verbatim>\<open>localStorage\<close> maps a key to the text stored under it. A write can fail (the
  browser throws when the quota is exceeded): \<open>accepts key\<close> says whether the browser
  takes a write under \<open>key\<close>. Reads succeed. \<open>drive_log\<close> holds what
  \<^verbatim>\<open>console.error\<close> printed.
\<close>

type_synonym localStorage = "string \<rightharpoonup> string"

record drive_state =
  items :: localStorage
  drive_log :: "string list"

definition setItem :: "(string \<Rightarrow> bool) \<Rightarrow> string \<Rightarrow> string \<Rightarrow> (drive_state, unit) action" where
  "setItem accepts key json s =
     (if accepts key then (Inr (), s\<lparr>items := (items s)(key \<mapsto> json)\<rparr>)
      else (Inl StorageError, s))"

definition getItem :: "string \<Rightarrow> (drive_state, string option) action" where
  "getItem key s = (Inr (items s key), s)"

definition drive_error :: "string \<Rightarrow> (drive_state, unit) action" where
  "drive_error msg = modify (\<lambda>s. s\<lparr>drive_log := drive_log s @ [msg]\<rparr>)"

text \<open>Truthiness of what \<^verbatim>\<open>getItem\<close> returns: a text that is not empty.\<close>

definition truthy_str :: "string option \<Rightarrow> bool" where
  "truthy_str x = (case x of None \<Rightarrow> False | Some str \<Rightarrow> str \<noteq> [])"

definition storagePrefix :: string where
  "storagePrefix = ''sentimentpulse_gdrive_''"

definition getStorageKey :: "string \<Rightarrow> string" where
  "getStorageKey uid = storagePrefix @ uid"

text \<open>
  The object literal \<open>userData\<close> of \<open>saveUserData\<close>; \<open>now\<close> is the clock reading as an
  ISO string. An array is truthy, so \<^verbatim>\<open>data.trackedAssets || []\<close> replaces an absent
  list only.
\<close>

definition userData :: "'v engine \<Rightarrow> string \<Rightarrow> 'v PartialUserData \<Rightarrow> string \<Rightarrow> 'v UserData" where
  "userData js uid data now =
     \<lparr>ud_userId = uid,
      trackedAssets = (case p_trackedAssets data of None \<Rightarrow> [] | Some xs \<Rightarrow> xs),
      preferences = (case p_preferences data of
                       None \<Rightarrow> js_empty_object js
                     | Some v \<Rightarrow> if js_truthy js v then v else js_empty_object js),
      subscription = (case p_subscription data of
                        None \<Rightarrow> js_null js
                      | Some v \<Rightarrow> if js_truthy js v then v else js_null js),
      ud_alerts = (case p_alerts data of None \<Rightarrow> [] | Some xs \<Rightarrow> xs),
      ud_timestamp = now\<rparr>"

text \<open>
  The argument of each \<^verbatim>\<open>setItem\<close> is evaluated before the call, so a throw of
  \<^verbatim>\<open>JSON.stringify\<close> leaves the storage as it was. The handler logs and throws again.
\<close>

definition saveUserData :: "'v engine \<Rightarrow> (string \<Rightarrow> bool) \<Rightarrow> string \<Rightarrow> 'v PartialUserData \<Rightarrow> string \<Rightarrow> (drive_state, unit) action" where
  "saveUserData js accepts uid data now =
     try_catch
       (let storageKey = getStorageKey uid in
        bindA (liftE (JSON_stringify js (userData js uid data now))) (\<lambda>json.
          thenA (setItem accepts storageKey json)
            (bindA (liftE (JSON_stringify js (userData js uid data now))) (\<lambda>backupJson.
               setItem accepts (storageKey @ ''_backup'') backupJson))))
       (\<lambda>e. thenA (drive_error ''Failed to save user data:'') (throwA e))"

text \<open>\<open>None\<close> is the \<^verbatim>\<open>null\<close> that \<open>loadUserData\<close> returns.\<close>

definition loadUserData :: "'v engine \<Rightarrow> string \<Rightarrow> (drive_state, 'v PartialUserData option) action" where
  "loadUserData js uid =
     try_catch
       (let storageKey = getStorageKey uid in
        bindA (getItem storageKey) (\<lambda>data.
          if truthy_str data then
            bindA (liftE (bindE (deref data) (JSON_parse js))) (\<lambda>parsed. returnA parsed)
          else
            bindA (getItem (storageKey @ ''_backup'')) (\<lambda>backupData.
              if truthy_str backupData then
                bindA (liftE (bindE (deref backupData) (JSON_parse js))) (\<lambda>parsed.
                  returnA parsed)
              else returnA None)))
       (\<lambda>e. thenA (drive_error ''Failed to load user data:'') (returnA None))"

text \<open>The object \<^verbatim>\<open>{}\<close> as a \<^verbatim>\<open>Partial<UserData>\<close>.\<close>

definition empty_document :: "'v PartialUserData" where
  "empty_document =
     \<lparr>p_userId = None, p_trackedAssets = None, p_preferences = None,
      p_subscription = None, p_alerts = None, p_timestamp = None\<rparr>"

text \<open>A stored record as the object that \<^verbatim>\<open>JSON.parse\<close> builds from its text.\<close>

definition as_parsed :: "'v UserData \<Rightarrow> 'v PartialUserData" where
  "as_parsed d =
     \<lparr>p_userId = Some (ud_userId d),
      p_trackedAssets = Some (trackedAssets d),
      p_preferences = Some (preferences d),
      p_subscription = Some (subscription d),
      p_alerts = Some (ud_alerts d),
      p_timestamp = Some (ud_timestamp d)\<rparr>"

text \<open>Nothing catches in \<open>syncTrackedAssets\<close>: an error of the save leaves it.\<close>

definition syncTrackedAssets :: "'v engine \<Rightarrow> (string \<Rightarrow> bool) \<Rightarrow> string \<Rightarrow> string list \<Rightarrow> string \<Rightarrow> (drive_state, unit) action" where
  "syncTrackedAssets js accepts uid tracked now =
     bindA (loadUserData js uid) (\<lambda>loaded.
       let stored = (case loaded of None \<Rightarrow> empty_document | Some d \<Rightarrow> d);
           stored' = stored\<lparr>p_trackedAssets := Some (new_Set tracked)\<rparr>
       in saveUserData js accepts uid stored' now)"

section \<open>Statements about traces\<close>

text \<open>
  \<open>issues Q m\<close>: whatever the state, \<open>m\<close> only appends to the trace of SDK calls, and
  every call it appends satisfies \<open>Q\<close>.
\<close>

definition issues :: "(sdk_call \<Rightarrow> bool) \<Rightarrow> ('a world_scheme, 'b) action \<Rightarrow> bool" where
  "issues Q m = (\<forall>s. \<exists>new. calls (snd (m s)) = calls s @ new \<and> list_all Q new)"

definition score_in_range :: "sdk_call \<Rightarrow> bool" where
  "score_in_range c =
     (case c of
        AssetsUpdate _ a \<Rightarrow> - 1 \<le> sentimentScore a \<and> sentimentScore a \<le> 1
      | _ \<Rightarrow> True)"

text \<open>\<open>no_throw m\<close>: whatever the state, no error leaves \<open>m\<close>.\<close>

definition no_throw :: "('s, 'a) action \<Rightarrow> bool" where
  "no_throw m = (\<forall>s. \<exists>v. fst (m s) = Inr v)"

section \<open>Example inputs\<close>

text \<open>The numbers of the example assets are doubles: whole numbers and binary fractions.\<close>

definition bare_asset :: Asset where
  "bare_asset =
     \<lparr>asset_id = Some ''a1'', symbol = ''ACME'', name = ''Acme Corp'', atype = Stock,
      currentPrice = 100, priceChange24h = 1, volume24h = None, marketCap = None,
      sentimentScore = 0, predictionGrowthProb = 0.5, confidenceLevel = 50,
      newsArticles = None, technicalIndicators = None, socialMetrics = None,
      lastAnalyzed = None, updatedAt = None\<rparr>"

text \<open>
  An asset whose weighted sum is 0.1 in exact arithmetic: technical score
  \<open>(0.1 - 0.3 + 0.4) / 3\<close> and volume score 0.4, the other two scores 0.
\<close>

definition borderline_asset :: Asset where
  "borderline_asset =
     bare_asset
       \<lparr>priceChange24h := 3, volume24h := Some 2000000,
        technicalIndicators :=
          Some \<lparr>rsi = Some 40, macd = Some (- 1), sma20 = Some 90, sma50 = Some 80\<rparr>\<rparr>"

definition keen_asset :: Asset where
  "keen_asset = bare_asset\<lparr>sentimentScore := 0.9375\<rparr>"

definition half_asset :: Asset where
  "half_asset = bare_asset\<lparr>sentimentScore := 0.5\<rparr>"


definition high_draws :: draws where
  "high_draws =
     \<lparr>r_price = 0.5, r_sentiment = 0.875, r_confidence = 0.5, r_volume = 0.5, r_change = 0.5\<rparr>"

text \<open>An SDK that lists one asset and resolves every call.\<close>

definition one_asset_sdk :: sdk where
  "one_asset_sdk =
     \<lparr>assets_list = (\<lambda>n. Resolved [keen_asset]),
      alerts_list = (\<lambda>n. Resolved []),
      subscriptions_list = (\<lambda>n. Resolved []),
      write_result = (\<lambda>n. Resolved ()),
      alerts_entity = True\<rparr>"

definition idle_refresh :: refresh_state where
  "idle_refresh =
     \<lparr>calls = [], toasts = [], console = [], lastRefresh = 0, isRefreshing = False\<rparr>"

text \<open>
  A company whose name has a letter outside ASCII, \<open>CAF\<close> followed by the two bytes of
  U+00C9 and \<open> Holdings\<close>, and a search for \<open>caf\<close> followed by the two bytes of U+00E9.
\<close>

definition cafe_asset :: Asset where
  "cafe_asset =
     bare_asset\<lparr>asset_id := Some ''a3'', symbol := ''CAFE'',
                name := ''CAF'' @ [CHR 0xC3, CHR 0x89] @ '' Holdings'', currentPrice := 120\<rparr>"

definition tesla_asset :: Asset where
  "tesla_asset =
     bare_asset\<lparr>asset_id := Some ''a4'', symbol := ''TSLA'', name := ''Tesla'',
                currentPrice := 250\<rparr>"

definition plain_filters :: filters where
  "plain_filters =
     \<lparr>trackedSymbols = [''TSLA''], selectedType = OnlyType Stock, minPrice = ''50'',
      maxPrice = ''500'', searchTerm = ''caf'' @ [CHR 0xC3, CHR 0xA9], sortBy = ByPrice\<rparr>"

definition digits_parseFloat :: "string \<Rightarrow> real option" where
  "digits_parseFloat str =
     (if str = ''50'' then Some 50 else if str = ''500'' then Some 500 else None)"

text \<open>
  \<^verbatim>\<open>toLowerCase\<close> on text of the Basic Latin and Latin-1 Supplement blocks, in
  UTF-8: an ASCII capital gains 32, and so does the second byte of a capital of
  U+00C0 to U+00DE (the multiplication sign U+00D7 apart), whose first byte is \<open>C3\<close>.
\<close>

fun latin1_lowerCase :: "string \<Rightarrow> string" where
  "latin1_lowerCase [] = []"
| "latin1_lowerCase [c] = [lower_char c]"
| "latin1_lowerCase (c # d # cs) =
     (if c = CHR 0xC3 then
        c # (if 0x80 \<le> (of_char d :: nat) \<and> (of_char d :: nat) \<le> 0x9E
                \<and> (of_char d :: nat) \<noteq> 0x97
             then char_of ((of_char d :: nat) + 32) else d) # latin1_lowerCase cs
      else lower_char c # latin1_lowerCase (d # cs))"

text \<open>The assets of the modal's state: \<open>fetchAssets\<close> leaves no symbol twice in it.\<close>

definition listed_assets :: "Asset list" where
  "listed_assets = [bare_asset, tesla_asset, cafe_asset]"

text \<open>What the SDK lists: one more asset with the symbol of the first.\<close>

definition served_assets :: "Asset list" where
  "served_assets = [bare_asset, tesla_asset, bare_asset\<lparr>currentPrice := 120\<rparr>]"

definition idle_search :: search_state where
  "idle_search =
     \<lparr>calls = [], toasts = [], console = [], assets = [], filteredAssets = [],
      modal_loading = True\<rparr>"

definition listing_sdk :: sdk where
  "listing_sdk = one_asset_sdk\<lparr>assets_list := (\<lambda>n. Resolved served_assets)\<rparr>"

text \<open>
  Values for the fields typed \<^verbatim>\<open>any\<close> in the examples: JSON data without numbers.
  On these \<^verbatim>\<open>JSON.stringify\<close> never throws, and it is written out: a string is
  quoted, with the quote, the backslash and the control characters escaped; the members
  of an array or an object are separated by commas.
\<close>

datatype js_value =
    JNull
  | JBool bool
  | JStr string
  | JArr "js_value list"
  | JObj "(string \<times> js_value) list"

definition truthy_value :: "js_value \<Rightarrow> bool" where
  "truthy_value v =
     (case v of JNull \<Rightarrow> False | JBool b \<Rightarrow> b | JStr str \<Rightarrow> str \<noteq> []
      | JArr _ \<Rightarrow> True | JObj _ \<Rightarrow> True)"

definition hex_digit :: "nat \<Rightarrow> char" where
  "hex_digit n = ''0123456789abcdef'' ! n"

definition escape_char :: "char \<Rightarrow> string" where
  "escape_char c =
     (if c = CHR 0x22 then [CHR 0x5C, CHR 0x22]
      else if c = CHR 0x5C then [CHR 0x5C, CHR 0x5C]
      else if c = CHR 0x08 then [CHR 0x5C, CHR ''b'']
      else if c = CHR 0x0C then [CHR 0x5C, CHR ''f'']
      else if c = CHR 0x0A then [CHR 0x5C, CHR ''n'']
      else if c = CHR 0x0D then [CHR 0x5C, CHR ''r'']
      else if c = CHR 0x09 then [CHR 0x5C, CHR ''t'']
      else if (of_char c :: nat) < 0x20 then
        [CHR 0x5C, CHR ''u'', CHR ''0'', CHR ''0'',
         hex_digit ((of_char c :: nat) div 16), hex_digit ((of_char c :: nat) mod 16)]
      else [c])"

definition quote :: "string \<Rightarrow> string" where
  "quote str = CHR 0x22 # concat (map escape_char str) @ [CHR 0x22]"

fun commas :: "string list \<Rightarrow> string" where
  "commas [] = []"
| "commas [x] = x"
| "commas (x # y # ys) = x @ '','' @ commas (y # ys)"

fun stringify_value :: "js_value \<Rightarrow> string" where
  "stringify_value JNull = ''null''"
| "stringify_value (JBool b) = (if b then ''true'' else ''false'')"
| "stringify_value (JStr str) = quote str"
| "stringify_value (JArr vs) = ''['' @ commas (map stringify_value vs) @ '']''"
| "stringify_value (JObj members) =
     ''{'' @ commas (map (\<lambda>member. quote (fst member) @ '':'' @ stringify_value (snd member))
                      members) @ ''}''"

definition stringify_record :: "js_value UserData \<Rightarrow> string" where
  "stringify_record d =
     ''{'' @ quote ''userId'' @ '':'' @ quote (ud_userId d)
     @ '','' @ quote ''trackedAssets'' @ '':['' @ commas (map quote (trackedAssets d)) @ '']''
     @ '','' @ quote ''preferences'' @ '':'' @ stringify_value (preferences d)
     @ '','' @ quote ''subscription'' @ '':'' @ stringify_value (subscription d)
     @ '','' @ quote ''alerts'' @ '':['' @ commas (map stringify_value (ud_alerts d)) @ '']''
     @ '','' @ quote ''timestamp'' @ '':'' @ quote (ud_timestamp d) @ ''}''"

text \<open>
  An engine for the examples. Its \<^verbatim>\<open>JSON.parse\<close> reads the texts of the records
  \<open>known\<close>, each back to its record, and throws on every other text.
\<close>

definition example_engine :: "js_value UserData list \<Rightarrow> js_value engine" where
  "example_engine known =
     \<lparr>js_truthy = truthy_value,
      js_empty_object = JObj [],
      js_null = JNull,
      JSON_stringify = (\<lambda>d. Inr (stringify_record d)),
      JSON_parse = (\<lambda>json. case find (\<lambda>d. stringify_record d = json) known of
                              None \<Rightarrow> Inl SyntaxError
                            | Some d \<Rightarrow> Inr (Some (as_parsed d)))\<rparr>"



definition signed_in :: Auth where
  "signed_in =
     \<lparr>user = Some \<lparr>userId = ''u1'', email = ''u1@example.org'', userName = ''User One'',
                     createdTime = ''2024-01-01''\<rparr>,
      isAuthenticated = True\<rparr>"

text \<open>An SDK that rejects every call.\<close>

definition failing_sdk :: sdk where
  "failing_sdk =
     \<lparr>assets_list = (\<lambda>n. Rejected),
      alerts_list = (\<lambda>n. Rejected),
      subscriptions_list = (\<lambda>n. Rejected),
      write_result = (\<lambda>n. Rejected),
      alerts_entity = True\<rparr>"

definition idle_alerts :: alerts_state where
  "idle_alerts =
     \<lparr>calls = [], toasts = [], console = [], alerts = [], loading = False,
      notifications = []\<rparr>"





definition promo_page :: subscription_state where
  "promo_page =
     \<lparr>calls = [], toasts = [], console = [], currentSubscription = None,
      page_loading = False, promoCode = ''FASB99rfa9'', showPromoInput = True\<rparr>"

definition wrong_page :: subscription_state where
  "wrong_page = promo_page\<lparr>promoCode := ''WELCOME''\<rparr>"

definition empty_drive :: drive_state where
  "empty_drive = \<lparr>items = Map.empty, drive_log = []\<rparr>"

section \<open>Basic facts\<close>

lemma bindE_Inr: "bindE (Inr v) f = f v"
  by (simp add: bindE_def)

section \<open>The forecasting engine returns\<close>

lemma calculateSentimentImpact_Inr:
  "calculateSentimentImpact rnd asset =
     Inr (clamp (- 1) 1
       (case newsArticles asset of
          None \<Rightarrow> sentimentScore asset
        | Some articles \<Rightarrow>
            if articles = [] then sentimentScore asset
            else fdiv rnd
                   (fadd rnd (sentimentScore asset)
                      (fdiv rnd
                         (foldl (\<lambda>acc article. fadd rnd acc (sentimentValue rnd article)) 0 articles)
                         (real (length articles))))
                   2))"
  by (cases "newsArticles asset")
     (simp_all add: calculateSentimentImpact_def Let_def truthy_obj_def deref_def bindE_def
        num_or_def)

lemma calculateTechnicalScore_total: "\<exists>v. calculateTechnicalScore rnd asset = Inr v"
  by (cases "technicalIndicators asset")
     (simp_all add: calculateTechnicalScore_def Let_def truthy_obj_def deref_def bindE_def)

lemma calculateVolumeScore_total: "\<exists>v. calculateVolumeScore rnd asset = Inr v"
  by (simp add: calculateVolumeScore_def Let_def)

lemma calculateSocialScore_total: "\<exists>v. calculateSocialScore rnd asset = Inr v"
  by (cases "socialMetrics asset")
     (simp_all add: calculateSocialScore_def Let_def truthy_obj_def deref_def bindE_def)

lemma calculateConfidence_total: "\<exists>v. calculateConfidence rnd asset scores = Inr v"
  by (cases "newsArticles asset")
     (simp_all add: calculateConfidence_def Let_def truthy_obj_def deref_def bindE_def)

lemma generateReasoning_total: "\<exists>v. generateReasoning rnd asset scores = Inr v"
proof (cases "technicalIndicators asset")
  case None
  then show ?thesis
    by (simp add: generateReasoning_def Let_def truthy_num_def bindE_def)
next
  case (Some ind)
  then show ?thesis
    by (cases "rsi ind")
       (simp_all add: generateReasoning_def Let_def truthy_num_def deref_def bindE_def)
qed

lemma generateForecast_Inr:
  assumes s: "calculateSentimentImpact rnd asset = Inr s"
    and t: "calculateTechnicalScore rnd asset = Inr te"
    and v: "calculateVolumeScore rnd asset = Inr v"
    and c: "calculateSocialScore rnd asset = Inr c"
  shows "\<exists>r. generateForecast rnd config asset random = Inr r
    \<and> direction (prediction r) =
        direction_of rnd (compositeScore rnd config
          \<lparr>s_sentiment = s, s_technical = te, s_volume = v, s_social = c\<rparr>)
    \<and> price (prediction r) =
        predictPrice rnd asset (compositeScore rnd config
          \<lparr>s_sentiment = s, s_technical = te, s_volume = v, s_social = c\<rparr>) random"
proof -
  let ?sc = "\<lparr>s_sentiment = s, s_technical = te, s_volume = v, s_social = c\<rparr>"
  obtain conf where conf: "calculateConfidence rnd asset ?sc = Inr conf"
    using calculateConfidence_total by blast
  obtain rs where rs: "generateReasoning rnd asset ?sc = Inr rs"
    using generateReasoning_total by blast
  show ?thesis
    by (simp add: generateForecast_def s t v c conf rs bindE_Inr Let_def)
qed

section \<open>Evaluating the rounding\<close>

lemma nearest_numeral:
  "nearest (numeral k) x =
     (if x < 4503599627370496 then nearest (pred_numeral k) (2 * x) / 2
      else if 9007199254740992 \<le> x then 2 * nearest (pred_numeral k) (x / 2)
      else of_int (round_half_even x))"
  by (simp add: numeral_eq_Suc)

lemmas binary64_eval =
  binary64_def nearest_numeral round_half_even_def fadd_def fsub_def fmul_def fdiv_def

lemma binary64_literals:
  "binary64 0.1 = 3602879701896397 / 36028797018963968"
  "binary64 0.29 = 5224175567749775 / 18014398509481984"
  "binary64 0.5 = 1 / 2"
  by (simp_all add: binary64_eval)

section \<open>Traces of SDK calls\<close>

lemma issuesI:
  "(\<And>s. \<exists>new. calls (snd (m s)) = calls s @ new \<and> list_all Q new) \<Longrightarrow> issues Q m"
  by (simp add: issues_def)

lemma issuesD:
  "issues Q m \<Longrightarrow> \<exists>new. calls (snd (m s)) = calls s @ new \<and> list_all Q new"
  by (simp add: issues_def)

lemma issues_returnA: "issues Q (returnA v)"
  by (simp add: issues_def returnA_def)

lemma issues_liftE: "issues Q (liftE r)"
  by (simp add: issues_def liftE_def)

lemma issues_modify: "(\<And>s. calls (f s) = calls s) \<Longrightarrow> issues Q (modify f)"
  by (simp add: issues_def modify_def)

lemma issues_bindA:
  assumes m: "issues Q m" and f: "\<And>v. issues Q (f v)"
  shows "issues Q (bindA m f)"
proof (rule issuesI)
  fix s
  obtain r s1 where ms: "m s = (r, s1)" by (cases "m s")
  from issuesD [OF m, of s] ms obtain new1
    where n1: "calls s1 = calls s @ new1" "list_all Q new1" by auto
  show "\<exists>new. calls (snd (bindA m f s)) = calls s @ new \<and> list_all Q new"
  proof (cases r)
    case (Inl e)
    with ms n1 show ?thesis by (simp add: bindA_def)
  next
    case (Inr v)
    from issuesD [OF f, of v s1] obtain new2
      where n2: "calls (snd (f v s1)) = calls s1 @ new2" "list_all Q new2" by auto
    with ms n1 Inr show ?thesis by (simp add: bindA_def)
  qed
qed

lemma issues_thenA: "issues Q m \<Longrightarrow> issues Q n \<Longrightarrow> issues Q (thenA m n)"
  by (simp add: thenA_def issues_bindA)

lemma issues_try_catch:
  assumes m: "issues Q m" and h: "\<And>e. issues Q (h e)"
  shows "issues Q (try_catch m h)"
proof (rule issuesI)
  fix s
  obtain r s1 where ms: "m s = (r, s1)" by (cases "m s")
  from issuesD [OF m, of s] ms obtain new1
    where n1: "calls s1 = calls s @ new1" "list_all Q new1" by auto
  show "\<exists>new. calls (snd (try_catch m h s)) = calls s @ new \<and> list_all Q new"
  proof (cases r)
    case (Inr v)
    with ms n1 show ?thesis by (simp add: try_catch_def)
  next
    case (Inl e)
    from issuesD [OF h, of e s1] obtain new2
      where n2: "calls (snd (h e s1)) = calls s1 @ new2" "list_all Q new2" by auto
    with ms n1 Inl show ?thesis by (simp add: try_catch_def)
  qed
qed

lemma issues_try_finally:
  assumes m: "issues Q m" and f: "issues Q fin"
  shows "issues Q (try_finally m fin)"
proof (rule issuesI)
  fix s
  obtain r s1 where ms: "m s = (r, s1)" by (cases "m s")
  from issuesD [OF m, of s] ms obtain new1
    where n1: "calls s1 = calls s @ new1" "list_all Q new1" by auto
  obtain r2 s2 where fs: "fin s1 = (r2, s2)" by (cases "fin s1")
  from issuesD [OF f, of s1] fs obtain new2
    where n2: "calls s2 = calls s1 @ new2" "list_all Q new2" by auto
  from ms fs n1 n2 show "\<exists>new. calls (snd (try_finally m fin s)) = calls s @ new \<and> list_all Q new"
    by (cases r2) (simp_all add: try_finally_def)
qed

lemma issues_sdk_request: "Q c \<Longrightarrow> issues Q (sdk_request c answer)"
  by (auto simp add: issues_def sdk_request_def split: sdk_result.splits)

lemma issues_for_each: "(\<And>x. issues Q (body x)) \<Longrightarrow> issues Q (for_each body xs)"
  by (induction xs) (simp_all add: issues_returnA issues_thenA)

lemma issues_toast_error: "issues Q (toast_error msg)"
  by (simp add: toast_error_def issues_modify)

lemma issues_toast_success: "issues Q (toast_success msg)"
  by (simp add: toast_success_def issues_modify)

lemma issues_console_error: "issues Q (console_error msg)"
  by (simp add: console_error_def issues_modify)

lemma issues_case_prod: "(\<And>a b. issues Q (f a b)) \<Longrightarrow> issues Q (case_prod f p)"
  by (cases p) simp

lemma issues_if: "issues Q m \<Longrightarrow> issues Q n \<Longrightarrow> issues Q (if b then m else n)"
  by simp

lemmas issues_intros =
  issues_returnA issues_liftE issues_modify issues_bindA issues_thenA issues_try_catch
  issues_try_finally issues_for_each issues_toast_error issues_toast_success
  issues_console_error issues_case_prod issues_if

lemma updatedAsset_sentiment:
  "sentimentScore (updatedAsset rnd asset d ts) =
     clamp (- 1) 1
       (fadd rnd (sentimentScore asset) (fmul rnd (fsub rnd (r_sentiment d) (rnd 0.5)) (rnd 0.3)))"
  by (simp add: updatedAsset_def Let_def)

lemma refreshData_issues: "issues score_in_range (refreshData rnd env random ts now)"
  unfolding refreshData_def
  by (intro issues_intros issues_sdk_request)
     (simp_all add: score_in_range_def updatedAsset_sentiment clamp_def)


section \<open>The translation table\<close>

lemma lookup_list_all:
  "list_all (\<lambda>(k, e). P e) tab \<Longrightarrow> lookup tab key = Some e \<Longrightarrow> P e"
  by (induction tab) (auto split: if_splits)

lemma lookup_present:
  "distinct (map fst tab) \<Longrightarrow> (key, e) \<in> set tab \<Longrightarrow> lookup tab key = Some e"
  by (induction tab) (auto simp add: image_iff)

lemma lookup_absent: "key \<notin> fst ` set tab \<Longrightarrow> lookup tab key = None"
  by (induction tab) auto

lemma key_absent:
  "list_all (\<lambda>(k, e). Q k) tab \<Longrightarrow> \<not> Q key \<Longrightarrow> key \<notin> fst ` set tab"
  by (induction tab) auto

text \<open>The object literal of the source repeats no key.\<close>

lemma keys_distinct: "distinct (map fst translations_table)"
  unfolding translations_table_def
  by (simp only: list.map fst_conv distinct.simps set_simps insert_iff empty_iff
      list.inject list.distinct char.inject simp_thms de_Morgan_disj)

lemma translations_nonempty:
  "list_all (\<lambda>(k, e). en e \<noteq> [] \<and> sk e \<noteq> []) translations_table"
  unfolding translations_table_def by simp

lemma keys_dotted: "list_all (\<lambda>(k, e). CHR ''.'' \<in> set k) translations_table"
  unfolding translations_table_def by simp

lemma table_entries:
  "(''nav.dashboard'', \<lparr>en = ''Dashboard'', sk = ''Preh'' @ [CHR 0xC4, CHR 0xBE] @ ''ad''\<rparr>)
     \<in> set translations_table"
  "(''common.error'', \<lparr>en = ''Error'', sk = ''Chyba''\<rparr>) \<in> set translations_table"
  "(''success.unsubscribed'',
    \<lparr>en = ''Successfully unsubscribed'',
     sk = [CHR 0xC3, CHR 0x9A] @ ''spe'' @ [CHR 0xC5, CHR 0xA1] @ ''ne zru''
          @ [CHR 0xC5, CHR 0xA1] @ ''en'' @ [CHR 0xC3, CHR 0xA9] @ '' odberanie''\<rparr>)
     \<in> set translations_table"
  unfolding translations_table_def
  by (simp_all only: set_simps insert_iff empty_iff prod.inject list.inject list.distinct
      char.inject simp_thms)

section \<open>Lists in the search modal\<close>

lemma set_insert_by: "set (insert_by cmp x xs) = insert x (set xs)"
  by (induction xs) auto

lemma length_insert_by: "length (insert_by cmp x xs) = Suc (length xs)"
  by (induction xs) auto

lemma set_sort_with: "set (sort_with cmp xs) = set xs"
  unfolding sort_with_def by (induction xs) (simp_all add: set_insert_by)

lemma length_sort_with: "length (sort_with cmp xs) = length xs"
  unfolding sort_with_def by (induction xs) (simp_all add: length_insert_by)

lemma new_Set_foldl:
  "set (foldl (\<lambda>acc x. if x \<in> set acc then acc else acc @ [x]) acc xs) = set acc \<union> set xs
   \<and> (distinct acc \<longrightarrow> distinct (foldl (\<lambda>acc x. if x \<in> set acc then acc else acc @ [x]) acc xs))"
  by (induction xs arbitrary: acc) auto

lemma set_new_Set: "set (new_Set xs) = set xs"
  using new_Set_foldl [of "[]" xs] by (simp add: new_Set_def)

lemma distinct_new_Set: "distinct (new_Set xs)"
  using new_Set_foldl [of "[]" xs] by (simp add: new_Set_def)

lemma set_uniqueBySymbol: "set (uniqueBySymbol xs) \<subseteq> set xs"
proof
  fix a assume "a \<in> set (uniqueBySymbol xs)"
  then obtain i where "(i, a) \<in> set (enumerate 0 xs)"
    by (auto simp add: uniqueBySymbol_def)
  then show "a \<in> set xs"
    by (auto simp add: in_set_enumerate_eq)
qed

lemma length_uniqueBySymbol: "length (uniqueBySymbol xs) \<le> length xs"
proof -
  have "length (uniqueBySymbol xs) \<le> length (enumerate 0 xs)"
    unfolding uniqueBySymbol_def by (simp del: length_enumerate)
  then show ?thesis by simp
qed

lemma distinct_uniqueBySymbol: "distinct (map symbol (uniqueBySymbol xs))"
proof -
  let ?keep = "\<lambda>(index, asset). int index = findIndex (\<lambda>a. symbol a = symbol asset) xs"
  let ?ys = "filter ?keep (enumerate 0 xs)"
  have d: "distinct ?ys"
    by (simp add: distinct_enumerate)
  have inj: "inj_on (\<lambda>p. symbol (snd p)) (set ?ys)"
  proof (rule inj_onI)
    fix p q
    assume p: "p \<in> set ?ys" and q: "q \<in> set ?ys"
      and eq: "symbol (snd p) = symbol (snd q)"
    obtain i a where pa: "p = (i, a)" by (cases p)
    obtain j b where qb: "q = (j, b)" by (cases q)
    from p pa have i: "int i = findIndex (\<lambda>x. symbol x = symbol a) xs"
      and a: "a = xs ! i" by (auto simp add: in_set_enumerate_eq)
    from q qb have j: "int j = findIndex (\<lambda>x. symbol x = symbol b) xs"
      and b: "b = xs ! j" by (auto simp add: in_set_enumerate_eq)
    from eq pa qb have "symbol a = symbol b" by simp
    with i j have "i = j" by simp
    with a b pa qb show "p = q" by simp
  qed
  have "map symbol (uniqueBySymbol xs) = map (\<lambda>p. symbol (snd p)) ?ys"
    by (simp add: uniqueBySymbol_def comp_def)
  with d inj show ?thesis by (simp add: distinct_map)
qed

lemma str_includes_sublist: "str_includes str sub \<longleftrightarrow> sublist sub str"
  by (induction str) (simp_all add: sublist_Cons_right)

lemma filterAssets_subset:
  assumes "a \<in> set (filterAssets rnd parseFloat lowerCase f fetched)"
  shows "a \<in> set fetched"
    and "symbol a \<notin> set (trackedSymbols f)"
    and "selectedType f \<noteq> AllTypes \<Longrightarrow> selectedType f = OnlyType (atype a)"
    and "minPrice f \<noteq> [] \<Longrightarrow> \<exists>lo. parseFloat (minPrice f) = Some lo \<and> lo \<le> currentPrice a"
    and "maxPrice f \<noteq> [] \<Longrightarrow> \<exists>hi. parseFloat (maxPrice f) = Some hi \<and> currentPrice a \<le> hi"
    and "searchTerm f \<noteq> [] \<Longrightarrow>
           sublist (lowerCase (searchTerm f)) (lowerCase (symbol a))
           \<or> sublist (lowerCase (searchTerm f)) (lowerCase (name a))"
proof -
  from assms set_uniqueBySymbol have in_sorted: "a \<in> set (sort_with (compareAssets rnd (sortBy f))
      (let filtered1 = filter (\<lambda>asset. symbol asset \<notin> set (new_Set (trackedSymbols f))) fetched;
           filtered2 = (if selectedType f \<noteq> AllTypes
                        then filter (\<lambda>asset. OnlyType (atype asset) = selectedType f) filtered1
                        else filtered1);
           filtered3 = (if minPrice f \<noteq> []
                        then filter (\<lambda>asset. case parseFloat (minPrice f) of
                                                None \<Rightarrow> False
                                              | Some lo \<Rightarrow> currentPrice asset \<ge> lo) filtered2
                        else filtered2);
           filtered4 = (if maxPrice f \<noteq> []
                        then filter (\<lambda>asset. case parseFloat (maxPrice f) of
                                                None \<Rightarrow> False
                                              | Some hi \<Rightarrow> currentPrice asset \<le> hi) filtered3
                        else filtered3)
       in (if searchTerm f \<noteq> []
           then filter (\<lambda>asset.
                  str_includes (lowerCase (symbol asset)) (lowerCase (searchTerm f))
                  \<or> str_includes (lowerCase (name asset)) (lowerCase (searchTerm f)))
                  filtered4
           else filtered4)))"
    unfolding filterAssets_def Let_def by blast
  note mem = in_sorted [unfolded set_sort_with Let_def]
  from mem show "a \<in> set fetched"
    by (auto split: if_splits)
  from mem show "symbol a \<notin> set (trackedSymbols f)"
    by (auto simp add: set_new_Set split: if_splits)
  from mem show "selectedType f \<noteq> AllTypes \<Longrightarrow> selectedType f = OnlyType (atype a)"
    by (auto split: if_splits)
  from mem show "minPrice f \<noteq> [] \<Longrightarrow> \<exists>lo. parseFloat (minPrice f) = Some lo \<and> lo \<le> currentPrice a"
    by (auto split: if_splits option.splits)
  from mem show "maxPrice f \<noteq> [] \<Longrightarrow> \<exists>hi. parseFloat (maxPrice f) = Some hi \<and> currentPrice a \<le> hi"
    by (auto split: if_splits option.splits)
  from mem show "searchTerm f \<noteq> [] \<Longrightarrow>
           sublist (lowerCase (searchTerm f)) (lowerCase (symbol a))
           \<or> sublist (lowerCase (searchTerm f)) (lowerCase (name a))"
    by (auto simp add: str_includes_sublist split: if_splits)
qed

lemma cond_filter_le:
  "length xs \<le> n \<Longrightarrow> length (if b then filter P xs else xs) \<le> n"
  by (auto intro: order_trans [OF length_filter_le])

lemma length_filterAssets:
  "length (filterAssets rnd parseFloat lowerCase f fetched) \<le> length fetched"
  unfolding filterAssets_def Let_def
  by (rule order_trans [OF length_uniqueBySymbol], simp only: length_sort_with)
     (intro cond_filter_le length_filter_le)

lemma lower_eval:
  "toLowerCase ''fasb99rfa9'' = ''fasb99rfa9''" "toLowerCase ''FASB99rfa9'' = ''fasb99rfa9''"
  "toLowerCase ''WELCOME'' = ''welcome''"
  by (simp_all add: toLowerCase_def lower_char_def char_of_def bit_0)

lemma bare_asset_fields:
  "symbol bare_asset = ''ACME''" "name bare_asset = ''Acme Corp''" "atype bare_asset = Stock"
  "currentPrice bare_asset = 100" "asset_id bare_asset = Some ''a1''"
  by (simp_all add: bare_asset_def)

lemma tesla_asset_fields:
  "symbol tesla_asset = ''TSLA''" "name tesla_asset = ''Tesla''" "atype tesla_asset = Stock"
  "currentPrice tesla_asset = 250"
  by (simp_all add: tesla_asset_def bare_asset_def)

lemma cafe_asset_fields:
  "symbol cafe_asset = ''CAFE''"
  "name cafe_asset = ''CAF'' @ [CHR 0xC3, CHR 0x89] @ '' Holdings''"
  "atype cafe_asset = Stock" "currentPrice cafe_asset = 120"
  by (simp_all add: cafe_asset_def bare_asset_def)


lemma fetchAssets_state:
  "snd (fetchAssets env s) =
     (case assets_list env (length (calls s)) of
        Resolved list \<Rightarrow>
          s\<lparr>calls := calls s @ [AssetsList], assets := uniqueBySymbol list,
            modal_loading := False\<rparr>
      | Rejected \<Rightarrow>
          s\<lparr>calls := calls s @ [AssetsList],
            console := console s @ [''Failed to fetch assets:''], modal_loading := False\<rparr>)"
  by (simp add: fetchAssets_def try_finally_def try_catch_def bindA_def sdk_request_def
      modify_def console_error_def Let_def split: sdk_result.splits)

section \<open>The stored documents\<close>

lemma trackedAssets_userData:
  "trackedAssets (userData js uid (d\<lparr>p_trackedAssets := Some xs\<rparr>) now) = xs"
  by (simp add: userData_def)

lemma saveUserData_accepted:
  assumes "JSON_stringify js (userData js uid data now) = Inr json"
    and "accepts (getStorageKey uid)" and "accepts (getStorageKey uid @ ''_backup'')"
  shows "saveUserData js accepts uid data now s =
     (Inr (), s\<lparr>items := (items s)(getStorageKey uid \<mapsto> json,
                                      getStorageKey uid @ ''_backup'' \<mapsto> json)\<rparr>)"
  using assms
  by (simp add: saveUserData_def Let_def try_catch_def thenA_def bindA_def liftE_def
      setItem_def)

lemma saveUserData_returns:
  assumes "fst (saveUserData js accepts uid data now s) = Inr ()"
  shows "\<exists>json. JSON_stringify js (userData js uid data now) = Inr json
     \<and> items (snd (saveUserData js accepts uid data now s)) (getStorageKey uid) = Some json
     \<and> items (snd (saveUserData js accepts uid data now s)) (getStorageKey uid @ ''_backup'')
         = Some json"
  using assms
  by (cases "JSON_stringify js (userData js uid data now)";
      cases "accepts (getStorageKey uid)"; cases "accepts (getStorageKey uid @ ''_backup'')")
     (simp_all add: saveUserData_def Let_def try_catch_def thenA_def bindA_def liftE_def
        setItem_def drive_error_def modify_def throwA_def)

lemma saveUserData_writes:
  assumes "items (snd (saveUserData js accepts uid data now s)) k = Some json"
  shows "items s k = Some json \<or> JSON_stringify js (userData js uid data now) = Inr json"
  using assms
  by (cases "JSON_stringify js (userData js uid data now)";
      cases "accepts (getStorageKey uid)"; cases "accepts (getStorageKey uid @ ''_backup'')")
     (auto simp add: saveUserData_def Let_def try_catch_def thenA_def bindA_def liftE_def
        setItem_def drive_error_def modify_def throwA_def split: if_splits)

lemma loadUserData_returns:
  "\<exists>loaded s'. loadUserData js uid s = (Inr loaded, s') \<and> items s' = items s"
  by (auto simp add: loadUserData_def Let_def try_catch_def thenA_def bindA_def liftE_def
      getItem_def returnA_def drive_error_def modify_def bindE_def deref_def truthy_str_def
      split: option.splits sum.splits)


lemma syncTrackedAssets_save:
  "\<exists>data s'. syncTrackedAssets js accepts uid tracked now s
       = saveUserData js accepts uid (data\<lparr>p_trackedAssets := Some (new_Set tracked)\<rparr>) now s'
     \<and> items s' = items s"
proof -
  from loadUserData_returns [of js uid s] obtain loaded s'
    where l: "loadUserData js uid s = (Inr loaded, s')" and i: "items s' = items s"
    by blast
  from l have "syncTrackedAssets js accepts uid tracked now s
      = saveUserData js accepts uid
          ((case loaded of None \<Rightarrow> empty_document | Some d \<Rightarrow> d)
             \<lparr>p_trackedAssets := Some (new_Set tracked)\<rparr>) now s'"
    by (simp add: syncTrackedAssets_def bindA_def Let_def)
  with i show ?thesis by blast
qed


section \<open>Errors that leave a handler\<close>

lemma no_throwI: "(\<And>s. \<exists>v. fst (m s) = Inr v) \<Longrightarrow> no_throw m"
  by (simp add: no_throw_def)

lemma no_throwD: "no_throw m \<Longrightarrow> \<exists>v. fst (m s) = Inr v"
  by (simp add: no_throw_def)

lemma no_throw_returnA: "no_throw (returnA v)"
  by (simp add: no_throw_def returnA_def)

lemma no_throw_modify: "no_throw (modify f)"
  by (simp add: no_throw_def modify_def)

lemma no_throw_toast_error: "no_throw (toast_error msg)"
  by (simp add: toast_error_def no_throw_modify)

lemma no_throw_toast_success: "no_throw (toast_success msg)"
  by (simp add: toast_success_def no_throw_modify)

lemma no_throw_console_error: "no_throw (console_error msg)"
  by (simp add: console_error_def no_throw_modify)

lemma no_throw_bindA:
  assumes m: "no_throw m" and f: "\<And>v. no_throw (f v)"
  shows "no_throw (bindA m f)"
proof (rule no_throwI)
  fix s
  from no_throwD [OF m, of s] obtain v where v: "fst (m s) = Inr v" by blast
  obtain s1 where "m s = (Inr v, s1)" using v by (cases "m s") simp
  with no_throwD [OF f, of v s1] show "\<exists>w. fst (bindA m f s) = Inr w"
    by (simp add: bindA_def)
qed

lemma no_throw_thenA: "no_throw m \<Longrightarrow> no_throw n \<Longrightarrow> no_throw (thenA m n)"
  by (simp add: thenA_def no_throw_bindA)

lemma no_throw_try_catch:
  assumes h: "\<And>e. no_throw (h e)"
  shows "no_throw (try_catch m h)"
proof (rule no_throwI)
  fix s
  obtain r s1 where ms: "m s = (r, s1)" by (cases "m s")
  show "\<exists>v. fst (try_catch m h s) = Inr v"
  proof (cases r)
    case (Inl e)
    with ms no_throwD [OF h, of e s1] show ?thesis by (simp add: try_catch_def)
  next
    case (Inr v)
    with ms show ?thesis by (simp add: try_catch_def)
  qed
qed

lemma no_throw_try_finally:
  assumes m: "no_throw m" and f: "no_throw fin"
  shows "no_throw (try_finally m fin)"
proof (rule no_throwI)
  fix s
  from no_throwD [OF m, of s] obtain v where v: "fst (m s) = Inr v" by blast
  obtain s1 where ms: "m s = (Inr v, s1)" using v by (cases "m s") simp
  from no_throwD [OF f, of s1] obtain u where u: "fst (fin s1) = Inr u" by blast
  obtain s2 where "fin s1 = (Inr u, s2)" using u by (cases "fin s1") simp
  with ms show "\<exists>w. fst (try_finally m fin s) = Inr w"
    by (simp add: try_finally_def)
qed

lemma no_throw_if: "no_throw m \<Longrightarrow> no_throw n \<Longrightarrow> no_throw (if b then m else n)"
  by simp

lemmas no_throw_intros =
  no_throw_returnA no_throw_modify no_throw_toast_error no_throw_toast_success
  no_throw_console_error no_throw_thenA no_throw_try_catch no_throw_try_finally no_throw_if

lemma no_throw_fetchAlerts: "no_throw (fetchAlerts env auth)"
  unfolding fetchAlerts_def by (intro no_throw_intros)

lemma no_throw_createAlert: "no_throw (createAlert env auth fmt now config)"
  unfolding createAlert_def by (intro no_throw_intros)

lemma no_throw_updateAlert: "no_throw (updateAlert env auth alertId updates)"
  unfolding updateAlert_def by (intro no_throw_intros)

lemma no_throw_deleteAlert: "no_throw (deleteAlert env auth alertId)"
  unfolding deleteAlert_def by (intro no_throw_intros)

lemma no_throw_fetchSubscription: "no_throw (fetchSubscription env auth)"
  unfolding fetchSubscription_def by (intro no_throw_intros)

section \<open>What the alerts hook and the subscription page do on a rejection\<close>

lemma updateAlert_rejected:
  assumes "alerts_entity env" and "write_result env (length (calls s)) = Rejected"
  shows "updateAlert env auth alertId updates s =
     (Inr (), s\<lparr>calls := calls s @ [AlertsUpdate alertId updates],
               console := console s @ [''Failed to update alert:''],
               toasts := toasts s @ [ToastError ''Failed to update alert'']\<rparr>)"
  using assms
  by (simp add: updateAlert_def alerts_request_def try_catch_def thenA_def bindA_def
      sdk_request_def console_error_def toast_error_def modify_def)

lemma deleteAlert_rejected:
  assumes "alerts_entity env" and "write_result env (length (calls s)) = Rejected"
  shows "deleteAlert env auth alertId s =
     (Inr (), s\<lparr>calls := calls s @ [AlertsDelete alertId],
               console := console s @ [''Failed to delete alert:''],
               toasts := toasts s @ [ToastError ''Failed to delete alert'']\<rparr>)"
  using assms
  by (simp add: deleteAlert_def alerts_request_def try_catch_def thenA_def bindA_def
      sdk_request_def console_error_def toast_error_def modify_def)

lemma createAlert_rejected:
  assumes "alerts_entity env" and "write_result env (length (calls s)) = Rejected"
    and "isAuthenticated auth" and "user auth \<noteq> None"
  shows "fst (createAlert env auth fmt now config s) = Inr False"
    and "toasts (snd (createAlert env auth fmt now config s))
           = toasts s @ [ToastError ''Failed to create alert'']"
  using assms
  by (auto simp add: createAlert_def alerts_request_def try_catch_def thenA_def bindA_def
      sdk_request_def console_error_def toast_error_def modify_def liftE_def deref_def
      truthy_obj_def returnA_def Let_def)

lemma fetchAlerts_rejected:
  assumes "alerts_entity env" and "alerts_list env (length (calls s)) = Rejected"
    and "isAuthenticated auth" and "user auth \<noteq> None"
  shows "fetchAlerts env auth s =
     (Inr (), s\<lparr>loading := True, calls := calls s @ [AlertsList],
               console := console s @ [''Failed to fetch alerts:''], loading := False\<rparr>)"
  using assms
  by (auto simp add: fetchAlerts_def alerts_request_def try_finally_def try_catch_def thenA_def
      bindA_def sdk_request_def console_error_def modify_def truthy_obj_def)

lemma fetchSubscription_rejected:
  assumes "subscriptions_list env (length (calls s)) = Rejected"
  shows "fetchSubscription env auth s =
     (Inr (), s\<lparr>calls := calls s @ [SubscriptionsList],
               console := console s @ [''Failed to fetch subscription:''],
               page_loading := False\<rparr>)"
  using assms
  by (simp add: fetchSubscription_def try_finally_def try_catch_def bindA_def
      sdk_request_def console_error_def modify_def)

lemma fetchSubscription_calls:
  "calls (snd (fetchSubscription env auth s)) = calls s @ [SubscriptionsList]"
  by (simp add: fetchSubscription_def try_finally_def try_catch_def bindA_def
      sdk_request_def console_error_def modify_def Let_def split: sdk_result.splits)

lemma fetchSubscription_keeps:
  "toasts (snd (fetchSubscription env auth s)) = toasts s"
  "promoCode (snd (fetchSubscription env auth s)) = promoCode s"
  "fst (fetchSubscription env auth s) = Inr ()"
  by (simp_all add: fetchSubscription_def try_finally_def try_catch_def bindA_def
      sdk_request_def console_error_def modify_def Let_def split: sdk_result.splits)

lemma equal_ignoring_case_map:
  "equal_ignoring_case a b \<longleftrightarrow> map lower_char a = map lower_char b"
  unfolding equal_ignoring_case_def
proof (induction a arbitrary: b)
  case Nil
  show ?case by auto
next
  case (Cons x xs)
  show ?case by (cases b) (simp_all add: Cons.IH)
qed

lemma promo_code_match:
  "toLowerCase code = ''fasb99rfa9'' \<longleftrightarrow> equal_ignoring_case code ''fasb99rfa9''"
  using lower_eval(1) by (simp add: equal_ignoring_case_map toLowerCase_def)

section \<open>The calls of the alert monitor\<close>





section \<open>The claims about the forecasting engine\<close>

text \<open>
  C1. Under the default configuration the composite score of \<open>generateForecast\<close> is
  the sentiment score times 0.35 plus the technical score times 0.30 plus the volume
  score times 0.20 plus the social score times 0.15, the four scores being those of
  \<open>calculateSentimentImpact\<close>, \<open>calculateTechnicalScore\<close>, \<open>calculateVolumeScore\<close> and
  \<open>calculateSocialScore\<close> on the asset, and the sum being the one that double
  arithmetic computes: the weights are the doubles that the four literals denote, and
  each product and each sum, taken from left to right, is rounded. The reported direction
  is bullish exactly when that value is above the double 0.1, bearish exactly when it is
  below the double -0.1, and neutral exactly when it is neither; the predicted price is
  computed from the same value. The rounding is any function that gives 0.1 a value
  that is not negative.
\<close>

theorem generateForecast_composite_direction:
  "0 \<le> rnd 0.1 \<Longrightarrow>
   \<exists>s te v c r.
     calculateSentimentImpact rnd asset = Inr s \<and>
     calculateTechnicalScore rnd asset = Inr te \<and>
     calculateVolumeScore rnd asset = Inr v \<and>
     calculateSocialScore rnd asset = Inr c \<and>
     generateForecast rnd (default_config rnd) asset random = Inr r \<and>
     compositeScore rnd (default_config rnd)
       \<lparr>s_sentiment = s, s_technical = te, s_volume = v, s_social = c\<rparr>
       = rnd (rnd (rnd (rnd (s * rnd 0.35) + rnd (te * rnd 0.30)) + rnd (v * rnd 0.20))
              + rnd (c * rnd 0.15)) \<and>
     price (prediction r)
       = predictPrice rnd asset
           (rnd (rnd (rnd (rnd (s * rnd 0.35) + rnd (te * rnd 0.30)) + rnd (v * rnd 0.20))
                 + rnd (c * rnd 0.15))) random \<and>
     (direction (prediction r) = Bullish
        \<longleftrightarrow> rnd (rnd (rnd (rnd (s * rnd 0.35) + rnd (te * rnd 0.30)) + rnd (v * rnd 0.20))
                 + rnd (c * rnd 0.15)) > rnd 0.1) \<and>
     (direction (prediction r) = Bearish
        \<longleftrightarrow> rnd (rnd (rnd (rnd (s * rnd 0.35) + rnd (te * rnd 0.30)) + rnd (v * rnd 0.20))
                 + rnd (c * rnd 0.15)) < - rnd 0.1) \<and>
     (direction (prediction r) = NeutralDirection
        \<longleftrightarrow> \<not> rnd (rnd (rnd (rnd (s * rnd 0.35) + rnd (te * rnd 0.30)) + rnd (v * rnd 0.20))
                   + rnd (c * rnd 0.15)) > rnd 0.1
            \<and> \<not> rnd (rnd (rnd (rnd (s * rnd 0.35) + rnd (te * rnd 0.30)) + rnd (v * rnd 0.20))
                     + rnd (c * rnd 0.15)) < - rnd 0.1)"
proof -
  assume pos: "0 \<le> rnd 0.1"
  obtain s where s: "calculateSentimentImpact rnd asset = Inr s"
    using calculateSentimentImpact_Inr by blast
  obtain te where t: "calculateTechnicalScore rnd asset = Inr te"
    using calculateTechnicalScore_total by blast
  obtain v where v: "calculateVolumeScore rnd asset = Inr v"
    using calculateVolumeScore_total by blast
  obtain c where c: "calculateSocialScore rnd asset = Inr c"
    using calculateSocialScore_total by blast
  let ?sc = "\<lparr>s_sentiment = s, s_technical = te, s_volume = v, s_social = c\<rparr>"
  let ?sum = "rnd (rnd (rnd (rnd (s * rnd 0.35) + rnd (te * rnd 0.30)) + rnd (v * rnd 0.20))
                   + rnd (c * rnd 0.15))"
  have comp: "compositeScore rnd (default_config rnd) ?sc = ?sum"
    by (simp add: compositeScore_def default_config_def fadd_def fmul_def)
  from generateForecast_Inr [OF s t v c, of "default_config rnd" random] obtain r
    where r: "generateForecast rnd (default_config rnd) asset random = Inr r"
      and d: "direction (prediction r)
                = direction_of rnd (compositeScore rnd (default_config rnd) ?sc)"
      and p: "price (prediction r)
                = predictPrice rnd asset (compositeScore rnd (default_config rnd) ?sc) random"
    by blast
  have dir: "direction (prediction r) = direction_of rnd ?sum"
    using d comp by simp
  have pr: "price (prediction r) = predictPrice rnd asset ?sum random"
    using p comp by simp
  have b1: "direction (prediction r) = Bullish \<longleftrightarrow> ?sum > rnd 0.1"
    unfolding dir direction_of_def by simp
  have b2: "direction (prediction r) = Bearish \<longleftrightarrow> ?sum < - rnd 0.1"
    unfolding dir direction_of_def using pos by auto
  have b3: "direction (prediction r) = NeutralDirection
      \<longleftrightarrow> \<not> ?sum > rnd 0.1 \<and> \<not> ?sum < - rnd 0.1"
    unfolding dir direction_of_def by auto
  from s t v c r comp pr b1 b2 b3 show ?thesis by blast
qed

text \<open>
  On \<open>borderline_asset\<close> the four scores are 0, 0.06666666666666668, 0.4 and 0 in
  doubles. Their weighted sum is 0.10000000000000002, above the double 0.1, and the
  direction is bullish; the same sum in exact arithmetic is 0.1.
\<close>

lemma borderline_scores:
  "calculateSentimentImpact binary64 borderline_asset = Inr 0"
  "calculateTechnicalScore binary64 borderline_asset
     = Inr (2401919801264265 / 36028797018963968)"
  "calculateVolumeScore binary64 borderline_asset = Inr (3602879701896397 / 9007199254740992)"
  "calculateSocialScore binary64 borderline_asset = Inr 0"
  by (simp_all add: calculateSentimentImpact_Inr calculateTechnicalScore_def
      calculateVolumeScore_def calculateSocialScore_def borderline_asset_def bare_asset_def
      rsi_step_def macd_step_def sma_step_def truthy_obj_def truthy_num_def
      deref_def bindE_def clamp_def Let_def binary64_eval)

lemma borderline_sum:
  "binary64 (binary64 (binary64 (binary64 (0 * binary64 0.35)
       + binary64 (2401919801264265 / 36028797018963968 * binary64 0.30))
       + binary64 (3602879701896397 / 9007199254740992 * binary64 0.20))
       + binary64 (0 * binary64 0.15))
     = 7205759403792795 / 72057594037927936"
  by (simp add: binary64_eval)

theorem generateForecast_composite_direction_witness:
  "0 \<le> binary64 0.1 \<and>
   calculateSentimentImpact binary64 borderline_asset = Inr 0 \<and>
   calculateTechnicalScore binary64 borderline_asset
     = Inr (2401919801264265 / 36028797018963968) \<and>
   calculateVolumeScore binary64 borderline_asset
     = Inr (3602879701896397 / 9007199254740992) \<and>
   calculateSocialScore binary64 borderline_asset = Inr 0 \<and>
   compositeScore binary64 (default_config binary64)
     \<lparr>s_sentiment = 0, s_technical = 2401919801264265 / 36028797018963968,
      s_volume = 3602879701896397 / 9007199254740992, s_social = 0\<rparr>
     = 7205759403792795 / 72057594037927936 \<and>
   binary64 0.1 = 3602879701896397 / 36028797018963968 \<and>
   (7205759403792795 / 72057594037927936 :: real) > 3602879701896397 / 36028797018963968 \<and>
   0 * 0.35 + (0.1 - 0.3 + 0.4) / 3 * 0.30 + 0.4 * 0.20 + 0 * 0.15 = (0.1 :: real) \<and>
   (\<exists>r. generateForecast binary64 (default_config binary64) borderline_asset 0.5 = Inr r
        \<and> direction (prediction r) = Bullish)"
proof -
  have pos: "0 \<le> binary64 0.1"
    by (simp add: binary64_literals)
  from generateForecast_composite_direction
    [where rnd = binary64 and asset = borderline_asset and random = "0.5", OF pos]
  obtain s te v c r
    where s: "calculateSentimentImpact binary64 borderline_asset = Inr s"
      and t: "calculateTechnicalScore binary64 borderline_asset = Inr te"
      and v: "calculateVolumeScore binary64 borderline_asset = Inr v"
      and c: "calculateSocialScore binary64 borderline_asset = Inr c"
      and r: "generateForecast binary64 (default_config binary64) borderline_asset 0.5 = Inr r"
      and comp: "compositeScore binary64 (default_config binary64)
                   \<lparr>s_sentiment = s, s_technical = te, s_volume = v, s_social = c\<rparr>
                 = binary64 (binary64 (binary64 (binary64 (s * binary64 0.35)
                     + binary64 (te * binary64 0.30)) + binary64 (v * binary64 0.20))
                     + binary64 (c * binary64 0.15))"
      and b: "direction (prediction r) = Bullish
          \<longleftrightarrow> binary64 (binary64 (binary64 (binary64 (s * binary64 0.35)
                     + binary64 (te * binary64 0.30)) + binary64 (v * binary64 0.20))
                     + binary64 (c * binary64 0.15)) > binary64 0.1"
    by blast
  from s t v c borderline_scores
  have eq: "s = 0" "te = 2401919801264265 / 36028797018963968"
    "v = 3602879701896397 / 9007199254740992" "c = 0"
    by simp_all
  have gt: "(7205759403792795 / 72057594037927936 :: real)
      > 3602879701896397 / 36028797018963968"
    by simp
  from b have "direction (prediction r) = Bullish"
    unfolding eq borderline_sum binary64_literals using gt by blast
  moreover from comp
  have "compositeScore binary64 (default_config binary64)
     \<lparr>s_sentiment = 0, s_technical = 2401919801264265 / 36028797018963968,
      s_volume = 3602879701896397 / 9007199254740992, s_social = 0\<rparr>
     = 7205759403792795 / 72057594037927936"
    unfolding eq borderline_sum .
  moreover have "0 * 0.35 + (0.1 - 0.3 + 0.4) / 3 * 0.30 + 0.4 * 0.20 + 0 * 0.15 = (0.1 :: real)"
    by simp
  ultimately show ?thesis
    using pos r gt borderline_scores binary64_literals(1) by blast
qed

text \<open>
  C2 (amended). \<open>generateForecast\<close> returns a result on every asset, under every
  configuration: no read of an absent object is reached. When \<open>technicalIndicators\<close>
  or \<open>socialMetrics\<close> is absent the technical, respectively social, score is 0, and
  when \<open>volume24h\<close> is absent (or 0) the volume score is 0. When \<open>newsArticles\<close>
  is absent the sentiment score is the asset's \<open>sentimentScore\<close> clamped to [-1, 1],
  which is 0 when \<open>sentimentScore\<close> is falsy.
\<close>

theorem generateForecast_total_with_defaults:
  "(\<exists>r. generateForecast rnd config asset random = Inr r) \<and>
   (technicalIndicators asset = None \<longrightarrow> calculateTechnicalScore rnd asset = Inr 0) \<and>
   (socialMetrics asset = None \<longrightarrow> calculateSocialScore rnd asset = Inr 0) \<and>
   (volume24h asset = None \<or> volume24h asset = Some 0
      \<longrightarrow> calculateVolumeScore rnd asset = Inr 0) \<and>
   (newsArticles asset = None
      \<longrightarrow> calculateSentimentImpact rnd asset = Inr (clamp (- 1) 1 (sentimentScore asset))) \<and>
   (newsArticles asset = None \<and> sentimentScore asset = 0
      \<longrightarrow> calculateSentimentImpact rnd asset = Inr 0)"
proof -
  obtain s where s: "calculateSentimentImpact rnd asset = Inr s"
    using calculateSentimentImpact_Inr by blast
  obtain te where t: "calculateTechnicalScore rnd asset = Inr te"
    using calculateTechnicalScore_total by blast
  obtain v where v: "calculateVolumeScore rnd asset = Inr v"
    using calculateVolumeScore_total by blast
  obtain c where c: "calculateSocialScore rnd asset = Inr c"
    using calculateSocialScore_total by blast
  have total: "\<exists>r. generateForecast rnd config asset random = Inr r"
    using generateForecast_Inr [OF s t v c, of config random] by blast
  have tech: "technicalIndicators asset = None \<longrightarrow> calculateTechnicalScore rnd asset = Inr 0"
    by (simp add: calculateTechnicalScore_def truthy_obj_def)
  have soc: "socialMetrics asset = None \<longrightarrow> calculateSocialScore rnd asset = Inr 0"
    by (simp add: calculateSocialScore_def truthy_obj_def)
  have vol: "volume24h asset = None \<or> volume24h asset = Some 0
      \<longrightarrow> calculateVolumeScore rnd asset = Inr 0"
    by (auto simp add: calculateVolumeScore_def truthy_num_def)
  have sent: "newsArticles asset = None
      \<longrightarrow> calculateSentimentImpact rnd asset = Inr (clamp (- 1) 1 (sentimentScore asset))"
    by (simp add: calculateSentimentImpact_Inr)
  have sent0: "newsArticles asset = None \<and> sentimentScore asset = 0
      \<longrightarrow> calculateSentimentImpact rnd asset = Inr 0"
    by (simp add: calculateSentimentImpact_Inr clamp_def)
  from total tech soc vol sent sent0 show ?thesis by blast
qed

theorem generateForecast_total_with_defaults_witness:
  "technicalIndicators bare_asset = None \<and> calculateTechnicalScore binary64 bare_asset = Inr 0 \<and>
   socialMetrics bare_asset = None \<and> calculateSocialScore binary64 bare_asset = Inr 0 \<and>
   volume24h bare_asset = None \<and> calculateVolumeScore binary64 bare_asset = Inr 0 \<and>
   newsArticles bare_asset = None \<and> sentimentScore bare_asset = 0 \<and>
   calculateSentimentImpact binary64 bare_asset = Inr 0 \<and>
   (\<exists>r. generateForecast binary64 (default_config binary64) bare_asset 0.5 = Inr r)"
  using generateForecast_total_with_defaults
    [where rnd = binary64 and config = "default_config binary64" and asset = bare_asset
       and random = "0.5"]
  by (simp add: bare_asset_def clamp_def)

theorem absent_news_sentiment_counterexample:
  "newsArticles half_asset = None \<and> calculateSentimentImpact binary64 half_asset = Inr 0.5
   \<and> calculateSentimentImpact binary64 half_asset \<noteq> Inr 0"
  by (simp add: calculateSentimentImpact_Inr half_asset_def bare_asset_def clamp_def)

text \<open>
  C3. The sentiment score stays in [-1, 1]: \<open>calculateSentimentImpact\<close> returns a value
  in that interval on every asset; the asset that the polling refresh computes has its
  \<open>sentimentScore\<close> in the interval whatever the starting score and the random draws
  (in particular for a starting score in [-1, 1]); and every asset that \<open>refreshData\<close>
  writes back through the SDK has it there.
\<close>

theorem sentiment_score_in_range:
  "(\<exists>s. calculateSentimentImpact rnd asset = Inr s \<and> - 1 \<le> s \<and> s \<le> 1) \<and>
   (- 1 \<le> sentimentScore (updatedAsset rnd asset d ts)
      \<and> sentimentScore (updatedAsset rnd asset d ts) \<le> 1) \<and>
   (\<exists>new. calls (snd (refreshData rnd env random ts now st)) = calls st @ new \<and>
      (\<forall>c \<in> set new. \<forall>i a. c = AssetsUpdate i a
          \<longrightarrow> - 1 \<le> sentimentScore a \<and> sentimentScore a \<le> 1))"
proof -
  have engine: "\<exists>s. calculateSentimentImpact rnd asset = Inr s \<and> - 1 \<le> s \<and> s \<le> 1"
    by (subst calculateSentimentImpact_Inr) (simp add: clamp_def)
  have one: "- 1 \<le> sentimentScore (updatedAsset rnd asset d ts)
      \<and> sentimentScore (updatedAsset rnd asset d ts) \<le> 1"
    by (simp add: updatedAsset_sentiment clamp_def)
  from issuesD [OF refreshData_issues, of rnd env random ts now st] obtain new
    where new: "calls (snd (refreshData rnd env random ts now st)) = calls st @ new"
      and ok: "list_all score_in_range new"
    by blast
  have "\<forall>c \<in> set new. \<forall>i a. c = AssetsUpdate i a
      \<longrightarrow> - 1 \<le> sentimentScore a \<and> sentimentScore a \<le> 1"
    using ok by (auto simp add: list_all_iff score_in_range_def)
  with new engine one show ?thesis by blast
qed

lemma refreshData_example:
  "calls (snd (refreshData binary64 one_asset_sdk (\<lambda>i. high_draws) ''now'' 1 idle_refresh))
     = [AssetsList,
        AssetsUpdate (Some ''a1'') (updatedAsset binary64 keen_asset high_draws ''now'')]"
  by (simp add: refreshData_def one_asset_sdk_def idle_refresh_def thenA_def bindA_def
      modify_def try_finally_def try_catch_def sdk_request_def returnA_def enumerate_eq_zip
      keen_asset_def bare_asset_def)

text \<open>
  The score 0.9375 with the draw 0.875: the sum with the variation is 1.05 in doubles,
  and the score written back is 1.
\<close>

lemma keen_asset_sum:
  "fadd binary64 0.9375 (fmul binary64 (fsub binary64 0.875 (binary64 0.5)) (binary64 0.3))
     = 4728779608739021 / 4503599627370496"
  by (simp add: binary64_eval)

lemma keen_asset_refreshed:
  "sentimentScore keen_asset = 0.9375"
  "sentimentScore (updatedAsset binary64 keen_asset high_draws ''now'') = 1"
  by (simp_all add: updatedAsset_sentiment keen_asset_def bare_asset_def high_draws_def
      clamp_def binary64_eval)

theorem sentiment_score_in_range_witness:
  "sentimentScore keen_asset = 0.9375 \<and>
   sentimentScore (updatedAsset binary64 keen_asset high_draws ''now'') = 1 \<and>
   calls (snd (refreshData binary64 one_asset_sdk (\<lambda>i. high_draws) ''now'' 1 idle_refresh))
     = [AssetsList,
        AssetsUpdate (Some ''a1'') (updatedAsset binary64 keen_asset high_draws ''now'')] \<and>
   (\<exists>s. calculateSentimentImpact binary64 keen_asset = Inr s \<and> - 1 \<le> s \<and> s \<le> 1)"
proof -
  note th = sentiment_score_in_range
    [where rnd = binary64 and asset = keen_asset and d = high_draws and ts = "''now''"
       and env = one_asset_sdk and random = "\<lambda>i. high_draws" and now = 1
       and st = idle_refresh]
  from th have "\<exists>s. calculateSentimentImpact binary64 keen_asset = Inr s \<and> - 1 \<le> s \<and> s \<le> 1"
    by blast
  with keen_asset_refreshed refreshData_example show ?thesis by blast
qed

section \<open>The claims about the search modal, the translations and the stored documents\<close>

text \<open>
  C6. The search filter narrows the list. Whatever the fetched list and the filter
  inputs, every asset that \<open>filterAssets\<close> returns is an element of the fetched list,
  is not a tracked symbol, has the selected type when one is selected, has its
  \<open>currentPrice\<close> at or above the parsed minimum and at or below the parsed maximum
  when these are given, and contains the search term, both in lower case, in its symbol
  or its name when a term is given; the lower case is the one of the engine's
  \<^verbatim>\<open>toLowerCase\<close>, whatever that function is. The output is never longer than the
  input.
\<close>

theorem filterAssets_narrows:
  "(\<forall>a \<in> set (filterAssets rnd parseFloat lowerCase f fetched).
      a \<in> set fetched \<and>
      symbol a \<notin> set (trackedSymbols f) \<and>
      (selectedType f \<noteq> AllTypes \<longrightarrow> selectedType f = OnlyType (atype a)) \<and>
      (minPrice f \<noteq> [] \<longrightarrow> (\<exists>lo. parseFloat (minPrice f) = Some lo \<and> lo \<le> currentPrice a)) \<and>
      (maxPrice f \<noteq> [] \<longrightarrow> (\<exists>hi. parseFloat (maxPrice f) = Some hi \<and> currentPrice a \<le> hi)) \<and>
      (searchTerm f \<noteq> [] \<longrightarrow>
         sublist (lowerCase (searchTerm f)) (lowerCase (symbol a))
         \<or> sublist (lowerCase (searchTerm f)) (lowerCase (name a)))) \<and>
   length (filterAssets rnd parseFloat lowerCase f fetched) \<le> length fetched"
  using filterAssets_subset [of _ rnd parseFloat lowerCase f fetched]
    length_filterAssets [of rnd parseFloat lowerCase f fetched]
  by blast

text \<open>
  A search for \<open>caf\<close> with the small letter U+00E9 finds the company whose name is
  written with the capital U+00C9: the engine lowers that letter. The bytewise
  lower case of the subscription page would not.
\<close>

lemma latin1_lowerCase_eval:
  "latin1_lowerCase ''ACME'' = ''acme''"
  "latin1_lowerCase ''Acme Corp'' = ''acme corp''"
  "latin1_lowerCase ''CAFE'' = ''cafe''"
  "latin1_lowerCase (''CAF'' @ [CHR 0xC3, CHR 0x89] @ '' Holdings'')
     = ''caf'' @ [CHR 0xC3, CHR 0xA9] @ '' holdings''"
  "latin1_lowerCase (''caf'' @ [CHR 0xC3, CHR 0xA9]) = ''caf'' @ [CHR 0xC3, CHR 0xA9]"
  by (simp_all add: lower_char_def char_of_def bit_0)

lemma filterAssets_example:
  "filterAssets binary64 digits_parseFloat latin1_lowerCase plain_filters listed_assets
     = [cafe_asset]"
  by (simp add: filterAssets_def plain_filters_def listed_assets_def bare_asset_fields
      tesla_asset_fields cafe_asset_fields digits_parseFloat_def new_Set_def uniqueBySymbol_def
      sort_with_def lower_char_def char_of_def bit_0 Let_def enumerate_eq_zip)

lemma sublist_example:
  "sublist (latin1_lowerCase (searchTerm plain_filters)) (latin1_lowerCase (name cafe_asset))"
  "\<not> sublist (toLowerCase (searchTerm plain_filters)) (toLowerCase (name cafe_asset))"
  "\<not> sublist (toLowerCase (searchTerm plain_filters)) (toLowerCase (symbol cafe_asset))"
  by (simp_all add: str_includes_sublist [symmetric] plain_filters_def cafe_asset_fields
      toLowerCase_def lower_char_def char_of_def bit_0)

theorem filterAssets_narrows_witness:
  "distinct (map symbol listed_assets) \<and>
   filterAssets binary64 digits_parseFloat latin1_lowerCase plain_filters listed_assets
     = [cafe_asset] \<and>
   cafe_asset \<in> set listed_assets \<and>
   symbol cafe_asset \<notin> set (trackedSymbols plain_filters) \<and>
   selectedType plain_filters = OnlyType (atype cafe_asset) \<and>
   digits_parseFloat (minPrice plain_filters) = Some 50 \<and>
   digits_parseFloat (maxPrice plain_filters) = Some 500 \<and>
   currentPrice cafe_asset = 120 \<and>
   sublist (latin1_lowerCase (searchTerm plain_filters)) (latin1_lowerCase (name cafe_asset)) \<and>
   \<not> sublist (toLowerCase (searchTerm plain_filters)) (toLowerCase (name cafe_asset)) \<and>
   length (filterAssets binary64 digits_parseFloat latin1_lowerCase plain_filters listed_assets)
     \<le> length listed_assets"
proof -
  note th = filterAssets_narrows
    [where rnd = binary64 and parseFloat = digits_parseFloat and lowerCase = latin1_lowerCase
       and f = plain_filters and fetched = listed_assets]
  have ex: "filterAssets binary64 digits_parseFloat latin1_lowerCase plain_filters listed_assets
      = [cafe_asset]"
    by (rule filterAssets_example)
  from th ex have "cafe_asset \<in> set listed_assets"
    and "symbol cafe_asset \<notin> set (trackedSymbols plain_filters)"
    and "length (filterAssets binary64 digits_parseFloat latin1_lowerCase plain_filters
                   listed_assets) \<le> length listed_assets"
    by simp_all
  moreover have "selectedType plain_filters = OnlyType (atype cafe_asset)"
    and "digits_parseFloat (minPrice plain_filters) = Some 50"
    and "digits_parseFloat (maxPrice plain_filters) = Some 500"
    and "currentPrice cafe_asset = 120"
    by (simp_all add: plain_filters_def cafe_asset_fields digits_parseFloat_def)
  moreover have "distinct (map symbol listed_assets)"
    by (simp add: listed_assets_def bare_asset_fields tesla_asset_fields cafe_asset_fields)
  ultimately show ?thesis using ex sublist_example by blast
qed

text \<open>
  C7. Tracked symbols are kept unique by deduplication in the UI code. The list that
  \<open>fetchAssets\<close> puts into the state, for every list that the SDK returns, holds each
  symbol at most once (and when the SDK call fails the state keeps the list it had);
  the list that \<open>filterAssets\<close> returns holds each symbol at most once; and every
  text that \<open>syncTrackedAssets\<close> writes is the JSON text of a record whose
  tracked-assets list has no duplicates. When the browser takes both writes and
  \<^verbatim>\<open>JSON.stringify\<close> does not throw, \<open>syncTrackedAssets\<close> returns normally; and
  whenever it returns normally, the user's key and the backup key hold the JSON text of
  a record whose tracked symbols are those given, each once.
\<close>

theorem tracked_symbols_unique:
  "(assets_list env (length (calls s)) = Resolved list
      \<longrightarrow> assets (snd (fetchAssets env s)) = uniqueBySymbol list
          \<and> distinct (map symbol (assets (snd (fetchAssets env s))))) \<and>
   (assets_list env (length (calls s)) = Rejected
      \<longrightarrow> assets (snd (fetchAssets env s)) = assets s) \<and>
   distinct (map symbol (filterAssets rnd parseFloat lowerCase f fetched)) \<and>
   (accepts (getStorageKey uid) \<and> accepts (getStorageKey uid @ ''_backup'')
      \<and> (\<forall>d. \<exists>json. JSON_stringify js d = Inr json) \<longrightarrow>
      fst (syncTrackedAssets js accepts uid tracked now drive) = Inr ()) \<and>
   (fst (syncTrackedAssets js accepts uid tracked now drive) = Inr () \<longrightarrow>
      (\<exists>d json.
          JSON_stringify js d = Inr json
          \<and> items (snd (syncTrackedAssets js accepts uid tracked now drive)) (getStorageKey uid)
              = Some json
          \<and> items (snd (syncTrackedAssets js accepts uid tracked now drive))
               (getStorageKey uid @ ''_backup'') = Some json
          \<and> set (trackedAssets d) = set tracked
          \<and> distinct (trackedAssets d))) \<and>
   (\<forall>k json. items (snd (syncTrackedAssets js accepts uid tracked now drive)) k = Some json
      \<longrightarrow> items drive k = Some json
          \<or> (\<exists>d. JSON_stringify js d = Inr json \<and> distinct (trackedAssets d)))"
proof -
  have fetched_ok: "assets_list env (length (calls s)) = Resolved list
      \<longrightarrow> assets (snd (fetchAssets env s)) = uniqueBySymbol list
          \<and> distinct (map symbol (assets (snd (fetchAssets env s))))"
    by (simp add: fetchAssets_state distinct_uniqueBySymbol)
  have failed_ok: "assets_list env (length (calls s)) = Rejected
      \<longrightarrow> assets (snd (fetchAssets env s)) = assets s"
    by (simp add: fetchAssets_state)
  have filtered_ok: "distinct (map symbol (filterAssets rnd parseFloat lowerCase f fetched))"
    by (simp add: filterAssets_def Let_def distinct_uniqueBySymbol)
  from syncTrackedAssets_save [of js accepts uid tracked now drive] obtain data drive'
    where sync: "syncTrackedAssets js accepts uid tracked now drive
        = saveUserData js accepts uid (data\<lparr>p_trackedAssets := Some (new_Set tracked)\<rparr>) now drive'"
      and same: "items drive' = items drive"
    by blast
  let ?d = "userData js uid (data\<lparr>p_trackedAssets := Some (new_Set tracked)\<rparr>) now"
  have tr: "set (trackedAssets ?d) = set tracked" "distinct (trackedAssets ?d)"
    by (simp_all add: trackedAssets_userData set_new_Set distinct_new_Set)
  have returns: "fst (syncTrackedAssets js accepts uid tracked now drive) = Inr ()"
    if a: "accepts (getStorageKey uid)" "accepts (getStorageKey uid @ ''_backup'')"
      and total: "\<forall>d. \<exists>json. JSON_stringify js d = Inr json"
  proof -
    from total obtain json where "JSON_stringify js ?d = Inr json" by blast
    from saveUserData_accepted [OF this a, of drive'] sync show ?thesis by simp
  qed
  have stored: "\<exists>d json.
      JSON_stringify js d = Inr json
      \<and> items (snd (syncTrackedAssets js accepts uid tracked now drive)) (getStorageKey uid)
          = Some json
      \<and> items (snd (syncTrackedAssets js accepts uid tracked now drive))
           (getStorageKey uid @ ''_backup'') = Some json
      \<and> set (trackedAssets d) = set tracked
      \<and> distinct (trackedAssets d)"
    if "fst (syncTrackedAssets js accepts uid tracked now drive) = Inr ()"
  proof -
    from that sync
    have "fst (saveUserData js accepts uid (data\<lparr>p_trackedAssets := Some (new_Set tracked)\<rparr>)
                 now drive') = Inr ()"
      by simp
    from saveUserData_returns [OF this] sync tr show ?thesis by auto
  qed
  have written: "items drive k = Some json
      \<or> (\<exists>d. JSON_stringify js d = Inr json \<and> distinct (trackedAssets d))"
    if "items (snd (syncTrackedAssets js accepts uid tracked now drive)) k = Some json"
    for k json
  proof -
    from that sync
    have "items (snd (saveUserData js accepts uid
                        (data\<lparr>p_trackedAssets := Some (new_Set tracked)\<rparr>) now drive')) k
            = Some json"
      by simp
    from saveUserData_writes [OF this] same tr show ?thesis by auto
  qed
  from fetched_ok failed_ok filtered_ok returns stored written show ?thesis by blast
qed

lemma uniqueBySymbol_example:
  "uniqueBySymbol served_assets = [bare_asset, tesla_asset]"
  by (simp add: uniqueBySymbol_def served_assets_def bare_asset_fields tesla_asset_fields
      enumerate_eq_zip)

theorem tracked_symbols_unique_witness:
  "assets_list listing_sdk (length (calls idle_search)) = Resolved served_assets \<and>
   map symbol served_assets = [''ACME'', ''TSLA'', ''ACME''] \<and>
   map symbol (assets (snd (fetchAssets listing_sdk idle_search))) = [''ACME'', ''TSLA''] \<and>
   distinct (map symbol (assets (snd (fetchAssets listing_sdk idle_search)))) \<and>
   fst (syncTrackedAssets (example_engine []) (\<lambda>key. True) ''u1'' [''ACME'', ''BTC'', ''ACME'']
          ''now'' empty_drive) = Inr () \<and>
   (\<exists>d. items (snd (syncTrackedAssets (example_engine []) (\<lambda>key. True) ''u1''
                      [''ACME'', ''BTC'', ''ACME''] ''now'' empty_drive)) (getStorageKey ''u1'')
          = Some (stringify_record d)
       \<and> set (trackedAssets d) = set [''ACME'', ''BTC'', ''ACME'']
       \<and> distinct (trackedAssets d))"
proof -
  note th = tracked_symbols_unique
    [where env = listing_sdk and s = idle_search and list = served_assets
       and rnd = binary64 and parseFloat = digits_parseFloat and lowerCase = latin1_lowerCase
       and f = plain_filters and fetched = listed_assets
       and js = "example_engine []" and accepts = "\<lambda>key. True"
       and uid = "''u1''" and tracked = "[''ACME'', ''BTC'', ''ACME'']" and now = "''now''"
       and drive = empty_drive]
  have r: "assets_list listing_sdk (length (calls idle_search)) = Resolved served_assets"
    by (simp add: listing_sdk_def)
  from th r have a: "assets (snd (fetchAssets listing_sdk idle_search))
      = uniqueBySymbol served_assets"
    and d: "distinct (map symbol (assets (snd (fetchAssets listing_sdk idle_search))))"
    by blast+
  have m: "map symbol (uniqueBySymbol served_assets) = [''ACME'', ''TSLA'']"
    by (simp add: uniqueBySymbol_example bare_asset_fields tesla_asset_fields)
  have m0: "map symbol served_assets = [''ACME'', ''TSLA'', ''ACME'']"
    by (simp add: served_assets_def bare_asset_fields tesla_asset_fields)
  have total: "\<forall>d. \<exists>json. JSON_stringify (example_engine []) d = Inr json"
    by (simp add: example_engine_def)
  from th total
  have ret: "fst (syncTrackedAssets (example_engine []) (\<lambda>key. True) ''u1''
                    [''ACME'', ''BTC'', ''ACME''] ''now'' empty_drive) = Inr ()"
    by blast
  with th obtain d json
    where "JSON_stringify (example_engine []) d = Inr json"
      and "items (snd (syncTrackedAssets (example_engine []) (\<lambda>key. True) ''u1''
                        [''ACME'', ''BTC'', ''ACME''] ''now'' empty_drive)) (getStorageKey ''u1'')
             = Some json"
      and "set (trackedAssets d) = set [''ACME'', ''BTC'', ''ACME'']"
      and "distinct (trackedAssets d)"
    by blast
  then have "\<exists>d. items (snd (syncTrackedAssets (example_engine []) (\<lambda>key. True) ''u1''
                      [''ACME'', ''BTC'', ''ACME''] ''now'' empty_drive)) (getStorageKey ''u1'')
          = Some (stringify_record d)
       \<and> set (trackedAssets d) = set [''ACME'', ''BTC'', ''ACME'']
       \<and> distinct (trackedAssets d)"
    by (auto simp add: example_engine_def)
  with r a d m m0 ret show ?thesis by simp
qed

text \<open>
  C8. The translation function \<open>t\<close> is total with an identity fallback: for every key
  that the translation table has, it returns the string of that key's entry for the
  selected language, English or Slovak, and for every key that the table does not have
  it returns the key itself. A key that the table has is the first component of one of
  its entries.
\<close>

theorem t_identity_fallback:
  "(\<forall>e. (key, e) \<in> set translations_table
        \<longrightarrow> t language key = (case language of En \<Rightarrow> en e | Sk \<Rightarrow> sk e)) \<and>
   (key \<notin> fst ` set translations_table \<longrightarrow> t language key = key)"
proof -
  have "t language key = (case language of En \<Rightarrow> en e | Sk \<Rightarrow> sk e)"
    if mem: "(key, e) \<in> set translations_table" for e
  proof -
    from lookup_present [OF keys_distinct mem]
    have e: "lookup translations_table key = Some e" .
    from lookup_list_all [OF translations_nonempty e]
    have "en e \<noteq> [] \<and> sk e \<noteq> []" .
    then have "pick language e \<noteq> []"
      by (cases language) (simp_all add: pick_def)
    with e show ?thesis by (simp add: t_def pick_def)
  qed
  moreover have "key \<notin> fst ` set translations_table \<longrightarrow> t language key = key"
    by (simp add: t_def lookup_absent)
  ultimately show ?thesis by blast
qed

text \<open>The first entry, one of the middle and the last, and a key that is no entry's.\<close>

theorem t_identity_fallback_witness:
  "(''nav.dashboard'', \<lparr>en = ''Dashboard'', sk = ''Preh'' @ [CHR 0xC4, CHR 0xBE] @ ''ad''\<rparr>)
     \<in> set translations_table \<and>
   t En ''nav.dashboard'' = ''Dashboard'' \<and>
   t Sk ''nav.dashboard'' = ''Preh'' @ [CHR 0xC4, CHR 0xBE] @ ''ad'' \<and>
   (''common.error'', \<lparr>en = ''Error'', sk = ''Chyba''\<rparr>) \<in> set translations_table \<and>
   t En ''common.error'' = ''Error'' \<and>
   t Sk ''common.error'' = ''Chyba'' \<and>
   t En ''success.unsubscribed'' = ''Successfully unsubscribed'' \<and>
   t Sk ''success.unsubscribed''
     = [CHR 0xC3, CHR 0x9A] @ ''spe'' @ [CHR 0xC5, CHR 0xA1] @ ''ne zru''
       @ [CHR 0xC5, CHR 0xA1] @ ''en'' @ [CHR 0xC3, CHR 0xA9] @ '' odberanie'' \<and>
   ''no such key'' \<notin> fst ` set translations_table \<and>
   t Sk ''no such key'' = ''no such key''"
proof -
  note first = t_identity_fallback [where key = "''nav.dashboard''"]
  note middle = t_identity_fallback [where key = "''common.error''"]
  note final = t_identity_fallback [where key = "''success.unsubscribed''"]
  note none = t_identity_fallback [where key = "''no such key''" and language = Sk]
  have absent: "''no such key'' \<notin> fst ` set translations_table"
    by (rule key_absent [OF keys_dotted]) simp
  from first [where language = En] first [where language = Sk] table_entries(1)
  have a: "t En ''nav.dashboard'' = ''Dashboard''"
    "t Sk ''nav.dashboard'' = ''Preh'' @ [CHR 0xC4, CHR 0xBE] @ ''ad''"
    by fastforce+
  from middle [where language = En] middle [where language = Sk] table_entries(2)
  have b: "t En ''common.error'' = ''Error''" "t Sk ''common.error'' = ''Chyba''"
    by fastforce+
  from final [where language = En] final [where language = Sk] table_entries(3)
  have c: "t En ''success.unsubscribed'' = ''Successfully unsubscribed''"
    "t Sk ''success.unsubscribed''
       = [CHR 0xC3, CHR 0x9A] @ ''spe'' @ [CHR 0xC5, CHR 0xA1] @ ''ne zru''
         @ [CHR 0xC5, CHR 0xA1] @ ''en'' @ [CHR 0xC3, CHR 0xA9] @ '' odberanie''"
    by fastforce+
  from none absent have d: "t Sk ''no such key'' = ''no such key''"
    by blast
  from a b c d absent table_entries(1) table_entries(2) show ?thesis
    by blast
qed







section \<open>The claims about the alerts hook and the subscription page\<close>

text \<open>
  C4. Applying a promo code while authenticated unlocks a plan exactly when the code
  entered equals \<open>fasb99rfa9\<close> up to the case of its letters. In that case the first
  SDK call of \<open>handlePromoCode\<close> updates the current subscription, or creates one when
  there is none, with plan premium, status active and an end date 365 days after the
  clock reading; the only other call is the list of the refetch, and when the SDK
  resolves the write the success toast is shown and the promo input is reset. For any
  other code the state is the one before with one more toast, the error toast: no SDK
  call is made and the current subscription is unchanged. No error leaves the handler.
\<close>

theorem promo_code_unlocks_premium:
  "isAuthenticated auth \<Longrightarrow>
   fst (handlePromoCode env auth language now s) = Inr () \<and>
   (toLowerCase (promoCode s) = ''fasb99rfa9''
      \<longleftrightarrow> equal_ignoring_case (promoCode s) ''fasb99rfa9'') \<and>
   (equal_ignoring_case (promoCode s) ''fasb99rfa9'' \<longrightarrow>
      (\<exists>rest.
         calls (snd (handlePromoCode env auth language now s)) =
           calls s @
           (let subscriptionData =
                  \<lparr>sd_userId = map_option userId (user auth), sd_plan = Premium,
                   sd_status = Active, sd_startDate = now,
                   sd_endDate = now + 365 * 24 * 60 * 60 * 1000,
                   sd_promoCode = promoCode s,
                   sd_creator = map_option userId (user auth),
                   sd_createdAt = now, sd_updatedAt = now\<rparr>
            in case currentSubscription s of
                 Some current \<Rightarrow> SubscriptionsUpdate (sub_id current) subscriptionData
               | None \<Rightarrow> SubscriptionsCreate subscriptionData) # rest
         \<and> (rest = [] \<or> rest = [SubscriptionsList])) \<and>
      (write_result env (length (calls s)) = Resolved () \<longrightarrow>
         toasts (snd (handlePromoCode env auth language now s)) =
           toasts s @ [ToastSuccess ''Promo code applied! You now have Premium access.''] \<and>
         promoCode (snd (handlePromoCode env auth language now s)) = [] \<and>
         \<not> showPromoInput (snd (handlePromoCode env auth language now s)))) \<and>
   (\<not> equal_ignoring_case (promoCode s) ''fasb99rfa9'' \<longrightarrow>
      snd (handlePromoCode env auth language now s) =
        s\<lparr>toasts := toasts s @ [ToastError ''Invalid promo code. Please try again.'']\<rparr> \<and>
      calls (snd (handlePromoCode env auth language now s)) = calls s \<and>
      currentSubscription (snd (handlePromoCode env auth language now s)) = currentSubscription s)"
proof -
  assume auth: "isAuthenticated auth"
  let ?h = "handlePromoCode env auth language now s"
  let ?data = "\<lparr>sd_userId = map_option userId (user auth), sd_plan = Premium,
                 sd_status = Active, sd_startDate = now,
                 sd_endDate = now + 365 * 24 * 60 * 60 * 1000,
                 sd_promoCode = promoCode s,
                 sd_creator = map_option userId (user auth),
                 sd_createdAt = now, sd_updatedAt = now\<rparr>"
  let ?req = "case currentSubscription s of
                  Some current \<Rightarrow> SubscriptionsUpdate (sub_id current) ?data
                | None \<Rightarrow> SubscriptionsCreate ?data"
  let ?s1 = "s\<lparr>calls := calls s @ [?req]\<rparr>"
  have match: "toLowerCase (promoCode s) = ''fasb99rfa9''
      \<longleftrightarrow> equal_ignoring_case (promoCode s) ''fasb99rfa9''"
    by (rule promo_code_match)
  have other: "snd ?h = s\<lparr>toasts := toasts s @ [ToastError ''Invalid promo code. Please try again.'']\<rparr>"
    and other_fst: "fst ?h = Inr ()"
    if "\<not> equal_ignoring_case (promoCode s) ''fasb99rfa9''"
    using that auth match
    by (simp_all add: handlePromoCode_def toast_error_def modify_def)
  have rejected: "?h = (Inr (), ?s1\<lparr>console := console s @ [''Failed to apply promo code:''],
                                     toasts := toasts s @ [ToastError (t language ''common.error'')]\<rparr>)"
    if "equal_ignoring_case (promoCode s) ''fasb99rfa9''"
      and "write_result env (length (calls s)) = Rejected"
    using that auth match
    by (cases "currentSubscription s")
       (simp_all add: handlePromoCode_def year_ms_def Let_def try_catch_def thenA_def bindA_def
          sdk_request_def console_error_def toast_error_def modify_def)
  have resolved: "?h =
      (Inr (), (snd (fetchSubscription env auth ?s1))
                 \<lparr>promoCode := [], showPromoInput := False,
                  toasts := toasts s @ [ToastSuccess ''Promo code applied! You now have Premium access.'']\<rparr>)"
    if "equal_ignoring_case (promoCode s) ''fasb99rfa9''"
      and "write_result env (length (calls s)) = Resolved ()"
  proof -
    obtain r s2 where f: "fetchSubscription env auth ?s1 = (r, s2)"
      by (cases "fetchSubscription env auth ?s1")
    with fetchSubscription_keeps [of env auth ?s1]
    have r: "r = Inr ()" and ts: "toasts s2 = toasts s" by simp_all
    from that auth match f r ts show ?thesis
      by (cases "currentSubscription s")
         (simp_all add: handlePromoCode_def year_ms_def Let_def try_catch_def thenA_def bindA_def
            sdk_request_def toast_success_def modify_def)
  qed
  have matched: "fst ?h = Inr ()
      \<and> (\<exists>rest. calls (snd ?h) = calls s @ ?req # rest \<and> (rest = [] \<or> rest = [SubscriptionsList]))
      \<and> (write_result env (length (calls s)) = Resolved () \<longrightarrow>
            toasts (snd ?h) = toasts s @ [ToastSuccess ''Promo code applied! You now have Premium access.'']
            \<and> promoCode (snd ?h) = [] \<and> \<not> showPromoInput (snd ?h))"
    if m: "equal_ignoring_case (promoCode s) ''fasb99rfa9''"
  proof (cases "write_result env (length (calls s))")
    case Rejected
    from rejected [OF m Rejected] Rejected show ?thesis by simp
  next
    case (Resolved u)
    then have w: "write_result env (length (calls s)) = Resolved ()" by simp
    from resolved [OF m w] fetchSubscription_calls [of env auth ?s1]
    show ?thesis by simp
  qed
  show ?thesis
  proof (cases "equal_ignoring_case (promoCode s) ''fasb99rfa9''")
    case True
    with matched [OF True] match show ?thesis unfolding Let_def by blast
  next
    case False
    from other [OF False] have "calls (snd ?h) = calls s"
      and "currentSubscription (snd ?h) = currentSubscription s" by simp_all
    with False other [OF False] other_fst [OF False] match show ?thesis by blast
  qed
qed

lemma handlePromoCode_example:
  "snd (handlePromoCode one_asset_sdk signed_in En 1000 promo_page) =
     promo_page
       \<lparr>calls :=
          [SubscriptionsCreate
             \<lparr>sd_userId = Some ''u1'', sd_plan = Premium, sd_status = Active,
              sd_startDate = 1000, sd_endDate = 31536001000, sd_promoCode = ''FASB99rfa9'',
              sd_creator = Some ''u1'', sd_createdAt = 1000, sd_updatedAt = 1000\<rparr>,
           SubscriptionsList],
        toasts := [ToastSuccess ''Promo code applied! You now have Premium access.''],
        promoCode := [], showPromoInput := False\<rparr>"
  by (simp add: handlePromoCode_def promo_page_def signed_in_def one_asset_sdk_def lower_eval
      year_ms_def Let_def try_catch_def try_finally_def thenA_def bindA_def sdk_request_def
      toast_success_def modify_def fetchSubscription_def)

theorem promo_code_unlocks_premium_witness:
  "isAuthenticated signed_in \<and>
   equal_ignoring_case (promoCode promo_page) ''fasb99rfa9'' \<and>
   calls (snd (handlePromoCode one_asset_sdk signed_in En 1000 promo_page)) =
     [SubscriptionsCreate
        \<lparr>sd_userId = Some ''u1'', sd_plan = Premium, sd_status = Active,
         sd_startDate = 1000, sd_endDate = 31536001000, sd_promoCode = ''FASB99rfa9'',
         sd_creator = Some ''u1'', sd_createdAt = 1000, sd_updatedAt = 1000\<rparr>,
      SubscriptionsList] \<and>
   toasts (snd (handlePromoCode one_asset_sdk signed_in En 1000 promo_page)) =
     [ToastSuccess ''Promo code applied! You now have Premium access.''] \<and>
   \<not> equal_ignoring_case (promoCode wrong_page) ''fasb99rfa9'' \<and>
   calls (snd (handlePromoCode one_asset_sdk signed_in En 1000 wrong_page)) = [] \<and>
   currentSubscription (snd (handlePromoCode one_asset_sdk signed_in En 1000 wrong_page)) = None \<and>
   toasts (snd (handlePromoCode one_asset_sdk signed_in En 1000 wrong_page)) =
     [ToastError ''Invalid promo code. Please try again.'']"
proof -
  have a: "isAuthenticated signed_in" by (simp add: signed_in_def)
  note good = promo_code_unlocks_premium
    [OF a, where env = one_asset_sdk and language = En and now = 1000 and s = promo_page]
  note bad = promo_code_unlocks_premium
    [OF a, where env = one_asset_sdk and language = En and now = 1000 and s = wrong_page]
  have g: "equal_ignoring_case (promoCode promo_page) ''fasb99rfa9''"
    using good by (simp add: promo_page_def lower_eval)
  have b: "\<not> equal_ignoring_case (promoCode wrong_page) ''fasb99rfa9''"
    using bad by (simp add: wrong_page_def promo_page_def lower_eval)
  from bad b have "calls (snd (handlePromoCode one_asset_sdk signed_in En 1000 wrong_page)) = []"
    and "currentSubscription (snd (handlePromoCode one_asset_sdk signed_in En 1000 wrong_page)) = None"
    and "toasts (snd (handlePromoCode one_asset_sdk signed_in En 1000 wrong_page)) =
      [ToastError ''Invalid promo code. Please try again.'']"
    by (simp_all add: wrong_page_def promo_page_def)
  with a g b handlePromoCode_example show ?thesis by simp
qed

text \<open>
  C5 (amended). Every SDK failure in the alerts and subscription operations is caught:
  no error leaves \<open>fetchAlerts\<close>, \<open>createAlert\<close>, \<open>updateAlert\<close>, \<open>deleteAlert\<close> or
  \<open>fetchSubscription\<close>, whatever the SDK answers. When the SDK rejects the create, the
  update or the delete, the operation shows its error toast. When the SDK rejects the
  list of \<open>fetchAlerts\<close> or of \<open>fetchSubscription\<close>, the error is logged and no toast
  is shown.
\<close>

theorem sdk_failures_caught:
  "fst (fetchAlerts env auth s) = Inr () \<and>
   (\<exists>created. fst (createAlert env auth fmt now config s) = Inr created) \<and>
   fst (updateAlert env auth alertId updates s) = Inr () \<and>
   fst (deleteAlert env auth alertId s) = Inr () \<and>
   fst (fetchSubscription env auth p) = Inr () \<and>
   (alerts_entity env \<and> write_result env (length (calls s)) = Rejected \<longrightarrow>
      toasts (snd (updateAlert env auth alertId updates s))
        = toasts s @ [ToastError ''Failed to update alert''] \<and>
      toasts (snd (deleteAlert env auth alertId s))
        = toasts s @ [ToastError ''Failed to delete alert''] \<and>
      (isAuthenticated auth \<and> user auth \<noteq> None \<longrightarrow>
         fst (createAlert env auth fmt now config s) = Inr False \<and>
         toasts (snd (createAlert env auth fmt now config s))
           = toasts s @ [ToastError ''Failed to create alert''])) \<and>
   (alerts_entity env \<and> alerts_list env (length (calls s)) = Rejected
      \<and> isAuthenticated auth \<and> user auth \<noteq> None \<longrightarrow>
      toasts (snd (fetchAlerts env auth s)) = toasts s \<and>
      console (snd (fetchAlerts env auth s)) = console s @ [''Failed to fetch alerts:'']) \<and>
   (subscriptions_list env (length (calls p)) = Rejected \<longrightarrow>
      toasts (snd (fetchSubscription env auth p)) = toasts p \<and>
      console (snd (fetchSubscription env auth p))
        = console p @ [''Failed to fetch subscription:''])"
proof -
  have caught: "fst (fetchAlerts env auth s) = Inr ()"
    "\<exists>created. fst (createAlert env auth fmt now config s) = Inr created"
    "fst (updateAlert env auth alertId updates s) = Inr ()"
    "fst (deleteAlert env auth alertId s) = Inr ()"
    "fst (fetchSubscription env auth p) = Inr ()"
    using no_throwD [OF no_throw_fetchAlerts, of env auth s]
      no_throwD [OF no_throw_createAlert, of env auth fmt now config s]
      no_throwD [OF no_throw_updateAlert, of env auth alertId updates s]
      no_throwD [OF no_throw_deleteAlert, of env auth alertId s]
      no_throwD [OF no_throw_fetchSubscription, of env auth p]
    by simp_all
  have writes: "alerts_entity env \<and> write_result env (length (calls s)) = Rejected \<longrightarrow>
      toasts (snd (updateAlert env auth alertId updates s))
        = toasts s @ [ToastError ''Failed to update alert''] \<and>
      toasts (snd (deleteAlert env auth alertId s))
        = toasts s @ [ToastError ''Failed to delete alert''] \<and>
      (isAuthenticated auth \<and> user auth \<noteq> None \<longrightarrow>
         fst (createAlert env auth fmt now config s) = Inr False \<and>
         toasts (snd (createAlert env auth fmt now config s))
           = toasts s @ [ToastError ''Failed to create alert''])"
    by (simp add: updateAlert_rejected deleteAlert_rejected createAlert_rejected)
  have lists: "alerts_entity env \<and> alerts_list env (length (calls s)) = Rejected
      \<and> isAuthenticated auth \<and> user auth \<noteq> None \<longrightarrow>
      toasts (snd (fetchAlerts env auth s)) = toasts s \<and>
      console (snd (fetchAlerts env auth s)) = console s @ [''Failed to fetch alerts:'']"
    by (simp add: fetchAlerts_rejected)
  have subs: "subscriptions_list env (length (calls p)) = Rejected \<longrightarrow>
      toasts (snd (fetchSubscription env auth p)) = toasts p \<and>
      console (snd (fetchSubscription env auth p))
        = console p @ [''Failed to fetch subscription:'']"
    by (simp add: fetchSubscription_rejected)
  from caught writes lists subs show ?thesis by blast
qed

lemma failing_sdk_fields:
  "alerts_entity failing_sdk" "write_result failing_sdk n = Rejected"
  "alerts_list failing_sdk n = Rejected" "subscriptions_list failing_sdk n = Rejected"
  by (simp_all add: failing_sdk_def)

lemma signed_in_fields: "isAuthenticated signed_in" "user signed_in \<noteq> None"
  by (simp_all add: signed_in_def)

theorem sdk_failures_caught_witness:
  "alerts_entity failing_sdk \<and> write_result failing_sdk (length (calls idle_alerts)) = Rejected \<and>
   alerts_list failing_sdk (length (calls idle_alerts)) = Rejected \<and>
   subscriptions_list failing_sdk (length (calls promo_page)) = Rejected \<and>
   isAuthenticated signed_in \<and> user signed_in \<noteq> None \<and>
   fst (updateAlert failing_sdk signed_in (Some ''al1'')
          \<lparr>u_triggered = None, u_currentValue = Some 1, u_triggeredAt = None\<rparr> idle_alerts) = Inr () \<and>
   toasts (snd (updateAlert failing_sdk signed_in (Some ''al1'')
          \<lparr>u_triggered = None, u_currentValue = Some 1, u_triggeredAt = None\<rparr> idle_alerts))
     = [ToastError ''Failed to update alert''] \<and>
   toasts (snd (deleteAlert failing_sdk signed_in (Some ''al1'') idle_alerts))
     = [ToastError ''Failed to delete alert''] \<and>
   console (snd (fetchAlerts failing_sdk signed_in idle_alerts)) = [''Failed to fetch alerts:''] \<and>
   console (snd (fetchSubscription failing_sdk signed_in promo_page))
     = [''Failed to fetch subscription:'']"
  using sdk_failures_caught
    [where env = failing_sdk and auth = signed_in and s = idle_alerts and p = promo_page
       and alertId = "Some ''al1''"
       and updates = "\<lparr>u_triggered = None, u_currentValue = Some 1, u_triggeredAt = None\<rparr>"
       and fmt = "\<lparr>toLocaleString = (\<lambda>x. ''90''), toString = (\<lambda>x. ''90'')\<rparr>"
       and now = 0
       and config = "\<lparr>c_assetSymbol = ''ACME'', c_type = PriceUp, c_threshold = 90, c_enabled = True\<rparr>"]
  by (simp add: failing_sdk_fields signed_in_fields idle_alerts_def promo_page_def)

theorem silent_fetch_counterexample:
  "alerts_entity failing_sdk \<and>
   alerts_list failing_sdk (length (calls idle_alerts)) = Rejected \<and>
   fst (fetchAlerts failing_sdk signed_in idle_alerts) = Inr () \<and>
   calls (snd (fetchAlerts failing_sdk signed_in idle_alerts)) = [AlertsList] \<and>
   toasts (snd (fetchAlerts failing_sdk signed_in idle_alerts)) = []"
  by (simp add: fetchAlerts_rejected failing_sdk_fields signed_in_fields idle_alerts_def)






end
